(* ===== verification/LifeSim_Prelude.thy ===== *)
theory LifeSim_Prelude
  imports Main
begin

text \<open>
  Shared vocabulary of the life-sim client model.

  Every \<^verbatim>\<open>async\<close> function of the sources is modelled as a function that takes
  the state it can touch and returns the settled promise together with the new state:
  \<open>Inl e\<close> is a promise rejected with \<open>e\<close> (a \<^verbatim>\<open>throw\<close>), \<open>Inr v\<close> one fulfilled with
  \<open>v\<close>. This theory names that shape, gives the two observations on it that the
  component theories state their results with, and declares the theorem collections
  the component theories fill:
  \<^item> \<open>js_defs\<close>: the definitions of the JavaScript built-ins the code relies on;
  \<^item> \<open>api_defs\<close>: the endpoint methods of \<^verbatim>\<open>ApiService\<close>, each a call of \<^verbatim>\<open>request\<close>;
  \<^item> \<open>frame\<close>: facts of the form "this operation leaves that part of the state alone";
  \<^item> \<open>view_defs\<close>: the handlers and render functions of the React components.
\<close>

named_theorems js_defs "definitions of the JavaScript built-ins used by the sources"
named_theorems api_defs "definitions of the ApiService endpoint methods"
named_theorems frame "parts of the state an operation does not change"
named_theorems view_defs "definitions of component handlers and render functions"

type_synonym ('e, 'a, 's) promise = "('e + 'a) \<times> 's"
type_synonym ('e, 'a, 's) async = "'s \<Rightarrow> ('e, 'a, 's) promise"

definition fulfilled :: "('e, 'a, 's) promise \<Rightarrow> bool" where
  "fulfilled r \<longleftrightarrow> \<not> isl (fst r)"

definition rejected :: "('e, 'a, 's) promise \<Rightarrow> bool" where
  "rejected r \<longleftrightarrow> isl (fst r)"

abbreviation settled_state :: "('e, 'a, 's) promise \<Rightarrow> 's" where
  "settled_state r \<equiv> snd r"

lemma fulfilled_simps [simp]:
  "fulfilled (Inr v, s)" "\<not> fulfilled (Inl e, s)"
  by (simp_all add: fulfilled_def)

lemma rejected_simps [simp]:
  "rejected (Inl e, s)" "\<not> rejected (Inr v, s)"
  by (simp_all add: rejected_def)

lemma rejected_iff_not_fulfilled: "rejected r \<longleftrightarrow> \<not> fulfilled r"
  by (simp add: rejected_def fulfilled_def)

lemma fulfilledE:
  assumes "fulfilled r"
  obtains v s where "r = (Inr v, s)"
  using assms by (cases r; cases "fst r") (auto simp: fulfilled_def)

lemma rejectedE:
  assumes "rejected r"
  obtains e s where "r = (Inl e, s)"
  using assms by (cases r; cases "fst r") (auto simp: rejected_def)

text \<open>
  Object spread \<^verbatim>\<open>{...a, ...b}\<close> on string-keyed records is \<open>a ++ b\<close> on maps: the right
  operand wins. The two lookups below are what the header-building code needs.
\<close>

lemma spread_lookup_right [simp]: "b k = Some v \<Longrightarrow> (a ++ b) k = Some v"
  by (simp add: map_add_def)

lemma spread_lookup_left [simp]: "b k = None \<Longrightarrow> (a ++ b) k = a k"
  by (simp add: map_add_def)

text \<open>A list with one element splits in one way.\<close>

lemma singleton_split:
  "ps @ w # qs = [w'] \<longleftrightarrow> ps = [] \<and> qs = [] \<and> w = w'"
  "[w'] = ps @ w # qs \<longleftrightarrow> ps = [] \<and> qs = [] \<and> w = w'"
  by (cases ps; auto)+

end
