(* ===== verification/JsValue.thy ===== *)
theory JsValue
  imports LifeSim_Prelude
begin

text \<open>
  The JavaScript values and built-in operations the sources rely on at run time.

  The TypeScript interfaces of \<^verbatim>\<open>api.ts\<close> are erased by the compiler: what a
  \<^verbatim>\<open>Promise<GameState>\<close> holds is whatever JSON the server sent. The handlers therefore
  read properties of, test the truthiness of, and interpolate into strings arbitrary
  JSON values. \<open>jsval\<close> is that universe (JSON plus \<^verbatim>\<open>undefined\<close>); numbers are the
  integers, the only numbers the interfaces declare, printed in decimal, which is what
  JavaScript prints for an integer of magnitude below \<open>10^21\<close>.

  \<^item> \<open>truthy\<close> is the test of \<^verbatim>\<open>if (x)\<close>, \<^verbatim>\<open>x || y\<close>, \<^verbatim>\<open>x && y\<close> and \<^verbatim>\<open>!x\<close>;
  \<^item> \<open>to_string\<close> is the conversion of a template literal, of \<^verbatim>\<open>new Error(x)\<close> and of
    \<^verbatim>\<open>localStorage.setItem(k, x)\<close>;
  \<^item> \<open>get_prop\<close> is the read \<^verbatim>\<open>x.k\<close> of a data property: a \<^verbatim>\<open>TypeError\<close> on
    \<^verbatim>\<open>null\<close> and \<^verbatim>\<open>undefined\<close>, the field of an object, \<^verbatim>\<open>undefined\<close> otherwise
    (the keys the sources read are no built-in members of strings, numbers or arrays);
  \<^item> \<open>opt_chain\<close> is \<^verbatim>\<open>x?.k\<close>, \<open>or_else\<close> is \<^verbatim>\<open>x || y\<close>;
  \<^item> \<open>js_error\<close> is what a \<^verbatim>\<open>throw\<close> or a rejected promise carries.
\<close>

section \<open>Values\<close>

datatype jsval =
    JUndefined
  | JNull
  | JBool bool
  | JNum int
  | JStr string
  | JArr "jsval list"
  | JObj "(string \<times> jsval) list"

datatype js_error =
    Error string
  | TypeError string
  | SyntaxError string
  | Thrown jsval

text \<open>
  \<open>Error\<close>, \<open>TypeError\<close> and \<open>SyntaxError\<close> are instances of \<^verbatim>\<open>Error\<close> and carry their
  \<^verbatim>\<open>message\<close>; \<open>Thrown v\<close> is a thrown value that is no \<^verbatim>\<open>Error\<close> object.
\<close>

fun instanceof_Error :: "js_error \<Rightarrow> bool" where
  "instanceof_Error (Thrown v) = False"
| "instanceof_Error e = True"

fun message :: "js_error \<Rightarrow> string" where
  "message (Error m) = m"
| "message (TypeError m) = m"
| "message (SyntaxError m) = m"
| "message (Thrown v) = []"

definition nullish :: "jsval \<Rightarrow> bool" where
  "nullish v \<longleftrightarrow> v = JUndefined \<or> v = JNull"

fun truthy :: "jsval \<Rightarrow> bool" where
  "truthy JUndefined = False"
| "truthy JNull = False"
| "truthy (JBool b) = b"
| "truthy (JNum i) = (i \<noteq> 0)"
| "truthy (JStr s) = (s \<noteq> [])"
| "truthy (JArr xs) = True"
| "truthy (JObj kvs) = True"

definition or_else :: "jsval \<Rightarrow> jsval \<Rightarrow> jsval" where
  "or_else x y = (if truthy x then x else y)"

section \<open>Conversion to strings\<close>

definition digit_char :: "nat \<Rightarrow> char" where
  "digit_char d = char_of (48 + d)"

fun show_nat :: "nat \<Rightarrow> string" where
  "show_nat n = (if n < 10 then [digit_char n] else show_nat (n div 10) @ [digit_char (n mod 10)])"

declare show_nat.simps [simp del]

definition show_int :: "int \<Rightarrow> string" where
  "show_int i = (if i < 0 then CHR ''-'' # show_nat (nat (- i)) else show_nat (nat i))"

fun join :: "string \<Rightarrow> string list \<Rightarrow> string" where
  "join sep [] = []"
| "join sep [x] = x"
| "join sep (x # y # ys) = x @ sep @ join sep (y # ys)"

fun to_string :: "jsval \<Rightarrow> string" where
  "to_string JUndefined = ''undefined''"
| "to_string JNull = ''null''"
| "to_string (JBool b) = (if b then ''true'' else ''false'')"
| "to_string (JNum i) = show_int i"
| "to_string (JStr s) = s"
| "to_string (JArr xs) =
     join '','' (map (\<lambda>x. if x = JUndefined \<or> x = JNull then [] else to_string x) xs)"
| "to_string (JObj kvs) = ''[object Object]''"

section \<open>Property access\<close>

definition read_null_msg :: "jsval \<Rightarrow> string \<Rightarrow> string" where
  "read_null_msg v k =
     ''Cannot read properties of '' @ to_string v @ '' (reading '' @ [CHR 0x27] @ k @ [CHR 0x27] @ '')''"

fun get_prop :: "jsval \<Rightarrow> string \<Rightarrow> js_error + jsval" where
  "get_prop JUndefined k = Inl (TypeError (read_null_msg JUndefined k))"
| "get_prop JNull k = Inl (TypeError (read_null_msg JNull k))"
| "get_prop (JObj kvs) k = Inr (case map_of kvs k of None \<Rightarrow> JUndefined | Some v \<Rightarrow> v)"
| "get_prop v k = Inr JUndefined"

definition opt_chain :: "jsval \<Rightarrow> string \<Rightarrow> jsval" where
  "opt_chain v k = (if nullish v then JUndefined else (case get_prop v k of Inl e \<Rightarrow> JUndefined | Inr x \<Rightarrow> x))"

text \<open>
  Evaluating a function that may throw on each element of a list, left to right: the first
  throw ends the evaluation. \<open>read_all v ks\<close> reads the properties \<open>ks\<close> of \<open>v\<close> in order.
\<close>

fun traverse :: "('a \<Rightarrow> 'e + 'b) \<Rightarrow> 'a list \<Rightarrow> 'e + 'b list" where
  "traverse g [] = Inr []"
| "traverse g (x # xs) =
     (case g x of
        Inl e \<Rightarrow> Inl e
      | Inr y \<Rightarrow> (case traverse g xs of Inl e \<Rightarrow> Inl e | Inr ys \<Rightarrow> Inr (y # ys)))"

definition read_all :: "jsval \<Rightarrow> string list \<Rightarrow> js_error + jsval list" where
  "read_all v ks = traverse (get_prop v) ks"

lemmas js_builtin_defs [js_defs] = nullish_def or_else_def opt_chain_def show_int_def digit_char_def read_null_msg_def

section \<open>Facts\<close>

lemma nullish_simps [simp]:
  "nullish JUndefined" "nullish JNull" "\<not> nullish (JBool b)" "\<not> nullish (JNum i)"
  "\<not> nullish (JStr s)" "\<not> nullish (JArr xs)" "\<not> nullish (JObj kvs)"
  by (simp_all add: nullish_def)

lemma truthy_not_nullish: "truthy v \<Longrightarrow> \<not> nullish v"
  by (cases v) simp_all

lemma get_prop_throws_iff: "isl (get_prop v k) \<longleftrightarrow> nullish v"
  by (cases v) simp_all

lemma get_prop_not_nullish:
  "\<not> nullish v \<Longrightarrow> \<exists>x. get_prop v k = Inr x"
  by (cases v) simp_all

lemma get_prop_TypeError:
  "get_prop v k = Inl e \<Longrightarrow> e = TypeError (read_null_msg v k)"
  by (cases v) simp_all

lemma opt_chain_eq:
  "opt_chain v k = (case get_prop v k of Inl e \<Rightarrow> JUndefined | Inr x \<Rightarrow> x)"
  by (cases v) (simp_all add: opt_chain_def)

lemma opt_chain_obj [simp]:
  "opt_chain (JObj kvs) k = (case map_of kvs k of None \<Rightarrow> JUndefined | Some v \<Rightarrow> v)"
  by (simp add: opt_chain_def)

lemma opt_chain_nullish [simp]: "nullish v \<Longrightarrow> opt_chain v k = JUndefined"
  by (simp add: opt_chain_def)

lemma or_else_truthy [simp]: "truthy y \<Longrightarrow> truthy (or_else x y)"
  by (simp add: or_else_def)

lemma or_else_simps [simp]:
  "truthy x \<Longrightarrow> or_else x y = x" "\<not> truthy x \<Longrightarrow> or_else x y = y"
  by (simp_all add: or_else_def)

lemma show_nat_nonempty: "show_nat n \<noteq> []"
  by (subst show_nat.simps) simp

lemma show_nat_digit [simp]: "n < 10 \<Longrightarrow> show_nat n = [digit_char n]"
  by (subst show_nat.simps) simp

lemma to_string_nonempty_if_truthy: "truthy v \<Longrightarrow> \<not> (\<exists>xs. v = JArr xs) \<Longrightarrow> to_string v \<noteq> []"
  by (cases v) (auto simp: show_int_def show_nat_nonempty)

lemma instanceof_Error_iff: "instanceof_Error e \<longleftrightarrow> (\<forall>v. e \<noteq> Thrown v)"
  by (cases e) simp_all

lemma traverse_total: "(\<And>x. x \<in> set xs \<Longrightarrow> g x = Inr (h x)) \<Longrightarrow> traverse g xs = Inr (map h xs)"
  by (induction xs) simp_all

lemma traverse_throws:
  "traverse g xs = Inl e \<Longrightarrow> \<exists>x \<in> set xs. g x = Inl e"
  by (induction xs) (auto split: sum.splits)

lemma read_all_object [simp]:
  "read_all (JObj kvs) ks = Inr (map (opt_chain (JObj kvs)) ks)"
  unfolding read_all_def by (rule traverse_total) simp

lemma read_all_nullish:
  "nullish v \<Longrightarrow> read_all v (k # ks) = Inl (TypeError (read_null_msg v k))"
  by (cases v) (simp_all add: read_all_def)

end
