(* ===== verification/ApiService.thy ===== *)
theory ApiService
  imports JsValue
begin

text \<open>
  The module \<^verbatim>\<open>src/life-sim-frontend/src/api.ts\<close>: the token store and the HTTP client.

  \<^item> State. \<open>'w client\<close> is what the module's code can read and write: the singleton's
    private field \<^verbatim>\<open>token\<close>, the browser's \<^verbatim>\<open>localStorage\<close> (a map from keys to
    strings), the build-time setting \<^verbatim>\<open>VITE_API_URL\<close>, the lines written with
    \<^verbatim>\<open>console.error\<close>, and \<open>net\<close>, the state of everything behind \<^verbatim>\<open>fetch\<close>
    (network and server), of an arbitrary type \<open>'w\<close>.
  \<^item> Interface to the server. \<^verbatim>\<open>fetch\<close> is a parameter \<open>f :: 'w fetch\<close> of every
    operation: given the outside world, a URL and the request options it either
    rejects (a network failure) or resolves to a response, and returns the new outside
    world. A response is its \<^verbatim>\<open>ok\<close> flag and the outcome of \<^verbatim>\<open>response.json()\<close>.
    Request bodies are kept as the JSON value that the text made by
    \<^verbatim>\<open>JSON.stringify\<close> denotes (\<open>json_stringify\<close>); the text itself is not modelled.
  \<^item> Operations. \<open>constructor\<close>, \<open>setToken\<close>, \<open>clearToken\<close>, \<open>request\<close> (split into
    \<open>request_headers\<close>, the call of \<open>f\<close>, and \<open>settle\<close>) and the eleven endpoint
    methods, each returning the settled promise and the new client state.
  \<^item> Lemmas. What \<open>request\<close> sends and how it settles on every branch; which parts of
    the state each operation leaves alone; when the cached token and the stored token
    agree (\<open>token_coherent\<close>).
\<close>

section \<open>Interfaces of the request payloads\<close>

record CharacterAttributes =
  strength :: jsval
  intelligence :: jsval
  charisma :: jsval
  agility :: jsval
  luck :: jsval

record CharacterCharacteristics =
  hair_color :: string
  eye_color :: string
  skin_tone :: string
  height :: string
  build :: string

definition js_of_attributes :: "CharacterAttributes \<Rightarrow> jsval" where
  "js_of_attributes a = JObj
     [(''strength'', strength a), (''intelligence'', intelligence a), (''charisma'', charisma a),
      (''agility'', agility a), (''luck'', luck a)]"

definition js_of_characteristics :: "CharacterCharacteristics \<Rightarrow> jsval" where
  "js_of_characteristics c = JObj
     [(''hair_color'', JStr (hair_color c)), (''eye_color'', JStr (eye_color c)),
      (''skin_tone'', JStr (skin_tone c)), (''height'', JStr (height c)),
      (''build'', JStr (build c))]"

section \<open>The browser side of \<^verbatim>\<open>fetch\<close>\<close>

record request_init =
  http_method :: "string option"
  body :: "jsval option"
  headers :: "string \<rightharpoonup> string"

record response =
  ok :: bool
  json :: "js_error + jsval"

datatype fetch_result = Rejects js_error | Resolves response

type_synonym 'w fetch = "'w \<Rightarrow> string \<Rightarrow> request_init \<Rightarrow> fetch_result \<times> 'w"

primrec json_stringify :: "jsval \<Rightarrow> jsval" where
  "json_stringify JUndefined = JUndefined"
| "json_stringify JNull = JNull"
| "json_stringify (JBool b) = JBool b"
| "json_stringify (JNum i) = JNum i"
| "json_stringify (JStr s) = JStr s"
| "json_stringify (JArr xs) =
     JArr (map (\<lambda>x. if x = JUndefined then JNull else x) (map json_stringify xs))"
| "json_stringify (JObj kvs) =
     JObj (filter (\<lambda>kv. snd kv \<noteq> JUndefined) (map (map_prod id json_stringify) kvs))"

section \<open>State\<close>

record 'w client =
  token :: jsval
  localStorage :: "string \<rightharpoonup> string"
  VITE_API_URL :: jsval
  console :: "(string \<times> js_error) list"
  net :: 'w

type_synonym ('a, 'w) api_call = "(js_error, 'a, 'w client) async"

definition getItem :: "(string \<rightharpoonup> string) \<Rightarrow> string \<Rightarrow> jsval" where
  "getItem st k = (case st k of None \<Rightarrow> JNull | Some s \<Rightarrow> JStr s)"

definition setItem :: "(string \<rightharpoonup> string) \<Rightarrow> string \<Rightarrow> jsval \<Rightarrow> (string \<rightharpoonup> string)" where
  "setItem st k v = st(k \<mapsto> to_string v)"

definition removeItem :: "(string \<rightharpoonup> string) \<Rightarrow> string \<Rightarrow> (string \<rightharpoonup> string)" where
  "removeItem st k = st(k := None)"

definition console_error :: "string \<Rightarrow> js_error \<Rightarrow> 'w client \<Rightarrow> 'w client" where
  "console_error label e c = c\<lparr>console := console c @ [(label, e)]\<rparr>"

definition API_URL :: "'w client \<Rightarrow> string" where
  "API_URL c = to_string (or_else (VITE_API_URL c) (JStr ''http://localhost:8000''))"

section \<open>The token store\<close>

definition constructor :: "'w client \<Rightarrow> 'w client" where
  "constructor c = c\<lparr>token := getItem (localStorage c) ''token''\<rparr>"

definition setToken :: "jsval \<Rightarrow> 'w client \<Rightarrow> 'w client" where
  "setToken t c = c\<lparr>token := t, localStorage := setItem (localStorage c) ''token'' t\<rparr>"

definition clearToken :: "'w client \<Rightarrow> 'w client" where
  "clearToken c = c\<lparr>token := JNull, localStorage := removeItem (localStorage c) ''token''\<rparr>"

section \<open>\<^verbatim>\<open>request\<close>\<close>

definition request_headers :: "jsval \<Rightarrow> request_init \<Rightarrow> (string \<rightharpoonup> string)" where
  "request_headers tok options =
     (let headers = [''Content-Type'' \<mapsto> ''application/json''] ++ headers options
      in if truthy tok then headers(''Authorization'' \<mapsto> ''Bearer '' @ to_string tok)
         else headers)"

definition settle :: "fetch_result \<Rightarrow> js_error + jsval" where
  "settle r =
     (case r of
        Rejects e \<Rightarrow> Inl e
      | Resolves response \<Rightarrow>
          if \<not> ok response then
            (let error = (case json response of
                            Inl e \<Rightarrow> JObj [(''detail'', JStr ''An error occurred'')]
                          | Inr v \<Rightarrow> v)
             in case get_prop error ''detail'' of
                  Inl e \<Rightarrow> Inl e
                | Inr detail \<Rightarrow>
                    Inl (Error (to_string (or_else detail (JStr ''An error occurred'')))))
          else json response)"

definition request :: "'w fetch \<Rightarrow> string \<Rightarrow> request_init \<Rightarrow> (jsval, 'w) api_call" where
  "request f endpoint options c =
     (let headers = request_headers (token c) options;
          (r, w) = f (net c) (API_URL c @ endpoint) (options\<lparr>headers := headers\<rparr>)
      in (settle r, c\<lparr>net := w\<rparr>))"

section \<open>Endpoint methods\<close>

definition no_options :: request_init where
  "no_options = \<lparr>http_method = None, body = None, headers = Map.empty\<rparr>"

definition post :: "jsval option \<Rightarrow> request_init" where
  "post b = \<lparr>http_method = Some ''POST'', body = map_option json_stringify b, headers = Map.empty\<rparr>"

definition store_access_token :: "(js_error, jsval, 'w client) promise \<Rightarrow> (js_error, jsval, 'w client) promise" where
  "store_access_token r =
     (case r of
        (Inl e, c) \<Rightarrow> (Inl e, c)
      | (Inr data, c) \<Rightarrow>
          (case get_prop data ''access_token'' of
             Inl e \<Rightarrow> (Inl e, c)
           | Inr t \<Rightarrow> (Inr data, setToken t c)))"

definition register :: "'w fetch \<Rightarrow> string \<Rightarrow> string \<Rightarrow> string \<Rightarrow> (jsval, 'w) api_call" where
  "register f email username password c =
     store_access_token
       (request f ''/api/auth/register''
          (post (Some (JObj [(''email'', JStr email), (''username'', JStr username),
                             (''password'', JStr password)]))) c)"

definition login :: "'w fetch \<Rightarrow> string \<Rightarrow> string \<Rightarrow> (jsval, 'w) api_call" where
  "login f email password c =
     store_access_token
       (request f ''/api/auth/login''
          (post (Some (JObj [(''email'', JStr email), (''password'', JStr password)]))) c)"

definition getCurrentUser :: "'w fetch \<Rightarrow> (jsval, 'w) api_call" where
  "getCurrentUser f = request f ''/api/user/me'' no_options"

definition character_body :: "string \<Rightarrow> CharacterAttributes \<Rightarrow> CharacterCharacteristics \<Rightarrow> jsval" where
  "character_body name attributes characteristics =
     JObj [(''name'', JStr name), (''attributes'', js_of_attributes attributes),
           (''characteristics'', js_of_characteristics characteristics)]"

definition createCharacter ::
  "'w fetch \<Rightarrow> string \<Rightarrow> CharacterAttributes \<Rightarrow> CharacterCharacteristics \<Rightarrow> (jsval, 'w) api_call" where
  "createCharacter f name attributes characteristics =
     request f ''/api/character/create'' (post (Some (character_body name attributes characteristics)))"

definition previewCharacter ::
  "'w fetch \<Rightarrow> string \<Rightarrow> CharacterAttributes \<Rightarrow> CharacterCharacteristics \<Rightarrow> (jsval, 'w) api_call" where
  "previewCharacter f name attributes characteristics =
     request f ''/api/character/preview'' (post (Some (character_body name attributes characteristics)))"

definition getGameState :: "'w fetch \<Rightarrow> (jsval, 'w) api_call" where
  "getGameState f = request f ''/api/game/state'' no_options"

definition generateCharacter :: "'w fetch \<Rightarrow> (jsval, 'w) api_call" where
  "generateCharacter f = request f ''/api/game/generate-character'' (post None)"

definition generatePlace :: "'w fetch \<Rightarrow> (jsval, 'w) api_call" where
  "generatePlace f = request f ''/api/game/generate-place'' (post None)"

definition generateObject :: "'w fetch \<Rightarrow> (jsval, 'w) api_call" where
  "generateObject f = request f ''/api/game/generate-object'' (post None)"

definition generateAction :: "'w fetch \<Rightarrow> jsval \<Rightarrow> (jsval, 'w) api_call" where
  "generateAction f context =
     request f ''/api/game/generate-action''
       (post (Some (JObj [(''context'', if context = JUndefined then JStr [] else context)])))"

definition travelToPlace :: "'w fetch \<Rightarrow> jsval \<Rightarrow> (jsval, 'w) api_call" where
  "travelToPlace f placeId =
     request f (''/api/game/travel-to-place/'' @ to_string placeId) (post None)"

lemmas storage_defs [js_defs] = getItem_def setItem_def removeItem_def

lemmas endpoint_defs [api_defs] =
  getCurrentUser_def createCharacter_def previewCharacter_def getGameState_def
  generateCharacter_def generatePlace_def generateObject_def generateAction_def
  travelToPlace_def

section \<open>The interface of \<^verbatim>\<open>ApiService\<close> as a datatype of calls\<close>

datatype api_op =
    Register string string string
  | Login string string
  | GetCurrentUser
  | CreateCharacter string CharacterAttributes CharacterCharacteristics
  | PreviewCharacter string CharacterAttributes CharacterCharacteristics
  | GetGameState
  | GenerateCharacter
  | GeneratePlace
  | GenerateObject
  | GenerateAction jsval
  | TravelToPlace jsval

fun call :: "'w fetch \<Rightarrow> api_op \<Rightarrow> (jsval, 'w) api_call" where
  "call f (Register email username password) = register f email username password"
| "call f (Login email password) = login f email password"
| "call f GetCurrentUser = getCurrentUser f"
| "call f (CreateCharacter name attributes characteristics) =
     createCharacter f name attributes characteristics"
| "call f (PreviewCharacter name attributes characteristics) =
     previewCharacter f name attributes characteristics"
| "call f GetGameState = getGameState f"
| "call f GenerateCharacter = generateCharacter f"
| "call f GeneratePlace = generatePlace f"
| "call f GenerateObject = generateObject f"
| "call f (GenerateAction context) = generateAction f context"
| "call f (TravelToPlace placeId) = travelToPlace f placeId"

fun stores_token :: "api_op \<Rightarrow> bool" where
  "stores_token (Register email username password) = True"
| "stores_token (Login email password) = True"
| "stores_token op = False"

fun calls :: "'w fetch \<Rightarrow> api_op list \<Rightarrow> 'w client \<Rightarrow> 'w client" where
  "calls f [] c = c"
| "calls f (op # ops) c = calls f ops (snd (call f op c))"

section \<open>Specification predicates\<close>

definition token_coherent :: "'w client \<Rightarrow> bool" where
  "token_coherent c \<longleftrightarrow> token c = getItem (localStorage c) ''token''"

definition same_store :: "'w client \<Rightarrow> 'w client \<Rightarrow> bool" where
  "same_store c c' \<longleftrightarrow>
     token c' = token c \<and> localStorage c' = localStorage c \<and>
     VITE_API_URL c' = VITE_API_URL c \<and> console c' = console c"

definition is_string :: "jsval \<Rightarrow> bool" where
  "is_string v \<longleftrightarrow> (case v of JStr s \<Rightarrow> True | _ \<Rightarrow> False)"

definition ends_with :: "string \<Rightarrow> string \<Rightarrow> bool" where
  "ends_with suffix s \<longleftrightarrow> length suffix \<le> length s \<and> drop (length s - length suffix) s = suffix"

definition auth_endpoint :: "string \<Rightarrow> bool" where
  "auth_endpoint url \<longleftrightarrow> ends_with ''/api/auth/register'' url \<or> ends_with ''/api/auth/login'' url"

definition issues_string_tokens :: "'w fetch \<Rightarrow> bool" where
  "issues_string_tokens f \<longleftrightarrow>
     (\<forall>w url options resp w' data t.
        f w url options = (Resolves resp, w') \<longrightarrow> auth_endpoint url \<longrightarrow> ok resp \<longrightarrow>
        json resp = Inr data \<longrightarrow> get_prop data ''access_token'' = Inr t \<longrightarrow> is_string t)"

text \<open>
  \<open>spy f\<close> is \<open>f\<close> with a log of the requests it was handed, oldest first: the outside
  world as a test double sees it. It is how the lemmas say what a run sent.
\<close>

definition spy :: "'w fetch \<Rightarrow> ('w \<times> (string \<times> request_init) list) fetch" where
  "spy f = (\<lambda>(w, log) url options.
     let (r, w') = f w url options in (r, (w', log @ [(url, options)])))"

definition sent :: "('w \<times> (string \<times> request_init) list) client \<Rightarrow> (string \<times> request_init) list" where
  "sent c = snd (net c)"

definition authorization :: "string \<times> request_init \<Rightarrow> string option" where
  "authorization rq = headers (snd rq) ''Authorization''"

text \<open>
  \<open>forget\<close> drops the log again. \<open>rest_table\<close> is the table of endpoints the server
  offers (verb, path, body); \<open>conforms\<close> says that a request is the table's row for a
  call. \<open>empty_ok\<close> is a server that answers every request with \<^verbatim>\<open>200 {}\<close>,
  \<open>static_server table\<close> one that answers the URLs of \<open>table\<close> with \<^verbatim>\<open>200\<close> and the
  listed JSON and every other URL with \<^verbatim>\<open>404 {"detail": "Not Found"}\<close>; \<open>profile st w\<close> is
  a browser whose \<^verbatim>\<open>localStorage\<close> is \<open>st\<close> before the module is loaded, and \<open>client0\<close>
  the client of a fresh profile after the module has loaded; \<open>login_server\<close> knows the
  login endpoint only, and \<open>error_server b\<close> answers every request with a response that
  is not \<^verbatim>\<open>ok\<close> and has the JSON body \<open>b\<close>.
\<close>

definition forget :: "('w \<times> 'l) client \<Rightarrow> 'w client" where
  "forget c = \<lparr>token = token c, localStorage = localStorage c, VITE_API_URL = VITE_API_URL c,
     console = console c, net = fst (net c)\<rparr>"

definition http_verb :: "request_init \<Rightarrow> string" where
  "http_verb options = (case http_method options of None \<Rightarrow> ''GET'' | Some m \<Rightarrow> m)"

fun rest_table :: "api_op \<Rightarrow> string \<times> string \<times> jsval option" where
  "rest_table (Register email username password) =
     (''POST'', ''/api/auth/register'',
      Some (JObj [(''email'', JStr email), (''username'', JStr username), (''password'', JStr password)]))"
| "rest_table (Login email password) =
     (''POST'', ''/api/auth/login'', Some (JObj [(''email'', JStr email), (''password'', JStr password)]))"
| "rest_table GetCurrentUser = (''GET'', ''/api/user/me'', None)"
| "rest_table (CreateCharacter name attributes characteristics) =
     (''POST'', ''/api/character/create'',
      Some (json_stringify (character_body name attributes characteristics)))"
| "rest_table (PreviewCharacter name attributes characteristics) =
     (''POST'', ''/api/character/preview'',
      Some (json_stringify (character_body name attributes characteristics)))"
| "rest_table GetGameState = (''GET'', ''/api/game/state'', None)"
| "rest_table GenerateCharacter = (''POST'', ''/api/game/generate-character'', None)"
| "rest_table GeneratePlace = (''POST'', ''/api/game/generate-place'', None)"
| "rest_table GenerateObject = (''POST'', ''/api/game/generate-object'', None)"
| "rest_table (GenerateAction context) =
     (''POST'', ''/api/game/generate-action'',
      Some (JObj [(''context'', json_stringify (if context = JUndefined then JStr [] else context))]))"
| "rest_table (TravelToPlace placeId) =
     (''POST'', ''/api/game/travel-to-place/'' @ to_string placeId, None)"

definition conforms :: "'w client \<Rightarrow> api_op \<Rightarrow> string \<times> request_init \<Rightarrow> bool" where
  "conforms c op rq \<longleftrightarrow>
     (case rest_table op of (verb, path, b) \<Rightarrow>
        fst rq = API_URL c @ path \<and> http_verb (snd rq) = verb \<and> body (snd rq) = b)"

definition empty_ok :: "unit fetch" where
  "empty_ok = (\<lambda>w url options. (Resolves \<lparr>ok = True, json = Inr (JObj [])\<rparr>, w))"

definition profile :: "(string \<rightharpoonup> string) \<Rightarrow> 'w \<Rightarrow> 'w client" where
  "profile st w = \<lparr>token = JNull, localStorage = st, VITE_API_URL = JUndefined,
     console = [], net = w\<rparr>"

definition client0 :: "'w \<Rightarrow> 'w client" where
  "client0 w = constructor (profile Map.empty w)"

definition static_server :: "(string \<times> jsval) list \<Rightarrow> 'w fetch" where
  "static_server table = (\<lambda>w url options.
     (case map_of table url of
        None \<Rightarrow> Resolves \<lparr>ok = False, json = Inr (JObj [(''detail'', JStr ''Not Found'')])\<rparr>
      | Some v \<Rightarrow> Resolves \<lparr>ok = True, json = Inr v\<rparr>, w))"

definition login_server :: "unit fetch" where
  "login_server = static_server
     [(''http://localhost:8000/api/auth/login'', JObj [(''access_token'', JStr ''t1'')])]"

definition error_server :: "jsval \<Rightarrow> 'w fetch" where
  "error_server b = (\<lambda>w url options. (Resolves \<lparr>ok = False, json = Inr b\<rparr>, w))"

section \<open>Storage and token store\<close>

lemma getItem_setItem [simp]:
  "getItem (setItem st k v) k' = (if k' = k then JStr (to_string v) else getItem st k')"
  by (simp add: getItem_def setItem_def)

lemma getItem_removeItem [simp]:
  "getItem (removeItem st k) k' = (if k' = k then JNull else getItem st k')"
  by (simp add: getItem_def removeItem_def)

lemma getItem_truthy_iff: "truthy (getItem st k) \<longleftrightarrow> (\<exists>s. st k = Some s \<and> s \<noteq> [])"
  by (simp add: getItem_def split: option.splits)

lemma is_string_iff: "is_string v \<longleftrightarrow> (\<exists>s. v = JStr s)"
  by (cases v) (simp_all add: is_string_def)

lemma is_string_to_string: "is_string v \<longleftrightarrow> v = JStr (to_string v)"
  by (cases v) (simp_all add: is_string_def)

lemma token_store_fields [simp]:
  "token (setToken t c) = t"
  "localStorage (setToken t c) = setItem (localStorage c) ''token'' t"
  "token (clearToken c) = JNull"
  "localStorage (clearToken c) = removeItem (localStorage c) ''token''"
  "token (constructor c) = getItem (localStorage c) ''token''"
  "localStorage (constructor c) = localStorage c"
  by (simp_all add: setToken_def clearToken_def constructor_def)

lemma token_store_frame [simp, frame]:
  "net (setToken t c) = net c" "console (setToken t c) = console c"
  "VITE_API_URL (setToken t c) = VITE_API_URL c"
  "net (clearToken c) = net c" "console (clearToken c) = console c"
  "VITE_API_URL (clearToken c) = VITE_API_URL c"
  "net (constructor c) = net c" "console (constructor c) = console c"
  "VITE_API_URL (constructor c) = VITE_API_URL c"
  by (simp_all add: setToken_def clearToken_def constructor_def)

lemma console_error_fields [simp, frame]:
  "token (console_error l e c) = token c"
  "localStorage (console_error l e c) = localStorage c"
  "net (console_error l e c) = net c"
  "VITE_API_URL (console_error l e c) = VITE_API_URL c"
  "console (console_error l e c) = console c @ [(l, e)]"
  by (simp_all add: console_error_def)

lemma constructor_coherent [simp]: "token_coherent (constructor c)"
  by (simp add: token_coherent_def)

lemma clearToken_coherent [simp]: "token_coherent (clearToken c)"
  by (simp add: token_coherent_def)

lemma setToken_coherent_iff [simp]: "token_coherent (setToken t c) \<longleftrightarrow> is_string t"
  by (auto simp: token_coherent_def is_string_to_string)

lemma console_error_coherent [simp]:
  "token_coherent (console_error l e c) \<longleftrightarrow> token_coherent c"
  by (simp add: token_coherent_def)

section \<open>The frame of \<^verbatim>\<open>request\<close>\<close>

lemma same_store_refl [simp]: "same_store c c"
  by (simp add: same_store_def)

lemma same_store_trans [trans]: "same_store a b \<Longrightarrow> same_store b c \<Longrightarrow> same_store a c"
  by (simp add: same_store_def)

lemma same_store_net [simp]: "same_store c (c\<lparr>net := w\<rparr>)"
  by (simp add: same_store_def)

lemma same_store_coherent: "same_store c c' \<Longrightarrow> token_coherent c' \<longleftrightarrow> token_coherent c"
  by (simp add: same_store_def token_coherent_def)

lemma same_store_API_URL: "same_store c c' \<Longrightarrow> API_URL c' = API_URL c"
  by (simp add: same_store_def API_URL_def)

lemma request_unfold:
  "request f endpoint options c =
     (settle (fst (f (net c) (API_URL c @ endpoint)
                     (options\<lparr>headers := request_headers (token c) options\<rparr>))),
      c\<lparr>net := snd (f (net c) (API_URL c @ endpoint)
                       (options\<lparr>headers := request_headers (token c) options\<rparr>))\<rparr>)"
  by (simp add: request_def split_beta Let_def)

lemma request_same_store [simp, frame]: "same_store c (snd (request f endpoint options c))"
  by (simp add: request_unfold)

lemma store_access_token_simps [simp]:
  "store_access_token (Inl e, c) = (Inl e, c)"
  "store_access_token (Inr data, c) =
     (case get_prop data ''access_token'' of
        Inl e \<Rightarrow> (Inl e, c) | Inr t \<Rightarrow> (Inr data, setToken t c))"
  by (simp_all add: store_access_token_def)

lemma store_access_token_rejected:
  "store_access_token r = (Inl e, c') \<Longrightarrow> c' = snd r"
  by (cases r; cases "fst r") (auto split: sum.splits)

lemma store_access_token_fulfilled:
  assumes "store_access_token r = (Inr data, c')"
  obtains t where "fst r = Inr data" "get_prop data ''access_token'' = Inr t"
    "c' = setToken t (snd r)"
  using assms by (cases r; cases "fst r") (auto split: sum.splits)

section \<open>What \<^verbatim>\<open>request\<close> sends and how it settles\<close>

lemma ends_with_append [simp]: "ends_with s (base @ s)"
  by (simp add: ends_with_def)

lemma auth_endpoint_simps [simp]:
  "auth_endpoint (base @ ''/api/auth/register'')" "auth_endpoint (base @ ''/api/auth/login'')"
  unfolding auth_endpoint_def by (metis ends_with_append)+

lemma request_headers_Authorization:
  "request_headers tok options ''Authorization'' =
     (if truthy tok then Some (''Bearer '' @ to_string tok) else headers options ''Authorization'')"
  by (simp add: request_headers_def Let_def map_add_def split: option.splits)

lemma request_headers_Content_Type:
  "request_headers tok options ''Content-Type'' =
     (case headers options ''Content-Type'' of None \<Rightarrow> Some ''application/json'' | Some v \<Rightarrow> Some v)"
  by (simp add: request_headers_def Let_def map_add_def split: option.splits)

lemma settle_fulfilled_iff:
  "settle r = Inr v \<longleftrightarrow> (\<exists>resp. r = Resolves resp \<and> ok resp \<and> json resp = Inr v)"
  by (cases r) (auto simp: settle_def Let_def split: sum.splits)

lemma settle_Rejects [simp]: "settle (Rejects e) = Inl e"
  by (simp add: settle_def)

lemma settle_ok [simp]: "ok resp \<Longrightarrow> settle (Resolves resp) = json resp"
  by (simp add: settle_def)

lemma settle_not_ok_unparsed [simp]:
  "\<not> ok resp \<Longrightarrow> json resp = Inl e \<Longrightarrow> settle (Resolves resp) = Inl (Error ''An error occurred'')"
  by (simp add: settle_def)

lemma settle_not_ok_parsed:
  "\<not> ok resp \<Longrightarrow> json resp = Inr v \<Longrightarrow>
   settle (Resolves resp) =
     (case get_prop v ''detail'' of
        Inl e \<Rightarrow> Inl e
      | Inr d \<Rightarrow> Inl (Error (to_string (or_else d (JStr ''An error occurred'')))))"
  by (simp add: settle_def)

lemma call_same_store: "\<not> stores_token op \<Longrightarrow> same_store c (snd (call f op c))"
  by (cases op) (simp_all add: api_defs)

lemma request_fulfilled_iff:
  "request f e options c = (Inr v, c') \<longleftrightarrow>
     (\<exists>resp w. f (net c) (API_URL c @ e) (options\<lparr>headers := request_headers (token c) options\<rparr>) = (Resolves resp, w)
        \<and> ok resp \<and> json resp = Inr v \<and> c' = c\<lparr>net := w\<rparr>)"
  by (auto simp: request_unfold settle_fulfilled_iff prod_eq_iff)

lemma request_coherent [simp]:
  "token_coherent (snd (request f e options c)) \<longleftrightarrow> token_coherent c"
  by (rule same_store_coherent) simp

lemma store_access_token_coherent:
  assumes "token_coherent (snd r)"
    and "\<And>data t. fst r = Inr data \<Longrightarrow> get_prop data ''access_token'' = Inr t \<Longrightarrow> is_string t"
  shows "token_coherent (snd (store_access_token r))"
  using assms by (cases r; cases "fst r") (auto split: sum.splits)

lemma call_coherent:
  assumes f: "issues_string_tokens f" and c: "token_coherent c"
  shows "token_coherent (snd (call f op c))"
proof (cases "stores_token op")
  case False
  then show ?thesis using c call_same_store same_store_coherent by blast
next
  case True
  have *: "token_coherent (snd (store_access_token (request f e options c)))"
    if "auth_endpoint (API_URL c @ e)" for e options
  proof (rule store_access_token_coherent)
    show "token_coherent (snd (request f e options c))" using c by simp
  next
    fix data t
    assume "fst (request f e options c) = Inr data" and t: "get_prop data ''access_token'' = Inr t"
    then obtain c' where "request f e options c = (Inr data, c')"
      by (cases "request f e options c") auto
    then obtain resp w where
      "f (net c) (API_URL c @ e) (options\<lparr>headers := request_headers (token c) options\<rparr>) = (Resolves resp, w)"
      "ok resp" "json resp = Inr data"
      unfolding request_fulfilled_iff by blast
    with f that t show "is_string t"
      unfolding issues_string_tokens_def by blast
  qed
  from True show ?thesis
    by (cases op) (simp_all add: register_def login_def *)
qed

text \<open>
  C6 (calls_coherent). The cache and the store agree. If the server answers every successful request to
  an auth endpoint with a string \<^verbatim>\<open>access_token\<close>, then after any sequence of API calls
  from a client whose cached token equals the stored one, the two are still equal.
\<close>

lemma calls_coherent:
  "issues_string_tokens f \<Longrightarrow> token_coherent c \<Longrightarrow> token_coherent (calls f ops c)"
  by (induction ops arbitrary: c) (simp_all add: call_coherent)

section \<open>Requests sent, tokens stored\<close>

lemma json_stringify_undefined_iff [simp]: "json_stringify v = JUndefined \<longleftrightarrow> v = JUndefined"
  by (cases v) simp_all

lemma json_stringify_JStr_iff [simp]: "is_string (json_stringify v) \<longleftrightarrow> is_string v"
  by (cases v) (simp_all add: is_string_def)

lemma sent_request [simp]:
  "sent (snd (request (spy f) e options c)) =
     sent c @ [(API_URL c @ e, options\<lparr>headers := request_headers (token c) options\<rparr>)]"
  by (simp add: request_unfold spy_def sent_def split_beta)

lemma sent_store_access_token [simp]: "sent (snd (store_access_token r)) = sent (snd r)"
  by (cases r; cases "fst r") (auto simp: sent_def split: sum.splits)

text \<open>
  C32 (call_sends). Each API call sends exactly one request, and it is the row of the endpoint table
  for that call: the URL is the base URL followed by the row's path, the verb and the body
  are the row's, and the headers are those \<^verbatim>\<open>request\<close> builds from the cached token.
\<close>

lemma call_sends:
  "\<exists>rq. sent (snd (call (spy f) op c)) = sent c @ [rq] \<and> conforms c op rq \<and>
     headers (snd rq) = request_headers (token c) no_options"
  by (cases op)
    (simp_all add: api_defs register_def login_def conforms_def http_verb_def post_def
       no_options_def request_headers_def)

lemma forget_request:
  "request f e options (forget c) =
     (fst (request (spy f) e options c), forget (snd (request (spy f) e options c)))"
  by (simp add: request_unfold spy_def forget_def API_URL_def split_beta)

lemma forget_setToken [simp]: "forget (setToken t c) = setToken t (forget c)"
  by (simp add: forget_def setToken_def)

lemma forget_store_access_token:
  "store_access_token (fst r, forget (snd r)) =
     (fst (store_access_token r), forget (snd (store_access_token r)))"
  by (cases r; cases "fst r") (auto split: sum.splits)

lemma forget_call:
  "call f op (forget c) = (fst (call (spy f) op c), forget (snd (call (spy f) op c)))"
  by (cases op) (simp_all add: api_defs register_def login_def forget_request forget_store_access_token)

lemma call_rejected_same_store:
  "call f op c = (Inl e, c') \<Longrightarrow> same_store c c'"
proof (cases "stores_token op")
  case False
  assume "call f op c = (Inl e, c')"
  with call_same_store [OF False, of c f] show ?thesis by simp
next
  case True
  assume r: "call f op c = (Inl e, c')"
  have *: "store_access_token (request f ep options c) = (Inl e, c') \<Longrightarrow> same_store c c'" for ep options
    using store_access_token_rejected [of "request f ep options c" e c'] by simp
  from True r show ?thesis
    by (cases op) (auto simp: register_def login_def dest: *)
qed

lemma call_fulfilled_token:
  assumes "stores_token op" and "call f op c = (Inr data, c')"
  shows "\<exists>t. get_prop data ''access_token'' = Inr t \<and> token c' = t \<and>
             localStorage c' ''token'' = Some (to_string t)"
proof -
  have *: "\<exists>t. get_prop data ''access_token'' = Inr t \<and> token c' = t \<and>
             localStorage c' ''token'' = Some (to_string t)"
    if "store_access_token r = (Inr data, c')" for r :: "(js_error, jsval, 'a client) promise"
    using that by (elim store_access_token_fulfilled) (simp add: setItem_def)
  from assms obtain r :: "(js_error, jsval, 'a client) promise"
    where "store_access_token r = (Inr data, c')"
    by (cases op) (auto simp: register_def login_def)
  then show ?thesis by (rule *)
qed

text \<open>
  C5 (call_stores_token). Who writes the token. A fulfilled \<^verbatim>\<open>login\<close> or \<^verbatim>\<open>register\<close> has stored the
  \<^verbatim>\<open>access_token\<close> of the payload it returns both in the cache and, converted to a string,
  in \<^verbatim>\<open>localStorage\<close> under the key \<^verbatim>\<open>token\<close>. Every other fulfilled call, and every
  rejected call, leaves the cache and the store as they were.
\<close>

lemma call_stores_token:
  assumes "call f op c = (r, c')"
  shows "case r of
           Inl e \<Rightarrow> same_store c c'
         | Inr data \<Rightarrow>
             if stores_token op
             then \<exists>t. get_prop data ''access_token'' = Inr t \<and> token c' = t \<and>
                      localStorage c' ''token'' = Some (to_string t)
             else same_store c c'"
proof (cases r)
  case (Inl e)
  with assms show ?thesis by (simp add: call_rejected_same_store)
next
  case (Inr data)
  with assms call_same_store [of op c f] call_fulfilled_token [of op f c data c']
  show ?thesis by auto
qed


text \<open>
  C35 (token_survives_reload). The token survives a reload of the page. What \<^verbatim>\<open>setToken\<close> writes to
  \<^verbatim>\<open>localStorage\<close> is what the constructor reads back when the module is loaded again: the
  text of the token. The cached token after the reload is the token that was set exactly
  when that token is a string; after \<^verbatim>\<open>clearToken\<close> the constructor finds none.
\<close>

theorem token_survives_reload:
  "token (constructor (setToken t c)) = JStr (to_string t) \<and>
   (token (constructor (setToken t c)) = t \<longleftrightarrow> is_string t) \<and>
   localStorage (constructor (setToken t c)) ''token'' = Some (to_string t) \<and>
   token (constructor (clearToken c)) = JNull"
  using is_string_to_string [of t]
  by (auto simp: constructor_def setToken_def clearToken_def setItem_def getItem_def removeItem_def)

section \<open>Facts the components share\<close>

lemma same_store_token: "same_store c c' \<Longrightarrow> token c' = token c"
  by (simp add: same_store_def)

lemma sent_frame [simp]:
  "sent (clearToken c) = sent c" "sent (setToken t c) = sent c"
  "sent (console_error l e c) = sent c" "sent (constructor c) = sent c"
  by (simp_all add: sent_def)

lemma API_URL_constructor [simp]: "API_URL (constructor c) = API_URL c"
  by (simp add: API_URL_def)

lemma request_spy_result:
  "request (spy f) e options c = (r, c1) \<Longrightarrow>
   sent c1 = sent c @ [(API_URL c @ e, options\<lparr>headers := request_headers (token c) options\<rparr>)] \<and>
   token c1 = token c \<and> API_URL c1 = API_URL c"
  using sent_request [of f e options c] request_same_store [of c "spy f" e options]
  by (simp add: same_store_token same_store_API_URL)

lemma getCurrentUser_same_store [simp, frame]: "same_store c (snd (getCurrentUser f c))"
  by (simp add: getCurrentUser_def)

lemma getGameState_same_store [simp, frame]: "same_store c (snd (getGameState f c))"
  by (simp add: getGameState_def)

lemmas sent_getCurrentUser = request_spy_result [of _ "''/api/user/me''" no_options, folded getCurrentUser_def]
lemmas sent_getGameState = request_spy_result [of _ "''/api/game/state''" no_options, folded getGameState_def]

section \<open>The contract of the client\<close>

lemma sent_last [simp]: "last (sent (snd (request (spy f) e options c))) =
   (API_URL c @ e, options\<lparr>headers := request_headers (token c) options\<rparr>)"
  by simp

text \<open>
  C3 (request_authorization). What \<^verbatim>\<open>request\<close> hands to \<^verbatim>\<open>fetch\<close> carries \<^verbatim>\<open>Authorization: Bearer <token>\<close>
  exactly when the cached token is truthy, overriding a header of that name given by the
  caller; with a falsy token (none, \<^verbatim>\<open>undefined\<close>, the empty string) the caller's header, if
  any, is passed on and none is added.
\<close>

theorem request_authorization:
  "authorization (last (sent (snd (request (spy f) e options c)))) =
     (if truthy (token c) then Some (''Bearer '' @ to_string (token c))
      else headers options ''Authorization'')"
  by (simp add: authorization_def request_headers_Authorization)

text \<open>
  C4 (request_not_ok_rejected). A response that is not \<^verbatim>\<open>ok\<close> never fulfils the promise: \<^verbatim>\<open>request\<close> is
  rejected with an \<^verbatim>\<open>Error\<close> object, the outside world is the one \<^verbatim>\<open>fetch\<close> left, and nothing
  else of the client changes.
\<close>

theorem request_not_ok_rejected:
  assumes "f (net c) (API_URL c @ e) (options\<lparr>headers := request_headers (token c) options\<rparr>)
             = (Resolves resp, w)"
    and "\<not> ok resp"
  shows "\<exists>err. request f e options c = (Inl err, c\<lparr>net := w\<rparr>) \<and> instanceof_Error err"
  using assms
  by (cases "json resp")
     (auto simp: request_unfold settle_not_ok_parsed split: sum.splits dest: get_prop_TypeError)

lemma login_server_issues: "issues_string_tokens login_server"
  unfolding issues_string_tokens_def login_server_def static_server_def
  by (auto simp: is_string_def split: option.splits if_splits)

lemmas eval_defs = login_def register_def post_def no_options_def request_unfold API_URL_def
  getItem_def setItem_def Let_def constructor_def settle_def client0_def profile_def static_server_def

lemma login_server_login:
  "call login_server (Login ''a@b.com'' ''pw'') (client0 ()) =
     (Inr (JObj [(''access_token'', JStr ''t1'')]), setToken (JStr ''t1'') (client0 ()))"
  by (simp add: login_server_def eval_defs)

theorem request_not_ok_rejected_witness:
  "static_server [] (net (client0 ())) (API_URL (client0 ()) @ ''/api/user/me'')
      (no_options\<lparr>headers := request_headers (token (client0 ())) no_options\<rparr>)
     = (Resolves \<lparr>ok = False, json = Inr (JObj [(''detail'', JStr ''Not Found'')])\<rparr>, ()) \<and>
   \<not> ok \<lparr>ok = False, json = Inr (JObj [(''detail'', JStr ''Not Found'')])\<rparr> \<and>
   rejected (request (static_server []) ''/api/user/me'' no_options (client0 ()))"
proof -
  have h: "static_server [] (net (client0 ())) (API_URL (client0 ()) @ ''/api/user/me'')
      (no_options\<lparr>headers := request_headers (token (client0 ())) no_options\<rparr>)
     = (Resolves \<lparr>ok = False, json = Inr (JObj [(''detail'', JStr ''Not Found'')])\<rparr>, ())"
    by (simp add: static_server_def)
  from request_not_ok_rejected
         [where f = "static_server []" and c = "client0 ()" and e = "''/api/user/me''"
            and options = no_options, OF h] h
  show ?thesis by auto
qed

theorem calls_coherent_witness:
  "issues_string_tokens login_server \<and> token_coherent (client0 ()) \<and>
   token_coherent (calls login_server [Login ''a@b.com'' ''pw'', GetGameState] (client0 ()))"
proof -
  have c: "token_coherent (client0 ())" by (simp add: client0_def)
  from calls_coherent [OF login_server_issues c, where ops = "[Login ''a@b.com'' ''pw'', GetGameState]"]
    login_server_issues c
  show ?thesis by simp
qed

theorem call_stores_token_witness:
  "call login_server (Login ''a@b.com'' ''pw'') (client0 ()) =
     (Inr (JObj [(''access_token'', JStr ''t1'')]), setToken (JStr ''t1'') (client0 ())) \<and>
   stores_token (Login ''a@b.com'' ''pw'') \<and>
   token (setToken (JStr ''t1'') (client0 () :: unit client)) = JStr ''t1'' \<and>
   localStorage (setToken (JStr ''t1'') (client0 () :: unit client)) ''token'' = Some ''t1''"
  using call_stores_token [OF login_server_login] login_server_login
  by (simp add: setItem_def)




end
