(* ===== verification/App.thy ===== *)
theory App
  imports ApiService
begin

text \<open>
  The component \<^verbatim>\<open>App\<close> of \<^verbatim>\<open>src/life-sim-frontend/src/App.tsx\<close>: the three flags it
  keeps with \<^verbatim>\<open>useState\<close>, the start-up check \<^verbatim>\<open>checkAuth\<close>, the three callbacks it
  hands to its children, and the choice of the screen.

  \<^item> State. \<open>app_state\<close> is the three flags; the handlers that also touch the token
    store or the network work on a pair of the flags and the \<open>'w client\<close> of
    \<open>ApiService\<close>. A state setter called with a value is a record update: React applies
    the queued updates in call order, and no setter of this component reads the state.
  \<^item> Operations. \<open>checkAuth\<close> is the \<^verbatim>\<open>async\<close> function run once by \<^verbatim>\<open>useEffect\<close>, run
    here to completion (no other handler of \<^verbatim>\<open>App\<close> is reachable while the loading screen
    is shown); \<open>checkAuth_try\<close> is its \<^verbatim>\<open>try\<close> block and returns the error caught, if any.
    \<open>boot\<close> is module load followed by the mount of \<^verbatim>\<open>App\<close>.
  \<^item> The machine. \<open>app_trans\<close> is the labelled step relation of the mounted
    application as \<^verbatim>\<open>App\<close> sees it: a callback can fire only from the screen that was
    handed it, and \<^verbatim>\<open>onAuthSuccess\<close> and \<^verbatim>\<open>onCharacterCreated\<close> fire only after the API
    call of that screen was fulfilled. A call of the creation or the game screen that is
    rejected leaves a line on the console (\<open>log_failure\<close>, under the label of the handler
    that made it), and so does a fulfilled call of the game screen whose result the handler
    could not read (\<open>acted_threw\<close>). \<open>event_screen\<close> is the screen an event comes from.
    \<open>reachable\<close> are the states a run from module load can be in. \<open>spec_transition\<close> is
    the screen machine of the specification.
  \<^item> Lemmas. The steps of each event as elimination rules (\<open>app_trans_eventE\<close>), the
    outcome of \<open>checkAuth\<close> on each of its paths, the requests it sends and their order,
    the invariants of \<open>reachable\<close>, that every step of \<open>app_trans\<close> is a transition of the
    specification's machine or keeps the screen, and that an event has a step exactly on
    its screen.
\<close>

section \<open>State and screens\<close>

record app_state =
  isAuthenticated :: bool
  hasCharacter :: bool
  loading :: bool

datatype screen = LoadingScreen | AuthScreen | CharacterCreationScreen | GameScreen

definition app_initial :: app_state where
  "app_initial = \<lparr>isAuthenticated = False, hasCharacter = False, loading = True\<rparr>"

definition app_render :: "app_state \<Rightarrow> screen" where
  "app_render a =
     (if loading a then LoadingScreen
      else if \<not> isAuthenticated a then AuthScreen
      else if \<not> hasCharacter a then CharacterCreationScreen
      else GameScreen)"

section \<open>The start-up check\<close>

definition checkAuth_try ::
  "'w fetch \<Rightarrow> app_state \<times> 'w client \<Rightarrow> js_error option \<times> app_state \<times> 'w client" where
  "checkAuth_try f = (\<lambda>(a, c).
     case getCurrentUser f c of
       (Inl error, c1) \<Rightarrow> (Some error, a, c1)
     | (Inr user, c1) \<Rightarrow>
         let a1 = a\<lparr>isAuthenticated := True\<rparr> in
         (case getGameState f c1 of
            (Inl error, c2) \<Rightarrow> (Some error, a1, c2)
          | (Inr gameState, c2) \<Rightarrow>
              (case get_prop gameState ''player_character'' of
                 Inl error \<Rightarrow> (Some error, a1, c2)
               | Inr player_character \<Rightarrow>
                   (None, if truthy player_character then a1\<lparr>hasCharacter := True\<rparr> else a1, c2))))"

definition checkAuth :: "'w fetch \<Rightarrow> app_state \<times> 'w client \<Rightarrow> app_state \<times> 'w client" where
  "checkAuth f = (\<lambda>(a, c).
     let token = getItem (localStorage c) ''token'';
         (a', c') =
           (if truthy token then
              (case checkAuth_try f (a, c) of
                 (None, a1, c1) \<Rightarrow> (a1, c1)
               | (Some error, a1, c1) \<Rightarrow>
                   (a1, clearToken (console_error ''Auth check failed:'' error c1)))
            else (a, c))
     in (a'\<lparr>loading := False\<rparr>, c'))"

definition boot :: "'w fetch \<Rightarrow> 'w client \<Rightarrow> app_state \<times> 'w client" where
  "boot f c = checkAuth f (app_initial, constructor c)"

section \<open>Callbacks\<close>

definition handleAuthSuccess :: "app_state \<Rightarrow> app_state" where
  "handleAuthSuccess a = a\<lparr>isAuthenticated := True\<rparr>"

definition handleCharacterCreated :: "app_state \<Rightarrow> app_state" where
  "handleCharacterCreated a = a\<lparr>hasCharacter := True\<rparr>"

definition handleLogout :: "app_state \<times> 'w client \<Rightarrow> app_state \<times> 'w client" where
  "handleLogout = (\<lambda>(a, c). (a\<lparr>isAuthenticated := False, hasCharacter := False\<rparr>, clearToken c))"

section \<open>The application as a state machine\<close>

datatype app_event =
    Mounted
  | Submitted api_op
  | Created api_op
  | Acted api_op
  | LoggedOut

fun game_op :: "api_op \<Rightarrow> bool" where
  "game_op GetGameState = True"
| "game_op GenerateCharacter = True"
| "game_op GeneratePlace = True"
| "game_op GenerateObject = True"
| "game_op (GenerateAction context) = True"
| "game_op (TravelToPlace placeId) = True"
| "game_op op = False"

fun creation_op :: "api_op \<Rightarrow> bool" where
  "creation_op (CreateCharacter name attributes characteristics) = True"
| "creation_op (PreviewCharacter name attributes characteristics) = True"
| "creation_op op = False"

fun creates :: "api_op \<Rightarrow> bool" where
  "creates (CreateCharacter name attributes characteristics) = True"
| "creates op = False"

text \<open>
  The two screens catch a rejected call and log it, each handler under its own label; the
  application sees the call and the line on the console.
\<close>

definition log_failure :: "string \<Rightarrow> (js_error, jsval, 'w client) promise \<Rightarrow> 'w client" where
  "log_failure label r = (case r of (Inl error, c) \<Rightarrow> console_error label error c | (Inr v, c) \<Rightarrow> c)"

definition creation_label :: "api_op \<Rightarrow> string" where
  "creation_label op = (if creates op then ''Character creation failed:'' else ''Preview failed:'')"

fun game_label :: "api_op \<Rightarrow> string" where
  "game_label GenerateCharacter = ''Failed to generate character:''"
| "game_label GeneratePlace = ''Failed to generate place:''"
| "game_label GenerateObject = ''Failed to generate object:''"
| "game_label (GenerateAction context) = ''Failed to generate action:''"
| "game_label (TravelToPlace placeId) = ''Failed to travel:''"
| "game_label op = ''Failed to load game state:''"

inductive app_trans ::
  "'w fetch \<Rightarrow> app_state \<times> 'w client \<Rightarrow> app_event \<Rightarrow> app_state \<times> 'w client \<Rightarrow> bool"
  for f :: "'w fetch" where
  mounted:
    "app_render a = LoadingScreen \<Longrightarrow> app_trans f (a, c) Mounted (checkAuth f (a, c))"
| submit_ok:
    "app_render a = AuthScreen \<Longrightarrow> stores_token op \<Longrightarrow> call f op c = (Inr data, c') \<Longrightarrow>
     app_trans f (a, c) (Submitted op) (handleAuthSuccess a, c')"
| submit_failed:
    "app_render a = AuthScreen \<Longrightarrow> stores_token op \<Longrightarrow> call f op c = (Inl e, c') \<Longrightarrow>
     app_trans f (a, c) (Submitted op) (a, c')"
| create_ok:
    "app_render a = CharacterCreationScreen \<Longrightarrow> creates op \<Longrightarrow> call f op c = (Inr data, c') \<Longrightarrow>
     app_trans f (a, c) (Created op) (handleCharacterCreated a, c')"
| create_other:
    "app_render a = CharacterCreationScreen \<Longrightarrow> creation_op op \<Longrightarrow>
     \<not> (creates op \<and> fulfilled (call f op c)) \<Longrightarrow>
     app_trans f (a, c) (Created op) (a, log_failure (creation_label op) (call f op c))"
| acted:
    "app_render a = GameScreen \<Longrightarrow> game_op op \<Longrightarrow>
     app_trans f (a, c) (Acted op) (a, log_failure (game_label op) (call f op c))"
| acted_threw:
    "app_render a = GameScreen \<Longrightarrow> game_op op \<Longrightarrow> call f op c = (Inr result, c') \<Longrightarrow>
     app_trans f (a, c) (Acted op) (a, console_error (game_label op) e c')"
| logged_out:
    "app_render a = GameScreen \<Longrightarrow> app_trans f (a, c) LoggedOut (handleLogout (a, c))"

inductive reachable :: "'w fetch \<Rightarrow> 'w client \<Rightarrow> app_state \<times> 'w client \<Rightarrow> bool"
  for f :: "'w fetch" and c0 :: "'w client" where
  start: "reachable f c0 (app_initial, constructor c0)"
| step: "reachable f c0 s \<Longrightarrow> app_trans f s e s' \<Longrightarrow> reachable f c0 s'"

text \<open>
  \<open>event_screen\<close> is the screen whose component raises an event: \<^verbatim>\<open>App\<close> returns one
  component, and hands each callback to one of them.
\<close>

fun event_screen :: "app_event \<Rightarrow> screen" where
  "event_screen Mounted = LoadingScreen"
| "event_screen (Submitted op) = AuthScreen"
| "event_screen (Created op) = CharacterCreationScreen"
| "event_screen (Acted op) = GameScreen"
| "event_screen LoggedOut = GameScreen"

text \<open>The screen machine of the specification: which screen may follow which.\<close>

inductive spec_transition :: "screen \<Rightarrow> screen \<Rightarrow> bool" where
  verify_failed: "spec_transition LoadingScreen AuthScreen"
| verified_no_character: "spec_transition LoadingScreen CharacterCreationScreen"
| verified_with_character: "spec_transition LoadingScreen GameScreen"
| logged_in: "spec_transition AuthScreen CharacterCreationScreen"
| character_created: "spec_transition CharacterCreationScreen GameScreen"
| logout: "spec_transition s AuthScreen"

text \<open>
  \<open>app_inv c0\<close> is what holds of every state reachable from a browser profile \<open>c0\<close>: the
  loading screen is shown only before the start-up check has run; a character is recorded
  only for an authenticated user; and while the auth screen is shown the client holds no
  usable token.
\<close>

definition app_inv :: "'w client \<Rightarrow> app_state \<times> 'w client \<Rightarrow> bool" where
  "app_inv c0 s \<longleftrightarrow>
     (loading (fst s) \<longrightarrow> s = (app_initial, constructor c0)) \<and>
     (hasCharacter (fst s) \<longrightarrow> isAuthenticated (fst s)) \<and>
     (app_render (fst s) = AuthScreen \<longrightarrow> \<not> truthy (token (snd s)))"

text \<open>
  Test doubles for the closed instances: \<open>demo_server\<close> knows one user, whose game state has
  a player character, and hands out the token \<^verbatim>\<open>t1\<close>; \<open>no_game_server\<close> verifies the user
  but has no game state to give; \<open>demo_profile\<close> is a browser that stored \<^verbatim>\<open>t1\<close>.
\<close>

definition demo_user :: jsval where
  "demo_user = JObj [(''id'', JStr ''u1''), (''email'', JStr ''a@b.com''), (''username'', JStr ''alice'')]"

definition demo_state :: jsval where
  "demo_state = JObj [(''user_id'', JStr ''u1''),
     (''player_character'', JObj [(''id'', JStr ''c1''), (''name'', JStr ''Rin'')])]"

definition demo_server :: "unit fetch" where
  "demo_server = static_server
     [(''http://localhost:8000/api/user/me'', demo_user),
      (''http://localhost:8000/api/game/state'', demo_state),
      (''http://localhost:8000/api/auth/login'', JObj [(''access_token'', JStr ''t1'')])]"

definition no_game_server :: "unit fetch" where
  "no_game_server = static_server [(''http://localhost:8000/api/user/me'', demo_user)]"

definition demo_profile :: "unit client" where
  "demo_profile = profile [''token'' \<mapsto> ''t1''] ()"

lemmas app_handler_defs [view_defs] =
  handleAuthSuccess_def handleCharacterCreated_def handleLogout_def

section \<open>The steps of each event\<close>

inductive_cases app_trans_MountedE: "app_trans f s Mounted s'"
  and app_trans_SubmittedE: "app_trans f s (Submitted op) s'"
  and app_trans_CreatedE: "app_trans f s (Created op) s'"
  and app_trans_ActedE: "app_trans f s (Acted op) s'"
  and app_trans_LoggedOutE: "app_trans f s LoggedOut s'"

lemmas app_trans_eventE =
  app_trans_MountedE app_trans_SubmittedE app_trans_CreatedE app_trans_ActedE app_trans_LoggedOutE

section \<open>The start-up check on each path\<close>

lemma app_render_simps [simp]:
  "app_render a = LoadingScreen \<longleftrightarrow> loading a"
  "app_render a = AuthScreen \<longleftrightarrow> \<not> loading a \<and> \<not> isAuthenticated a"
  "app_render a = CharacterCreationScreen \<longleftrightarrow> \<not> loading a \<and> isAuthenticated a \<and> \<not> hasCharacter a"
  "app_render a = GameScreen \<longleftrightarrow> \<not> loading a \<and> isAuthenticated a \<and> hasCharacter a"
  by (auto simp: app_render_def)

lemma log_failure_simps [simp]:
  "log_failure l (Inl e, c) = console_error l e c"
  "log_failure l (Inr v, c) = c"
  by (simp_all add: log_failure_def)

lemma log_failure_fields [simp, frame]:
  "token (log_failure l r) = token (snd r)"
  "localStorage (log_failure l r) = localStorage (snd r)"
  "net (log_failure l r) = net (snd r)"
  "VITE_API_URL (log_failure l r) = VITE_API_URL (snd r)"
  by (cases r; cases "fst r"; simp)+

lemma log_failure_coherent [simp]: "token_coherent (log_failure l r) \<longleftrightarrow> token_coherent (snd r)"
  by (simp add: token_coherent_def)

lemma checkAuth_no_token:
  "\<not> truthy (getItem (localStorage c) ''token'') \<Longrightarrow> checkAuth f (a, c) = (a\<lparr>loading := False\<rparr>, c)"
  by (simp add: checkAuth_def)

lemma checkAuth_try_cases:
  obtains
    (user_failed) e c1 where "getCurrentUser f c = (Inl e, c1)"
      "checkAuth_try f (a, c) = (Some e, a, c1)"
  | (state_failed) user c1 e c2 where "getCurrentUser f c = (Inr user, c1)"
      "getGameState f c1 = (Inl e, c2)"
      "checkAuth_try f (a, c) = (Some e, a\<lparr>isAuthenticated := True\<rparr>, c2)"
  | (state_null) user c1 gameState c2 e where "getCurrentUser f c = (Inr user, c1)"
      "getGameState f c1 = (Inr gameState, c2)" "get_prop gameState ''player_character'' = Inl e"
      "checkAuth_try f (a, c) = (Some e, a\<lparr>isAuthenticated := True\<rparr>, c2)"
  | (verified) user c1 gameState c2 pc where "getCurrentUser f c = (Inr user, c1)"
      "getGameState f c1 = (Inr gameState, c2)" "get_prop gameState ''player_character'' = Inr pc"
      "checkAuth_try f (a, c) =
         (None, a\<lparr>isAuthenticated := True, hasCharacter := (truthy pc \<or> hasCharacter a)\<rparr>, c2)"
  by (cases "getCurrentUser f c"; cases "fst (getCurrentUser f c)";
      cases "getGameState f (snd (getCurrentUser f c))";
      cases "fst (getGameState f (snd (getCurrentUser f c)))";
      cases "get_prop (projr (fst (getGameState f (snd (getCurrentUser f c))))) ''player_character''")
     (auto simp: checkAuth_try_def Let_def)

lemma checkAuth_try_same_store: "same_store c (snd (snd (checkAuth_try f (a, c))))"
proof (cases rule: checkAuth_try_cases [of f c a])
  case (user_failed e c1)
  with getCurrentUser_same_store [of c f] show ?thesis by simp
next
  case (state_failed user c1 e c2)
  with getCurrentUser_same_store [of c f] getGameState_same_store [of c1 f]
  show ?thesis by (auto intro: same_store_trans)
next
  case (state_null user c1 gameState c2 e)
  with getCurrentUser_same_store [of c f] getGameState_same_store [of c1 f]
  show ?thesis by (auto intro: same_store_trans)
next
  case (verified user c1 gameState c2 pc)
  with getCurrentUser_same_store [of c f] getGameState_same_store [of c1 f]
  show ?thesis by (auto intro: same_store_trans)
qed

lemma checkAuth_loading [simp]: "\<not> loading (fst (checkAuth f s))"
  by (cases s) (simp add: checkAuth_def Let_def split_beta)

lemma checkAuth_unfold:
  "checkAuth f (a, c) =
     (if truthy (getItem (localStorage c) ''token'') then
        (case checkAuth_try f (a, c) of
           (None, a1, c1) \<Rightarrow> (a1\<lparr>loading := False\<rparr>, c1)
         | (Some error, a1, c1) \<Rightarrow>
             (a1\<lparr>loading := False\<rparr>, clearToken (console_error ''Auth check failed:'' error c1)))
      else (a\<lparr>loading := False\<rparr>, c))"
  by (simp add: checkAuth_def Let_def split: prod.splits option.splits)

lemma app_initial_simps [simp]:
  "loading app_initial" "\<not> isAuthenticated app_initial" "\<not> hasCharacter app_initial"
  by (simp_all add: app_initial_def)

lemma app_inv_start: "app_inv c0 (app_initial, constructor c0)"
  by (simp add: app_inv_def)

lemma checkAuth_initial_inv: "app_inv c0 (checkAuth f (app_initial, constructor c0))"
proof (cases "truthy (getItem (localStorage (constructor c0)) ''token'')")
  case False
  then show ?thesis by (simp add: checkAuth_unfold app_inv_def)
next
  case True
  then show ?thesis
    by (cases rule: checkAuth_try_cases [of f "constructor c0" app_initial])
       (simp_all add: checkAuth_unfold app_inv_def)
qed

lemma app_trans_inv:
  assumes "app_trans f s e s'" and "app_inv c0 s"
  shows "app_inv c0 s'"
  using assms
proof (cases rule: app_trans.cases)
  case (mounted a c)
  with assms(2) have "s = (app_initial, constructor c0)" by (simp add: app_inv_def)
  with mounted show ?thesis using checkAuth_initial_inv [of c0 f] by auto
next
  case (submit_failed a op c e c')
  with assms(2) show ?thesis
    by (auto simp: app_inv_def dest!: call_rejected_same_store same_store_token)
qed (use assms(2) in \<open>auto simp: app_inv_def view_defs\<close>)

lemma reachable_inv: "reachable f c0 s \<Longrightarrow> app_inv c0 s"
  by (induction rule: reachable.induct) (auto intro: app_inv_start app_trans_inv)

lemma checkAuth_coherent: "token_coherent c \<Longrightarrow> token_coherent (snd (checkAuth f (a, c)))"
  using checkAuth_try_same_store [of c f a]
  by (auto simp: checkAuth_unfold same_store_coherent split: prod.splits option.splits)

lemma app_trans_coherent:
  assumes "app_trans f s e s'" and "issues_string_tokens f" and "token_coherent (snd s)"
  shows "token_coherent (snd s')"
  using assms
proof (cases rule: app_trans.cases)
  case (submit_ok a op c data c')
  with call_coherent [OF assms(2), of c op] assms(3) show ?thesis by simp
next
  case (submit_failed a op c e c')
  with call_coherent [OF assms(2), of c op] assms(3) show ?thesis by simp
next
  case (create_ok a op c data c')
  with call_coherent [OF assms(2), of c op] assms(3) show ?thesis by simp
next
  case (acted_threw a op c result c' e)
  with call_coherent [OF assms(2), of c op] assms(3) show ?thesis by simp
qed (use assms in \<open>auto simp: checkAuth_coherent call_coherent view_defs\<close>)

lemma reachable_coherent_aux:
  "reachable f c0 s \<Longrightarrow> issues_string_tokens f \<Longrightarrow> token_coherent (snd s)"
  by (induction rule: reachable.induct) (auto intro: app_trans_coherent)

text \<open>The screen machine by its target: nothing leads back to the loading screen.\<close>

inductive_simps spec_transition_simps [simp]:
  "spec_transition s LoadingScreen"
  "spec_transition s AuthScreen"
  "spec_transition s CharacterCreationScreen"
  "spec_transition s GameScreen"

lemma spec_transition_from_loading [simp]:
  "spec_transition LoadingScreen s' \<longleftrightarrow> s' \<noteq> LoadingScreen"
  by (cases s') simp_all

lemma app_trans_screen: "app_trans f s e s' \<Longrightarrow> app_render (fst s) = event_screen e"
  by (cases e) (auto elim: app_trans_eventE)

lemma app_trans_refines:
  assumes "app_trans f s e s'" and "app_inv c0 s"
  shows "app_render (fst s') = app_render (fst s) \<or>
         spec_transition (app_render (fst s)) (app_render (fst s'))"
  using assms
  by (cases rule: app_trans.cases) (auto simp: app_inv_def view_defs app_render_def)

lemma boot_fulfilled:
  assumes "truthy (getItem (localStorage c) ''token'')"
    and "getCurrentUser f (constructor c) = (Inr user, c1)"
    and "getGameState f c1 = (Inr gameState, c2)"
    and "get_prop gameState ''player_character'' = Inr pc"
  shows "boot f c = (\<lparr>isAuthenticated = True, hasCharacter = truthy pc, loading = False\<rparr>, c2)"
  using assms
  by (simp add: boot_def checkAuth_unfold checkAuth_try_def app_initial_def Let_def)

text \<open>
  C13 (boot_no_token). Start-up without a usable stored token (none, or the empty string): \<open>checkAuth\<close>
  only drops the loading flag. The auth screen is shown, the client is the one the module
  load left, and, the outside world being returned untouched whatever \<open>f\<close> is, no request
  was made.
\<close>

theorem boot_no_token:
  assumes "\<not> truthy (getItem (localStorage c) ''token'')"
  shows "boot f c = (app_initial\<lparr>loading := False\<rparr>, constructor c) \<and>
         app_render (fst (boot f c)) = AuthScreen"
  using assms by (simp add: boot_def checkAuth_unfold)


text \<open>
  C1 (boot_verified). Start-up with a stored token, a fulfilled \<^verbatim>\<open>getCurrentUser\<close> and a fulfilled
  \<^verbatim>\<open>getGameState\<close> whose value is not \<^verbatim>\<open>null\<close>: the user is authenticated, the character
  flag is the truthiness of \<^verbatim>\<open>player_character\<close> (so the dashboard is shown with a character
  and the creation screen without), and the client is the one the second call left: the
  token is kept.
\<close>

theorem boot_verified:
  assumes "truthy (getItem (localStorage c) ''token'')"
    and "getCurrentUser f (constructor c) = (Inr user, c1)"
    and "getGameState f c1 = (Inr gameState, c2)"
    and "\<not> nullish gameState"
  shows "boot f c =
          (\<lparr>isAuthenticated = True, hasCharacter = truthy (opt_chain gameState ''player_character''),
            loading = False\<rparr>, c2)"
proof -
  from assms(4) obtain pc where pc: "get_prop gameState ''player_character'' = Inr pc"
    using get_prop_not_nullish by blast
  then have "opt_chain gameState ''player_character'' = pc"
    by (simp add: opt_chain_eq)
  with boot_fulfilled [OF assms(1-3) pc] show ?thesis by simp
qed

text \<open>
  C10 (boot_game_state_failed). Start-up with a stored token that \<^verbatim>\<open>/api/user/me\<close> accepts, when the game state
  then cannot be fetched: \<^verbatim>\<open>setIsAuthenticated(true)\<close> has already run when the \<^verbatim>\<open>catch\<close>
  block clears the token, so the application shows the character-creation screen, a
  screen for authenticated users, while holding no token at all.
\<close>

theorem boot_game_state_failed:
  assumes "truthy (getItem (localStorage c) ''token'')"
    and "getCurrentUser f (constructor c) = (Inr user, c1)"
    and "getGameState f c1 = (Inl e, c2)"
  shows "app_render (fst (boot f c)) = CharacterCreationScreen \<and>
         token (snd (boot f c)) = JNull \<and> localStorage (snd (boot f c)) ''token'' = None"
  using assms by (simp add: boot_def checkAuth_unfold checkAuth_try_def removeItem_def Let_def)

lemma checkAuth_try_sent:
  "\<exists>rs. sent (snd (snd (checkAuth_try (spy f) (a, c)))) = sent c @ rs \<and>
     (map fst rs = [API_URL c @ ''/api/user/me''] \<or>
      map fst rs = [API_URL c @ ''/api/user/me'', API_URL c @ ''/api/game/state'']) \<and>
     (\<forall>rq \<in> set rs. headers (snd rq) = request_headers (token c) no_options)"
  by (cases rule: checkAuth_try_cases [of "spy f" c a])
     (auto dest!: sent_getCurrentUser sent_getGameState)

text \<open>
  The requests of the start-up check, in order: with a non-empty stored token \<open>s\<close>
  the check sends \<^verbatim>\<open>/api/user/me\<close> first and, only after it, at most \<^verbatim>\<open>/api/game/state\<close>;
  nothing else; and each of them carries \<^verbatim>\<open>Authorization: Bearer s\<close>.
\<close>

theorem boot_sends:
  assumes "localStorage c ''token'' = Some s" and "s \<noteq> []"
  shows "\<exists>rs. sent (snd (boot (spy f) c)) = sent c @ rs \<and>
           (map fst rs = [API_URL c @ ''/api/user/me''] \<or>
            map fst rs = [API_URL c @ ''/api/user/me'', API_URL c @ ''/api/game/state'']) \<and>
           (\<forall>rq \<in> set rs. authorization rq = Some (''Bearer '' @ s))"
proof -
  let ?c = "constructor c"
  from assms have t: "truthy (getItem (localStorage ?c) ''token'')" "token ?c = JStr s"
    by (simp_all add: getItem_def)
  have auth: "request_headers (JStr s) no_options ''Authorization'' = Some (''Bearer '' @ s)"
    using assms(2) by (simp add: request_headers_Authorization)
  have "sent (snd (boot (spy f) c)) = sent (snd (snd (checkAuth_try (spy f) (app_initial, ?c))))"
    using t(1) by (simp add: boot_def checkAuth_unfold split: prod.splits option.splits)
  with checkAuth_try_sent [of f app_initial ?c] t(2) auth show ?thesis
    by (auto simp: authorization_def)
qed

section \<open>Closed instances and the invariants of reachable states\<close>

lemmas demo_defs = demo_server_def no_game_server_def demo_profile_def demo_user_def
  demo_state_def static_server_def profile_def

lemmas run_defs = boot_def checkAuth_unfold checkAuth_try_def getCurrentUser_def
  getGameState_def login_def post_def no_options_def request_unfold API_URL_def getItem_def
  Let_def constructor_def settle_def

lemma demo_token: "truthy (getItem (localStorage demo_profile) ''token'')"
  by (simp add: demo_defs getItem_def)

lemma demo_getCurrentUser:
  "getCurrentUser demo_server (constructor demo_profile) = (Inr demo_user, constructor demo_profile)"
  by (simp add: demo_defs run_defs)

lemma demo_getGameState:
  "getGameState demo_server (constructor demo_profile) = (Inr demo_state, constructor demo_profile)"
  by (simp add: demo_defs run_defs)

lemma no_game_getCurrentUser:
  "getCurrentUser no_game_server (constructor demo_profile) = (Inr demo_user, constructor demo_profile)"
  by (simp add: demo_defs run_defs)

lemma no_game_getGameState:
  "getGameState no_game_server (constructor demo_profile) =
     (Inl (Error ''Not Found''), constructor demo_profile)"
  by (simp add: demo_defs run_defs)

lemma offline_getCurrentUser:
  "getCurrentUser (static_server []) (constructor demo_profile) =
     (Inl (Error ''Not Found''), constructor demo_profile)"
  by (simp add: demo_defs run_defs)

theorem boot_verified_witness:
  "truthy (getItem (localStorage demo_profile) ''token'') \<and>
   getCurrentUser demo_server (constructor demo_profile) = (Inr demo_user, constructor demo_profile) \<and>
   getGameState demo_server (constructor demo_profile) = (Inr demo_state, constructor demo_profile) \<and>
   \<not> nullish demo_state \<and>
   boot demo_server demo_profile =
     (\<lparr>isAuthenticated = True, hasCharacter = True, loading = False\<rparr>, constructor demo_profile)"
proof -
  have n: "\<not> nullish demo_state" by (simp add: demo_state_def)
  from boot_verified [OF demo_token demo_getCurrentUser demo_getGameState n]
    demo_token demo_getCurrentUser demo_getGameState n
  show ?thesis by (simp add: demo_state_def)
qed

theorem boot_no_token_witness:
  "\<not> truthy (getItem (localStorage (profile Map.empty ())) ''token'') \<and>
   app_render (fst (boot demo_server (profile Map.empty ()))) = AuthScreen"
  using boot_no_token [of "profile Map.empty ()" demo_server]
  by (simp add: profile_def getItem_def)


theorem boot_game_state_failed_witness:
  "truthy (getItem (localStorage demo_profile) ''token'') \<and>
   getCurrentUser no_game_server (constructor demo_profile) = (Inr demo_user, constructor demo_profile) \<and>
   getGameState no_game_server (constructor demo_profile) =
     (Inl (Error ''Not Found''), constructor demo_profile) \<and>
   app_render (fst (boot no_game_server demo_profile)) = CharacterCreationScreen \<and>
   token (snd (boot no_game_server demo_profile)) = JNull"
  using boot_game_state_failed [OF demo_token no_game_getCurrentUser no_game_getGameState]
    demo_token no_game_getCurrentUser no_game_getGameState
  by simp

theorem boot_sends_witness:
  "localStorage (profile [''token'' \<mapsto> ''t1''] ((), [])) ''token'' = Some ''t1'' \<and> ''t1'' \<noteq> [] \<and>
   (\<exists>rs. sent (snd (boot (spy demo_server) (profile [''token'' \<mapsto> ''t1''] ((), [])))) = rs \<and>
      (\<forall>rq \<in> set rs. authorization rq = Some ''Bearer t1''))"
  using boot_sends [of "profile [''token'' \<mapsto> ''t1''] ((), [])" "''t1''" demo_server]
  by (auto simp: demo_defs sent_def)

text \<open>
  The start-up check always ends the loading screen, on every path, errors
  included: no failure of the server or the network leaves the application stuck.
\<close>

theorem boot_leaves_loading: "app_render (fst (boot f c)) \<noteq> LoadingScreen"
  by (simp add: boot_def)

text \<open>
  Logout: the token is removed from the cache and from \<^verbatim>\<open>localStorage\<close>, both
  flags are reset so that the auth screen is shown, and the outside world is not touched
  (the server is not told).
\<close>

theorem logout_clears_token:
  "app_render (fst (handleLogout (a, c))) = (if loading a then LoadingScreen else AuthScreen) \<and>
   token (snd (handleLogout (a, c))) = JNull \<and>
   localStorage (snd (handleLogout (a, c))) ''token'' = None \<and>
   net (snd (handleLogout (a, c))) = net c"
  by (simp add: handleLogout_def removeItem_def)

text \<open>
  C20 (reachable_auth_screen_no_token). In every reachable state in which the auth screen is shown, the cached
  token is falsy: requests made from the auth screen carry no \<^verbatim>\<open>Authorization\<close> header.
\<close>

theorem reachable_auth_screen_no_token:
  assumes "reachable f c0 s" and "app_render (fst s) = AuthScreen"
  shows "\<not> truthy (token (snd s))"
  using reachable_inv [OF assms(1)] assms(2) by (simp add: app_inv_def)

text \<open>
  In every reachable state the character flag implies the authentication
  flag: the dashboard is never selected for a user who is not authenticated.
\<close>

theorem reachable_character_authenticated:
  assumes "reachable f c0 s" and "hasCharacter (fst s)"
  shows "isAuthenticated (fst s)"
  using reachable_inv [OF assms(1)] assms(2) by (simp add: app_inv_def)

text \<open>
  If the server answers every successful request to an auth endpoint with a string
  \<^verbatim>\<open>access_token\<close>, then in every reachable state the cached token equals what
  \<^verbatim>\<open>localStorage\<close> holds under \<^verbatim>\<open>token\<close>: a reload of the page starts from the same
  credential.
\<close>

theorem reachable_coherent:
  assumes "issues_string_tokens f" and "reachable f c0 s"
  shows "token_coherent (snd s)"
  using assms(2,1) by (rule reachable_coherent_aux)

text \<open>
  C15 (app_trans_refines_spec). Every step of the application from a reachable state either keeps the screen
  or is a transition of the specification's screen machine.
\<close>

theorem app_trans_refines_spec:
  assumes "reachable f c0 s" and "app_trans f s e s'"
  shows "app_render (fst s') = app_render (fst s) \<or>
         spec_transition (app_render (fst s)) (app_render (fst s'))"
  using app_trans_refines [OF assms(2) reachable_inv [OF assms(1)]] .

text \<open>
  C31 (login_lands_on_creation). A submission of the auth form from a reachable state leads to the
  character-creation screen if the call was fulfilled, and keeps the auth screen if not. The
  game state is not consulted: \<^verbatim>\<open>hasCharacter\<close> is computed once at start-up only, so a user
  who logs in through the form is sent to character creation even when the server has a
  character for them (the closed instance below is such a run).
\<close>

theorem login_lands_on_creation:
  assumes "reachable f c0 s" and "app_trans f s (Submitted op) s'"
  shows "app_render (fst s') =
           (if fulfilled (call f op (snd s)) then CharacterCreationScreen else AuthScreen)"
  using assms(2) reachable_inv [OF assms(1)]
  by (auto elim!: app_trans_SubmittedE simp: app_inv_def view_defs)

text \<open>
  The guards of \<open>app_trans\<close> exclude no state, whatever the server does: on every screen an
  event of that screen has a step (the start-up check on the loading screen, a login on the
  auth screen, a preview on the creation screen, the logout on the dashboard), and by
  \<open>app_trans_screen\<close> no event of another screen has one. Whether the mounted page offers the
  control that raises the event is a property of the page: the dashboard after a failed
  first load offers none.
\<close>

theorem app_trans_enabled:
  "\<exists>e s'. app_trans f s e s' \<and> event_screen e = app_render (fst s)"
proof (cases s)
  case (Pair a c)
  obtain r c' where login: "call f (Login [] []) c = (r, c')"
    by (cases "call f (Login [] []) c")
  have "\<exists>e s'. app_trans f (a, c) e s'"
  proof (cases "app_render a")
    case LoadingScreen
    then show ?thesis by (blast intro: app_trans.mounted)
  next
    case AuthScreen
    have "stores_token (Login [] [])" by simp
    from login app_trans.submit_ok [OF AuthScreen this, of f c]
      app_trans.submit_failed [OF AuthScreen this, of f c]
    show ?thesis by (cases r) blast+
  next
    case CharacterCreationScreen
    have "creation_op (PreviewCharacter n a b) \<and> \<not> creates (PreviewCharacter n a b)" for n a b
      by simp
    then obtain op where "creation_op op" "\<not> creates op" by blast
    from app_trans.create_other [OF CharacterCreationScreen this(1), of f c] this(2)
    show ?thesis by blast
  next
    case GameScreen
    then show ?thesis by (blast intro: app_trans.logged_out)
  qed
  with Pair obtain e s' where step: "app_trans f s e s'" by blast
  from step app_trans_screen [OF step] show ?thesis
    by (intro exI [of _ e] exI [of _ s']) simp
qed


lemma reachable_boot: "reachable f c0 (boot f c0)"
  unfolding boot_def
  by (rule reachable.step [OF reachable.start app_trans.mounted]) simp

lemma demo_server_issues_string_tokens: "issues_string_tokens demo_server"
  unfolding issues_string_tokens_def demo_server_def static_server_def
  by (auto simp: is_string_def auth_endpoint_def ends_with_def split: option.splits if_splits)

lemma fresh_boot:
  "boot demo_server (profile Map.empty ()) =
     (\<lparr>isAuthenticated = False, hasCharacter = False, loading = False\<rparr>, client0 ())"
  by (simp add: run_defs profile_def client0_def app_initial_def)

lemma demo_login:
  "call demo_server (Login ''a@b.com'' ''pw'') (client0 ()) =
     (Inr (JObj [(''access_token'', JStr ''t1'')]), setToken (JStr ''t1'') (client0 ()))"
  by (simp add: demo_defs run_defs client0_def)

theorem reachable_auth_screen_no_token_witness:
  "reachable demo_server (profile Map.empty ()) (boot demo_server (profile Map.empty ())) \<and>
   app_render (fst (boot demo_server (profile Map.empty ()))) = AuthScreen \<and>
   \<not> truthy (token (snd (boot demo_server (profile Map.empty ()))))"
proof -
  have r: "reachable demo_server (profile Map.empty ()) (boot demo_server (profile Map.empty ()))"
    by (rule reachable_boot)
  have a: "app_render (fst (boot demo_server (profile Map.empty ()))) = AuthScreen"
    by (simp add: fresh_boot)
  from reachable_auth_screen_no_token [OF r a] r a show ?thesis by simp
qed

theorem reachable_character_authenticated_witness:
  "reachable demo_server demo_profile (boot demo_server demo_profile) \<and>
   hasCharacter (fst (boot demo_server demo_profile)) \<and>
   isAuthenticated (fst (boot demo_server demo_profile))"
proof -
  have r: "reachable demo_server demo_profile (boot demo_server demo_profile)"
    by (rule reachable_boot)
  have h: "hasCharacter (fst (boot demo_server demo_profile))"
    by (simp add: run_defs demo_defs app_initial_def)
  from reachable_character_authenticated [OF r h] r h show ?thesis by simp
qed

theorem reachable_coherent_witness:
  "issues_string_tokens demo_server \<and>
   reachable demo_server demo_profile (boot demo_server demo_profile) \<and>
   token_coherent (snd (boot demo_server demo_profile))"
  using reachable_coherent [OF demo_server_issues_string_tokens reachable_boot [of demo_server demo_profile]]
    demo_server_issues_string_tokens reachable_boot [of demo_server demo_profile]
  by simp

theorem app_trans_refines_spec_witness:
  "reachable demo_server demo_profile (app_initial, constructor demo_profile) \<and>
   app_trans demo_server (app_initial, constructor demo_profile) Mounted
     (checkAuth demo_server (app_initial, constructor demo_profile)) \<and>
   spec_transition LoadingScreen
     (app_render (fst (checkAuth demo_server (app_initial, constructor demo_profile))))"
proof -
  have r: "reachable demo_server demo_profile (app_initial, constructor demo_profile)"
    by (rule reachable.start)
  have t: "app_trans demo_server (app_initial, constructor demo_profile) Mounted
     (checkAuth demo_server (app_initial, constructor demo_profile))"
    by (rule app_trans.mounted) simp
  from app_trans_refines_spec [OF r t] r t show ?thesis by simp
qed

theorem login_lands_on_creation_witness:
  "reachable demo_server (profile Map.empty ()) (boot demo_server (profile Map.empty ())) \<and>
   app_trans demo_server (boot demo_server (profile Map.empty ()))
     (Submitted (Login ''a@b.com'' ''pw''))
     (handleAuthSuccess (fst (boot demo_server (profile Map.empty ()))), setToken (JStr ''t1'') (client0 ())) \<and>
   app_render (handleAuthSuccess (fst (boot demo_server (profile Map.empty ())))) = CharacterCreationScreen \<and>
   truthy (opt_chain demo_state ''player_character'') \<and>
   fst (getGameState demo_server (setToken (JStr ''t1'') (client0 ()))) = Inr demo_state"
proof -
  let ?s = "boot demo_server (profile Map.empty ())"
  have r: "reachable demo_server (profile Map.empty ()) ?s" by (rule reachable_boot)
  have t: "app_trans demo_server ?s (Submitted (Login ''a@b.com'' ''pw''))
     (handleAuthSuccess (fst ?s), setToken (JStr ''t1'') (client0 ()))"
    unfolding fresh_boot fst_conv
    by (rule app_trans.submit_ok [OF _ _ demo_login]) simp_all
  have g: "fst (getGameState demo_server (setToken (JStr ''t1'') (client0 ()))) = Inr demo_state"
    by (simp add: demo_defs run_defs client0_def setToken_def)
  from login_lands_on_creation [OF r t] r t g show ?thesis
    by (simp add: fresh_boot demo_login [simplified] demo_state_def)
qed

end
