(* ===== verification/AuthPage.thy ===== *)
theory AuthPage
  imports ApiService
begin

text \<open>
  The component \<^verbatim>\<open>AuthPage\<close> of \<^verbatim>\<open>src/life-sim-frontend/src/components/AuthPage.tsx\<close>:
  the login and registration form.

  \<^item> State. \<open>auth_page\<close> is the six values kept with \<^verbatim>\<open>useState\<close>. The callback prop
    \<^verbatim>\<open>onAuthSuccess\<close> is a function on the state \<open>'p\<close> of whoever mounted the page; the
    handlers work on the page, that parent state and the \<open>'w client\<close> of \<open>ApiService\<close>.
  \<^item> Operations. \<open>handleSubmit\<close> is the \<^verbatim>\<open>async\<close> submit handler run to completion:
    \<open>submit_start\<close> is what it does before the \<^verbatim>\<open>await\<close>, \<open>submit_op\<close> the API call it
    awaits (made from the field values of the render that created the handler), and
    \<open>submit_finish\<close> its \<^verbatim>\<open>try\<close>/\<^verbatim>\<open>catch\<close>/\<^verbatim>\<open>finally\<close> after the call settled.
    \<^verbatim>\<open>e.preventDefault()\<close> has no effect on the state modelled here.
  \<^item> View. \<open>auth_render\<close> is the JSX the component returns, reduced to what depends
    on the state: the texts, the input values, whether the user-name input and the alert
    exist, and whether the submit button is disabled. \<open>can_submit\<close> is when the browser
    delivers a submit event: the button is enabled and every rendered \<^verbatim>\<open>required\<close> input is
    filled in (the syntax check of \<^verbatim>\<open>type="email"\<close> is left to the browser and not
    modelled, so the model allows more submissions than a browser does).
  \<^item> The machine. \<open>auth_trans\<close> is the page with its request in flight made explicit:
    a submit event starts the handler and parks the call (\<open>in_flight\<close>); a later step
    settles it. Edits of the inputs and the mode toggle may happen in between.
  \<^item> Lemmas. The outcome of a submission on the success and the failure path; that
    the in-flight request disables the form, so that submissions are serialised; what the
    alert shows.
\<close>

section \<open>State and view\<close>

record auth_page =
  isLogin :: bool
  email :: string
  username :: string
  password :: string
  error :: string
  loading :: bool

definition auth_initial :: auth_page where
  "auth_initial = \<lparr>isLogin = True, email = [], username = [], password = [], error = [],
     loading = False\<rparr>"

record auth_view =
  description :: string
  email_value :: string
  username_value :: "string option"
  password_value :: string
  alert :: "string option"
  submit_disabled :: bool
  submit_label :: string
  toggle_label :: string

definition auth_render :: "auth_page \<Rightarrow> auth_view" where
  "auth_render s =
     \<lparr>description = (if isLogin s then ''Login to continue your journey''
                      else ''Create an account to begin''),
      email_value = email s,
      username_value = (if \<not> isLogin s then Some (username s) else None),
      password_value = password s,
      alert = (if error s \<noteq> [] then Some (error s) else None),
      submit_disabled = loading s,
      submit_label = (if loading s then ''Please wait...''
                       else if isLogin s then ''Login'' else ''Register''),
      toggle_label = (if isLogin s then ''Don'' @ [CHR 0x27] @ ''t have an account? Register''
                       else ''Already have an account? Login'')\<rparr>"

definition can_submit :: "auth_page \<Rightarrow> bool" where
  "can_submit s \<longleftrightarrow>
     \<not> submit_disabled (auth_render s) \<and> email_value (auth_render s) \<noteq> [] \<and>
     username_value (auth_render s) \<noteq> Some [] \<and> password_value (auth_render s) \<noteq> []"

section \<open>The submit handler\<close>

definition submit_start :: "auth_page \<Rightarrow> auth_page" where
  "submit_start s = s\<lparr>error := [], loading := True\<rparr>"

definition submit_op :: "auth_page \<Rightarrow> api_op" where
  "submit_op s =
     (if isLogin s then Login (email s) (password s)
      else Register (email s) (username s) (password s))"

definition submit_finish ::
  "('p \<Rightarrow> 'p) \<Rightarrow> js_error + jsval \<Rightarrow> auth_page \<times> 'p \<Rightarrow> auth_page \<times> 'p" where
  "submit_finish onAuthSuccess r = (\<lambda>(s, p).
     let (s', p') =
       (case r of
          Inr data \<Rightarrow> (s, onAuthSuccess p)
        | Inl err \<Rightarrow>
            (s\<lparr>error := (if instanceof_Error err then message err else ''An error occurred'')\<rparr>, p))
     in (s'\<lparr>loading := False\<rparr>, p'))"

definition handleSubmit ::
  "'w fetch \<Rightarrow> ('p \<Rightarrow> 'p) \<Rightarrow> auth_page \<times> 'p \<times> 'w client \<Rightarrow> auth_page \<times> 'p \<times> 'w client" where
  "handleSubmit f onAuthSuccess = (\<lambda>(s, p, c).
     let (r, c') = call f (submit_op s) c;
         (s', p') = submit_finish onAuthSuccess r (submit_start s, p)
     in (s', p', c'))"

section \<open>Events\<close>

datatype auth_event =
    SetEmail string
  | SetUsername string
  | SetPassword string
  | ToggleMode
  | SubmitForm

fun auth_edit :: "auth_event \<Rightarrow> auth_page \<Rightarrow> auth_page" where
  "auth_edit (SetEmail v) s = s\<lparr>email := v\<rparr>"
| "auth_edit (SetUsername v) s = s\<lparr>username := v\<rparr>"
| "auth_edit (SetPassword v) s = s\<lparr>password := v\<rparr>"
| "auth_edit ToggleMode s = s\<lparr>isLogin := \<not> isLogin s\<rparr>"
| "auth_edit SubmitForm s = s"

fun auth_step ::
  "'w fetch \<Rightarrow> ('p \<Rightarrow> 'p) \<Rightarrow> auth_event \<Rightarrow> auth_page \<times> 'p \<times> 'w client \<Rightarrow> auth_page \<times> 'p \<times> 'w client" where
  "auth_step f onAuthSuccess SubmitForm (s, p, c) =
     (if can_submit s then handleSubmit f onAuthSuccess (s, p, c) else (s, p, c))"
| "auth_step f onAuthSuccess ev (s, p, c) = (auth_edit ev s, p, c)"

fun auth_run ::
  "'w fetch \<Rightarrow> ('p \<Rightarrow> 'p) \<Rightarrow> auth_event list \<Rightarrow> auth_page \<times> 'p \<times> 'w client \<Rightarrow> auth_page \<times> 'p \<times> 'w client" where
  "auth_run f onAuthSuccess [] x = x"
| "auth_run f onAuthSuccess (ev # evs) x = auth_run f onAuthSuccess evs (auth_step f onAuthSuccess ev x)"

section \<open>The page with its request in flight\<close>

record ('p, 'w) auth_sys =
  page :: auth_page
  in_flight :: "api_op option"
  parent :: 'p
  browser :: "'w client"

definition auth_sys_initial :: "'p \<Rightarrow> 'w client \<Rightarrow> ('p, 'w) auth_sys" where
  "auth_sys_initial p c = \<lparr>page = auth_initial, in_flight = None, parent = p, browser = c\<rparr>"

inductive auth_trans ::
  "'w fetch \<Rightarrow> ('p \<Rightarrow> 'p) \<Rightarrow> ('p, 'w) auth_sys \<Rightarrow> ('p, 'w) auth_sys \<Rightarrow> bool"
  for f :: "'w fetch" and onAuthSuccess :: "'p \<Rightarrow> 'p" where
  edit:
    "ev \<noteq> SubmitForm \<Longrightarrow> auth_trans f onAuthSuccess x (x\<lparr>page := auth_edit ev (page x)\<rparr>)"
| submit:
    "can_submit (page x) \<Longrightarrow>
     auth_trans f onAuthSuccess x
       (x\<lparr>page := submit_start (page x), in_flight := Some (submit_op (page x))\<rparr>)"
| settled:
    "in_flight x = Some op \<Longrightarrow> call f op (browser x) = (r, c') \<Longrightarrow>
     submit_finish onAuthSuccess r (page x, parent x) = (s', p') \<Longrightarrow>
     auth_trans f onAuthSuccess x \<lparr>page = s', in_flight = None, parent = p', browser = c'\<rparr>"

inductive auth_reachable ::
  "'w fetch \<Rightarrow> ('p \<Rightarrow> 'p) \<Rightarrow> ('p, 'w) auth_sys \<Rightarrow> ('p, 'w) auth_sys \<Rightarrow> bool"
  for f :: "'w fetch" and onAuthSuccess :: "'p \<Rightarrow> 'p" and x0 :: "('p, 'w) auth_sys" where
  auth_start: "auth_reachable f onAuthSuccess x0 x0"
| auth_next: "auth_reachable f onAuthSuccess x0 x \<Longrightarrow> auth_trans f onAuthSuccess x y \<Longrightarrow>
     auth_reachable f onAuthSuccess x0 y"

text \<open>
  \<open>auth_inv\<close> is the invariant of the machine: a request is in flight exactly while the
  loading flag is set. \<open>filled_form\<close> and \<open>filled_sys\<close> are a page with e-mail and password
  typed in, for the closed instances.
\<close>

definition auth_inv :: "('p, 'w) auth_sys \<Rightarrow> bool" where
  "auth_inv x \<longleftrightarrow> (in_flight x \<noteq> None \<longleftrightarrow> loading (page x))"

definition filled_form :: auth_page where
  "filled_form = auth_initial\<lparr>email := ''a@b.com'', password := ''pw''\<rparr>"

definition filled_sys :: "(nat, unit) auth_sys" where
  "filled_sys = \<lparr>page = filled_form, in_flight = None, parent = 0, browser = client0 ()\<rparr>"

lemmas auth_handler_defs [view_defs] =
  submit_start_def submit_op_def submit_finish_def handleSubmit_def

section \<open>Submissions\<close>

lemma auth_sys_initial_idle:
  "in_flight (auth_sys_initial p c) = None" "\<not> loading (page (auth_sys_initial p c))"
  by (simp_all add: auth_sys_initial_def auth_initial_def)

lemma handleSubmit_fulfilled:
  "call f (submit_op s) c = (Inr data, c') \<Longrightarrow>
   handleSubmit f g (s, p, c) = (s\<lparr>error := [], loading := False\<rparr>, g p, c')"
  by (simp add: handleSubmit_def submit_finish_def submit_start_def)

lemma handleSubmit_rejected:
  "call f (submit_op s) c = (Inl err, c') \<Longrightarrow>
   handleSubmit f g (s, p, c) =
     (s\<lparr>error := (if instanceof_Error err then message err else ''An error occurred''),
        loading := False\<rparr>, p, c')"
  by (simp add: handleSubmit_def submit_finish_def submit_start_def)

lemma stores_token_submit_op [simp]: "stores_token (submit_op s)"
  by (simp add: submit_op_def)

text \<open>
  C7 (submit_success). A submission whose API call is fulfilled: the parent's callback is applied
  (once) to the parent state, the page shows no alert and is enabled again, and the client
  it leaves has stored the \<^verbatim>\<open>access_token\<close> of the payload in the cache and in
  \<^verbatim>\<open>localStorage\<close>.
\<close>

theorem submit_success:
  assumes "call f (submit_op s) c = (Inr data, c')"
  shows "\<exists>t. handleSubmit f g (s, p, c) = (s\<lparr>error := [], loading := False\<rparr>, g p, c') \<and>
           get_prop data ''access_token'' = Inr t \<and> token c' = t \<and>
           localStorage c' ''token'' = Some (to_string t)"
proof -
  from call_fulfilled_token [OF stores_token_submit_op assms]
  obtain t where "get_prop data ''access_token'' = Inr t" "token c' = t"
    "localStorage c' ''token'' = Some (to_string t)"
    by (elim exE conjE)
  with handleSubmit_fulfilled [OF assms, of g p] show ?thesis
    by (intro exI [of _ t]) simp
qed

text \<open>
  C21 (submit_failure). A submission whose API call is rejected with an \<^verbatim>\<open>Error\<close>: the alert shows the
  error's message (and nothing when the message is empty), the submit button is enabled
  again, the parent's callback is not called, and the token store is as it was.
\<close>

theorem submit_failure:
  assumes "call f (submit_op s) c = (Inl err, c')" and "instanceof_Error err"
  shows "alert (auth_render (fst (handleSubmit f g (s, p, c)))) =
           (if message err = [] then None else Some (message err)) \<and>
         \<not> submit_disabled (auth_render (fst (handleSubmit f g (s, p, c)))) \<and>
         fst (snd (handleSubmit f g (s, p, c))) = p \<and>
         same_store c (snd (snd (handleSubmit f g (s, p, c))))"
  using call_rejected_same_store [OF assms(1)] assms
  by (simp add: handleSubmit_rejected auth_render_def)

lemma auth_step_edit: "ev \<noteq> SubmitForm \<Longrightarrow> auth_step f g ev (s, p, c) = (auth_edit ev s, p, c)"
  by (cases ev) simp_all

text \<open>
  Typing into the inputs and toggling between login and registration touch
  neither the parent nor the client: nothing is sent and nothing is stored before the form
  is submitted.
\<close>

theorem edits_send_nothing:
  assumes "SubmitForm \<notin> set evs"
  shows "snd (auth_run f g evs (s, p, c)) = (p, c)"
  using assms
proof (induction evs arbitrary: s)
  case Nil
  show ?case by simp
next
  case (Cons ev evs)
  then have "ev \<noteq> SubmitForm" by auto
  then have "auth_step f g ev (s, p, c) = (auth_edit ev s, p, c)"
    by (rule auth_step_edit)
  with Cons show ?case by simp
qed

lemma auth_edit_loading [simp]: "loading (auth_edit ev s) = loading s"
  by (cases ev) simp_all

lemma can_submit_not_loading: "can_submit s \<Longrightarrow> \<not> loading s"
  by (simp add: can_submit_def auth_render_def)

lemma submit_finish_loading: "submit_finish g r (s, p) = (s', p') \<Longrightarrow> \<not> loading s'"
  by (auto simp: submit_finish_def split: sum.splits)

lemma auth_trans_inv:
  assumes "auth_trans f g x y" and "auth_inv x"
  shows "auth_inv y"
  using assms
proof (cases rule: auth_trans.cases)
  case (edit ev)
  with assms(2) show ?thesis by (simp add: auth_inv_def)
next
  case submit
  then show ?thesis by (simp add: auth_inv_def submit_start_def)
next
  case (settled op r c' s' p')
  from submit_finish_loading [OF settled(4)] settled(1) show ?thesis
    by (simp add: auth_inv_def)
qed

lemma auth_reachable_inv:
  "auth_reachable f g x0 x \<Longrightarrow> auth_inv x0 \<Longrightarrow> auth_inv x"
  by (induction rule: auth_reachable.induct) (auto intro: auth_trans_inv)

text \<open>
  C22 (submissions_serialised). Submissions are serialised. From a page that is idle (no request in
  flight, loading flag unset), in every reachable state the submit button is disabled
  exactly while a request is in flight, and no second submission can start until the
  first has settled, whatever is typed or toggled in between.
\<close>

theorem submissions_serialised:
  assumes "auth_reachable f g x0 x" and "in_flight x0 = None" and "\<not> loading (page x0)"
  shows "(in_flight x \<noteq> None \<longleftrightarrow> submit_disabled (auth_render (page x))) \<and>
         (in_flight x \<noteq> None \<longrightarrow> \<not> can_submit (page x))"
proof -
  from assms(2,3) have "auth_inv x0" by (simp add: auth_inv_def)
  with assms(1) have "auth_inv x" by (rule auth_reachable_inv)
  then have a: "in_flight x \<noteq> None \<longleftrightarrow> loading (page x)"
    unfolding auth_inv_def .
  have b: "submit_disabled (auth_render (page x)) = loading (page x)"
    by (simp add: auth_render_def)
  from a b can_submit_not_loading [of "page x"] show ?thesis by blast
qed


text \<open>
  The atomic handler and the small-step machine agree: from a
  state whose form can be submitted, the machine takes a \<open>submit\<close> step and then a \<open>settled\<close>
  step, and the state it arrives at is the one \<open>handleSubmit\<close> computes in one go (page,
  parent and browser), with no request in flight.
\<close>

theorem submit_then_settle:
  assumes "can_submit (page x)"
  shows "\<exists>y. auth_trans f g x y \<and>
           auth_trans f g y
             \<lparr>page = fst (handleSubmit f g (page x, parent x, browser x)),
              in_flight = None,
              parent = fst (snd (handleSubmit f g (page x, parent x, browser x))),
              browser = snd (snd (handleSubmit f g (page x, parent x, browser x)))\<rparr>"
proof -
  let ?y = "x\<lparr>page := submit_start (page x), in_flight := Some (submit_op (page x))\<rparr>"
  obtain r c' where rc: "call f (submit_op (page x)) (browser x) = (r, c')"
    by (cases "call f (submit_op (page x)) (browser x)")
  obtain s' p' where sp: "submit_finish g r (submit_start (page x), parent x) = (s', p')"
    by (cases "submit_finish g r (submit_start (page x), parent x)")
  have "auth_trans f g x ?y" using assms by (rule auth_trans.submit)
  moreover have "auth_trans f g ?y \<lparr>page = s', in_flight = None, parent = p', browser = c'\<rparr>"
    by (rule auth_trans.settled [where op = "submit_op (page x)" and r = r]) (simp_all add: rc sp)
  moreover have "handleSubmit f g (page x, parent x, browser x) = (s', p', c')"
    by (simp add: handleSubmit_def rc sp)
  ultimately show ?thesis by (intro exI [of _ ?y]) simp
qed

lemmas auth_eval_defs = filled_form_def auth_initial_def submit_op_def login_server_def
  error_server_def eval_defs

lemma filled_form_login:
  "call login_server (submit_op filled_form) (client0 ()) =
     (Inr (JObj [(''access_token'', JStr ''t1'')]), setToken (JStr ''t1'') (client0 ()))"
  by (simp add: auth_eval_defs)

lemma filled_form_rejected:
  "call (error_server (JObj [(''detail'', JStr ''Incorrect email or password'')]))
     (submit_op filled_form) (client0 ()) = (Inl (Error ''Incorrect email or password''), client0 ())"
  by (simp add: auth_eval_defs)

theorem submit_success_witness:
  "call login_server (submit_op filled_form) (client0 ()) =
     (Inr (JObj [(''access_token'', JStr ''t1'')]), setToken (JStr ''t1'') (client0 ())) \<and>
   handleSubmit login_server Suc (filled_form, 0, client0 ()) =
     (filled_form\<lparr>error := [], loading := False\<rparr>, 1, setToken (JStr ''t1'') (client0 ()))"
  using submit_success [OF filled_form_login, of Suc 0] filled_form_login by simp

theorem submit_failure_witness:
  "call (error_server (JObj [(''detail'', JStr ''Incorrect email or password'')]))
     (submit_op filled_form) (client0 ()) = (Inl (Error ''Incorrect email or password''), client0 ()) \<and>
   instanceof_Error (Error ''Incorrect email or password'') \<and>
   alert (auth_render (fst (handleSubmit
       (error_server (JObj [(''detail'', JStr ''Incorrect email or password'')])) Suc
       (filled_form, 0, client0 ())))) = Some ''Incorrect email or password''"
  using submit_failure [OF filled_form_rejected, of Suc 0] filled_form_rejected by simp

theorem edits_send_nothing_witness:
  "SubmitForm \<notin> set [SetEmail ''a@b.com'', ToggleMode, SetUsername ''alice''] \<and>
   snd (auth_run login_server Suc [SetEmail ''a@b.com'', ToggleMode, SetUsername ''alice'']
          (auth_initial, 0, client0 ())) = (0, client0 ())"
  using edits_send_nothing
    [of "[SetEmail ''a@b.com'', ToggleMode, SetUsername ''alice'']" login_server Suc auth_initial 0 "client0 ()"]
  by simp

lemma can_submit_filled_form: "can_submit filled_form"
  by (simp add: can_submit_def auth_render_def filled_form_def auth_initial_def)

theorem submissions_serialised_witness:
  "auth_reachable login_server Suc filled_sys
     (filled_sys\<lparr>page := submit_start (page filled_sys),
                  in_flight := Some (submit_op (page filled_sys))\<rparr>) \<and>
   in_flight filled_sys = None \<and> \<not> loading (page filled_sys) \<and>
   \<not> can_submit (submit_start filled_form)"
proof -
  have c: "can_submit (page filled_sys)"
    by (simp add: filled_sys_def can_submit_filled_form)
  have r: "auth_reachable login_server Suc filled_sys
     (filled_sys\<lparr>page := submit_start (page filled_sys),
                  in_flight := Some (submit_op (page filled_sys))\<rparr>)"
    by (rule auth_reachable.auth_next [OF auth_reachable.auth_start auth_trans.submit [OF c]])
  have i: "in_flight filled_sys = None" "\<not> loading (page filled_sys)"
    by (simp_all add: filled_sys_def filled_form_def auth_initial_def)
  from submissions_serialised [OF r i] r i show ?thesis
    by (simp add: filled_sys_def)
qed

theorem submit_then_settle_witness:
  "can_submit (page filled_sys) \<and>
   (\<exists>y. auth_trans login_server Suc filled_sys y \<and>
        auth_trans login_server Suc y
          \<lparr>page = filled_form\<lparr>error := [], loading := False\<rparr>, in_flight = None, parent = 1,
           browser = setToken (JStr ''t1'') (client0 ())\<rparr>)"
proof -
  have c: "can_submit (page filled_sys)"
    by (simp add: filled_sys_def can_submit_filled_form)
  have h: "handleSubmit login_server Suc (filled_form, 0, client0 ()) =
     (filled_form\<lparr>error := [], loading := False\<rparr>, 1, setToken (JStr ''t1'') (client0 ()))"
    using handleSubmit_fulfilled [OF filled_form_login, of Suc 0] by simp
  from submit_then_settle [OF c, of login_server Suc] c h show ?thesis
    by (simp add: filled_sys_def)
qed

end
