(* ===== verification/ApiTypes.thy ===== *)
theory ApiTypes
  imports ApiService
begin

text \<open>
  The exported interfaces of \<^verbatim>\<open>src/life-sim-frontend/src/api.ts\<close> as predicates on JSON
  values.

  A TypeScript interface is erased at run time: \<^verbatim>\<open>Promise<GameState>\<close> promises nothing that
  the code checks. What the interface says is a structural property of the value, and that
  is what is defined here: \<open>is_GameState v\<close> holds when \<open>v\<close> is an object whose listed
  properties have the listed types, an optional property (\<^verbatim>\<open>image_url?\<close>) being absent or
  of its type; further properties are allowed, as structural typing allows them. All
  predicates are executable. The lemmas say what the components may conclude about a value
  of an interface: for such values "is present" and "is truthy" agree on the properties
  the views test.
\<close>

section \<open>Property types\<close>

definition is_object :: "jsval \<Rightarrow> bool" where
  "is_object v \<longleftrightarrow> (case v of JObj kvs \<Rightarrow> True | _ \<Rightarrow> False)"

definition is_number :: "jsval \<Rightarrow> bool" where
  "is_number v \<longleftrightarrow> (case v of JNum i \<Rightarrow> True | _ \<Rightarrow> False)"

definition has_string :: "jsval \<Rightarrow> string \<Rightarrow> bool" where
  "has_string v k \<longleftrightarrow> is_string (opt_chain v k)"

definition has_number :: "jsval \<Rightarrow> string \<Rightarrow> bool" where
  "has_number v k \<longleftrightarrow> is_number (opt_chain v k)"

definition has_optional :: "(jsval \<Rightarrow> bool) \<Rightarrow> jsval \<Rightarrow> string \<Rightarrow> bool" where
  "has_optional T v k \<longleftrightarrow> opt_chain v k = JUndefined \<or> T (opt_chain v k)"

definition has_array :: "(jsval \<Rightarrow> bool) \<Rightarrow> jsval \<Rightarrow> string \<Rightarrow> bool" where
  "has_array T v k \<longleftrightarrow> (case opt_chain v k of JArr xs \<Rightarrow> list_all T xs | _ \<Rightarrow> False)"

section \<open>The interfaces\<close>

definition is_User :: "jsval \<Rightarrow> bool" where
  "is_User v \<longleftrightarrow>
     is_object v \<and> has_string v ''id'' \<and> has_string v ''email'' \<and> has_string v ''username'' \<and>
     has_string v ''created_at''"

definition is_CharacterAttributes :: "jsval \<Rightarrow> bool" where
  "is_CharacterAttributes v \<longleftrightarrow>
     is_object v \<and> has_number v ''strength'' \<and> has_number v ''intelligence'' \<and>
     has_number v ''charisma'' \<and> has_number v ''agility'' \<and> has_number v ''luck''"

definition is_CharacterCharacteristics :: "jsval \<Rightarrow> bool" where
  "is_CharacterCharacteristics v \<longleftrightarrow>
     is_object v \<and> has_string v ''hair_color'' \<and> has_string v ''eye_color'' \<and>
     has_string v ''skin_tone'' \<and> has_string v ''height'' \<and> has_string v ''build''"

definition is_Character :: "jsval \<Rightarrow> bool" where
  "is_Character v \<longleftrightarrow>
     is_object v \<and> has_string v ''id'' \<and> has_string v ''name'' \<and>
     is_CharacterAttributes (opt_chain v ''attributes'') \<and>
     is_CharacterCharacteristics (opt_chain v ''characteristics'') \<and>
     has_optional is_string v ''image_url'' \<and> has_string v ''created_at''"

definition is_Place :: "jsval \<Rightarrow> bool" where
  "is_Place v \<longleftrightarrow>
     is_object v \<and> has_string v ''id'' \<and> has_string v ''name'' \<and> has_string v ''description'' \<and>
     has_optional is_string v ''image_url'' \<and> has_string v ''created_at''"

definition is_GameObject :: "jsval \<Rightarrow> bool" where
  "is_GameObject v \<longleftrightarrow>
     is_object v \<and> has_string v ''id'' \<and> has_string v ''name'' \<and> has_string v ''description'' \<and>
     has_optional is_string v ''image_url'' \<and> has_string v ''created_at''"

definition is_Action :: "jsval \<Rightarrow> bool" where
  "is_Action v \<longleftrightarrow>
     is_object v \<and> has_string v ''id'' \<and> has_string v ''description'' \<and>
     has_string v ''timestamp''"

definition is_GameState :: "jsval \<Rightarrow> bool" where
  "is_GameState v \<longleftrightarrow>
     is_object v \<and> has_string v ''user_id'' \<and>
     has_optional is_Character v ''player_character'' \<and>
     has_optional is_Place v ''current_place'' \<and>
     has_array is_GameObject v ''inventory'' \<and>
     has_array is_Character v ''discovered_characters'' \<and>
     has_array is_Place v ''discovered_places'' \<and>
     has_array is_Action v ''action_history'' \<and>
     has_string v ''last_updated''"

section \<open>The return types of the methods\<close>

text \<open>
  The type each method of \<^verbatim>\<open>ApiService\<close> declares for what it is fulfilled with. \<^verbatim>\<open>register\<close>
  and \<^verbatim>\<open>login\<close> declare none. \<open>keeps_interface f\<close> says of a server that whatever a call is
  fulfilled with has the type the method declares.
\<close>

fun returns :: "api_op \<Rightarrow> jsval \<Rightarrow> bool" where
  "returns (Register email username password) v = True"
| "returns (Login email password) v = True"
| "returns GetCurrentUser v = is_User v"
| "returns (CreateCharacter nm attrs chars) v = is_Character v"
| "returns (PreviewCharacter nm attrs chars) v = is_Character v"
| "returns GetGameState v = is_GameState v"
| "returns GenerateCharacter v = is_Character v"
| "returns GeneratePlace v = is_Place v"
| "returns GenerateObject v = is_GameObject v"
| "returns (GenerateAction ctx) v = (is_object v \<and> has_string v ''action'' \<and> has_string v ''timestamp'')"
| "returns (TravelToPlace placeId) v =
     (is_object v \<and> has_string v ''message'' \<and> is_Place (opt_chain v ''place''))"

definition keeps_interface :: "'w fetch \<Rightarrow> bool" where
  "keeps_interface f \<longleftrightarrow> (\<forall>op c v c'. call f op c = (Inr v, c') \<longrightarrow> returns op v)"

lemmas interface_defs =
  is_User_def is_CharacterAttributes_def is_CharacterCharacteristics_def is_Character_def
  is_Place_def is_GameObject_def is_Action_def is_GameState_def

lemmas property_defs = is_object_def is_number_def has_string_def has_number_def
  has_optional_def has_array_def is_string_def

text \<open>A character and a game state of the interfaces, for the closed instances.\<close>

definition rin :: jsval where
  "rin = JObj
     [(''id'', JStr ''c1''), (''name'', JStr ''Rin''),
      (''attributes'', JObj [(''strength'', JNum 5), (''intelligence'', JNum 5),
         (''charisma'', JNum 5), (''agility'', JNum 5), (''luck'', JNum 5)]),
      (''characteristics'', JObj [(''hair_color'', JStr ''brown''), (''eye_color'', JStr ''brown''),
         (''skin_tone'', JStr ''medium''), (''height'', JStr ''average''),
         (''build'', JStr ''athletic'')]),
      (''created_at'', JStr ''2025-01-01T00:00:00'')]"

definition rin_state :: jsval where
  "rin_state = JObj
     [(''user_id'', JStr ''u1''), (''player_character'', rin), (''inventory'', JArr []),
      (''discovered_characters'', JArr []), (''discovered_places'', JArr []),
      (''action_history'', JArr []), (''last_updated'', JStr ''2025-01-01T00:00:00'')]"

section \<open>What an interface lets a component conclude\<close>

lemma is_object_truthy: "is_object v \<Longrightarrow> truthy v"
  by (cases v) (simp_all add: is_object_def)

lemma is_object_not_nullish: "is_object v \<Longrightarrow> \<not> nullish v"
  by (cases v) (simp_all add: is_object_def)

lemma is_Character_object: "is_Character v \<Longrightarrow> is_object v"
  by (simp add: is_Character_def)

lemma is_Place_object: "is_Place v \<Longrightarrow> is_object v"
  by (simp add: is_Place_def)

lemma is_GameState_object: "is_GameState v \<Longrightarrow> is_object v"
  by (simp add: is_GameState_def)

lemma has_optional_truthy:
  assumes "has_optional T v k" and "\<And>x. T x \<Longrightarrow> is_object x"
  shows "truthy (opt_chain v k) \<longleftrightarrow> opt_chain v k \<noteq> JUndefined"
  using assms by (auto simp: has_optional_def dest: is_object_truthy)

lemma is_GameState_player_character:
  "is_GameState v \<Longrightarrow>
   truthy (opt_chain v ''player_character'') \<longleftrightarrow> opt_chain v ''player_character'' \<noteq> JUndefined"
  by (rule has_optional_truthy [where T = is_Character])
     (simp_all add: is_GameState_def is_Character_object)

lemma is_GameState_current_place:
  "is_GameState v \<Longrightarrow>
   truthy (opt_chain v ''current_place'') \<longleftrightarrow> opt_chain v ''current_place'' \<noteq> JUndefined"
  by (rule has_optional_truthy [where T = is_Place])
     (simp_all add: is_GameState_def is_Place_object)

lemma is_Character_rin: "is_Character rin"
  by (simp add: rin_def interface_defs property_defs)

lemma is_GameState_rin_state: "is_GameState rin_state"
  using is_Character_rin
  by (simp add: rin_state_def is_GameState_def property_defs)

lemma js_of_attributes_typed:
  "is_CharacterAttributes (js_of_attributes a) \<longleftrightarrow>
     is_number (strength a) \<and> is_number (intelligence a) \<and> is_number (charisma a) \<and>
     is_number (agility a) \<and> is_number (luck a)"
  by (simp add: is_CharacterAttributes_def js_of_attributes_def has_number_def is_object_def)

lemma js_of_characteristics_typed: "is_CharacterCharacteristics (js_of_characteristics c)"
  by (simp add: is_CharacterCharacteristics_def js_of_characteristics_def has_string_def
      is_object_def is_string_def)

section \<open>Servers that keep the interfaces\<close>

lemma keeps_interfaceD: "keeps_interface f \<Longrightarrow> call f op c = (Inr v, c') \<Longrightarrow> returns op v"
  unfolding keeps_interface_def by blast

lemma static_server_fulfilled:
  assumes "call (static_server tbl) op c = (Inr v, c')"
  shows "map_of tbl (API_URL c @ fst (snd (rest_table op))) = Some v"
  using assms
  by (cases op)
     (auto simp: api_defs register_def login_def store_access_token_def request_unfold
        static_server_def settle_def split: option.splits sum.splits)

lemma static_server_keeps_interface:
  assumes "\<And>op b v. map_of tbl (b @ fst (snd (rest_table op))) = Some v \<Longrightarrow> returns op v"
  shows "keeps_interface (static_server tbl)"
  unfolding keeps_interface_def using assms static_server_fulfilled by blast

end
