(* ===== verification/CharacterCreation.thy ===== *)
theory CharacterCreation
  imports ApiTypes
begin

text \<open>
  The character creation screen, \<^verbatim>\<open>src/life-sim-frontend/src/components/CharacterCreation.tsx\<close>.

  \<open>creation_page\<close> is the five \<^verbatim>\<open>useState\<close> cells. The handlers \<open>handlePreview\<close> and
  \<open>handleCreate\<close> are functions on the page, the parent's state and the browser, run from
  the click to the end of the \<^verbatim>\<open>finally\<close> block. \<open>creation_render\<close> is what the JSX shows;
  it is a partial function, because the preview panel reads \<^verbatim>\<open>preview.attributes.strength\<close>
  of whatever the server returned. \<open>creation_event\<close> and \<open>creation_step\<close> are the events
  of the screen and their dispatch; \<open>ui_event\<close> says which of them the slider and the
  select boxes of the JSX can emit. The keys of the attributes and of the characteristics
  are instances of the class \<open>enum\<close>, so that \<open>form_valid\<close>, a property of every key, is
  executable.

  The lemmas show the outcome of each handler on each branch, that a failure is only
  logged, that the attributes stay between 1 and 10 as long as the events come from the
  rendered controls (and not otherwise), and when the preview panel renders.
\<close>

section \<open>State\<close>

record creation_page =
  name :: string
  attributes :: CharacterAttributes
  characteristics :: CharacterCharacteristics
  preview :: jsval
  loading :: bool

definition creation_initial :: creation_page where
  "creation_initial =
     \<lparr>name = [],
      attributes = \<lparr>strength = JNum 5, intelligence = JNum 5, charisma = JNum 5,
                    agility = JNum 5, luck = JNum 5\<rparr>,
      characteristics = \<lparr>hair_color = ''brown'', eye_color = ''brown'', skin_tone = ''medium'',
                         height = ''average'', build = ''athletic''\<rparr>,
      preview = JNull, loading = False\<rparr>"

section \<open>Editing\<close>

datatype attribute_key = Strength | Intelligence | Charisma | Agility | Luck

datatype characteristic_key = Hair_color | Eye_color | Skin_tone | Height | Build

text \<open>
  Both types of keys are finite and enumerated, so that a property of all sliders or of all
  select boxes is a conjunction that can be evaluated.
\<close>

instantiation attribute_key :: enum
begin

definition "enum_attribute_key = [Strength, Intelligence, Charisma, Agility, Luck]"

definition "enum_all_attribute_key P \<longleftrightarrow>
  P Strength \<and> P Intelligence \<and> P Charisma \<and> P Agility \<and> P Luck"

definition "enum_ex_attribute_key P \<longleftrightarrow>
  P Strength \<or> P Intelligence \<or> P Charisma \<or> P Agility \<or> P Luck"

instance
proof
  have univ: "UNIV = {Strength, Intelligence, Charisma, Agility, Luck}"
    using attribute_key.exhaust by auto
  show "UNIV = set (enum_class.enum :: attribute_key list)"
    by (simp add: univ enum_attribute_key_def)
  show "distinct (enum_class.enum :: attribute_key list)"
    by (simp add: enum_attribute_key_def)
  show "enum_class.enum_all P = Ball (UNIV :: attribute_key set) P" for P
    by (simp add: univ enum_all_attribute_key_def)
  show "enum_class.enum_ex P = Bex (UNIV :: attribute_key set) P" for P
    by (simp add: univ enum_ex_attribute_key_def)
qed

end

instantiation characteristic_key :: enum
begin

definition "enum_characteristic_key = [Hair_color, Eye_color, Skin_tone, Height, Build]"

definition "enum_all_characteristic_key P \<longleftrightarrow>
  P Hair_color \<and> P Eye_color \<and> P Skin_tone \<and> P Height \<and> P Build"

definition "enum_ex_characteristic_key P \<longleftrightarrow>
  P Hair_color \<or> P Eye_color \<or> P Skin_tone \<or> P Height \<or> P Build"

instance
proof
  have univ: "UNIV = {Hair_color, Eye_color, Skin_tone, Height, Build}"
    using characteristic_key.exhaust by auto
  show "UNIV = set (enum_class.enum :: characteristic_key list)"
    by (simp add: univ enum_characteristic_key_def)
  show "distinct (enum_class.enum :: characteristic_key list)"
    by (simp add: enum_characteristic_key_def)
  show "enum_class.enum_all P = Ball (UNIV :: characteristic_key set) P" for P
    by (simp add: univ enum_all_characteristic_key_def)
  show "enum_class.enum_ex P = Bex (UNIV :: characteristic_key set) P" for P
    by (simp add: univ enum_ex_characteristic_key_def)
qed

end

text \<open>\<^verbatim>\<open>value[0]\<close>: the first element, \<^verbatim>\<open>undefined\<close> for the empty array.\<close>

fun first_of :: "jsval list \<Rightarrow> jsval" where
  "first_of [] = JUndefined"
| "first_of (v # vs) = v"

fun set_attribute :: "attribute_key \<Rightarrow> jsval \<Rightarrow> CharacterAttributes \<Rightarrow> CharacterAttributes" where
  "set_attribute Strength v a = a\<lparr>strength := v\<rparr>"
| "set_attribute Intelligence v a = a\<lparr>intelligence := v\<rparr>"
| "set_attribute Charisma v a = a\<lparr>charisma := v\<rparr>"
| "set_attribute Agility v a = a\<lparr>agility := v\<rparr>"
| "set_attribute Luck v a = a\<lparr>luck := v\<rparr>"

fun get_attribute :: "attribute_key \<Rightarrow> CharacterAttributes \<Rightarrow> jsval" where
  "get_attribute Strength a = strength a"
| "get_attribute Intelligence a = intelligence a"
| "get_attribute Charisma a = charisma a"
| "get_attribute Agility a = agility a"
| "get_attribute Luck a = luck a"

definition handleAttributeChange :: "attribute_key \<Rightarrow> jsval list \<Rightarrow> creation_page \<Rightarrow> creation_page" where
  "handleAttributeChange key val s = s\<lparr>attributes := set_attribute key (first_of val) (attributes s)\<rparr>"

definition setName :: "string \<Rightarrow> creation_page \<Rightarrow> creation_page" where
  "setName v s = s\<lparr>name := v\<rparr>"

fun set_characteristic ::
  "characteristic_key \<Rightarrow> string \<Rightarrow> CharacterCharacteristics \<Rightarrow> CharacterCharacteristics" where
  "set_characteristic Hair_color v ch = ch\<lparr>hair_color := v\<rparr>"
| "set_characteristic Eye_color v ch = ch\<lparr>eye_color := v\<rparr>"
| "set_characteristic Skin_tone v ch = ch\<lparr>skin_tone := v\<rparr>"
| "set_characteristic Height v ch = ch\<lparr>height := v\<rparr>"
| "set_characteristic Build v ch = ch\<lparr>build := v\<rparr>"

fun get_characteristic :: "characteristic_key \<Rightarrow> CharacterCharacteristics \<Rightarrow> string" where
  "get_characteristic Hair_color ch = hair_color ch"
| "get_characteristic Eye_color ch = eye_color ch"
| "get_characteristic Skin_tone ch = skin_tone ch"
| "get_characteristic Height ch = height ch"
| "get_characteristic Build ch = build ch"

definition setCharacteristics :: "characteristic_key \<Rightarrow> string \<Rightarrow> creation_page \<Rightarrow> creation_page" where
  "setCharacteristics key v s = s\<lparr>characteristics := set_characteristic key v (characteristics s)\<rparr>"

text \<open>The items of the five select boxes.\<close>

fun select_items :: "characteristic_key \<Rightarrow> string list" where
  "select_items Hair_color =
     [''black'', ''brown'', ''blonde'', ''red'', ''white'', ''gray'', ''blue'', ''purple'']"
| "select_items Eye_color = [''brown'', ''blue'', ''green'', ''hazel'', ''gray'', ''amber'']"
| "select_items Skin_tone =
     [''pale'', ''fair'', ''light'', ''medium'', ''tan'', ''olive'', ''brown'', ''dark'']"
| "select_items Height = [''short'', ''average'', ''tall'', ''very tall'']"
| "select_items Build = [''slim'', ''athletic'', ''muscular'', ''stocky'', ''heavy'']"

section \<open>The two requests\<close>

definition buttons_disabled :: "creation_page \<Rightarrow> bool" where
  "buttons_disabled s \<longleftrightarrow> name s = [] \<or> loading s"

definition preview_op :: "creation_page \<Rightarrow> api_op" where
  "preview_op s = PreviewCharacter (name s) (attributes s) (characteristics s)"

definition create_op :: "creation_page \<Rightarrow> api_op" where
  "create_op s = CreateCharacter (name s) (attributes s) (characteristics s)"

definition request_start :: "creation_page \<Rightarrow> creation_page" where
  "request_start s = s\<lparr>loading := True\<rparr>"

definition preview_finish ::
  "(js_error, jsval, 'w client) promise \<Rightarrow> creation_page \<Rightarrow> creation_page \<times> 'w client" where
  "preview_finish r s =
     (case r of
        (Inr character, c) \<Rightarrow> (s\<lparr>preview := character, loading := False\<rparr>, c)
      | (Inl error, c) \<Rightarrow> (s\<lparr>loading := False\<rparr>, console_error ''Preview failed:'' error c))"

definition handlePreview :: "'w fetch \<Rightarrow> creation_page \<times> 'w client \<Rightarrow> creation_page \<times> 'w client" where
  "handlePreview f = (\<lambda>(s, c).
     if name s = [] then (s, c)
     else preview_finish (call f (preview_op s) c) (request_start s))"

definition create_finish ::
  "('p \<Rightarrow> 'p) \<Rightarrow> (js_error, jsval, 'w client) promise \<Rightarrow> creation_page \<times> 'p \<Rightarrow>
     creation_page \<times> 'p \<times> 'w client" where
  "create_finish onCharacterCreated r = (\<lambda>(s, p).
     case r of
       (Inr character, c) \<Rightarrow> (s\<lparr>loading := False\<rparr>, onCharacterCreated p, c)
     | (Inl error, c) \<Rightarrow>
         (s\<lparr>loading := False\<rparr>, p, console_error ''Character creation failed:'' error c))"

definition handleCreate ::
  "'w fetch \<Rightarrow> ('p \<Rightarrow> 'p) \<Rightarrow> creation_page \<times> 'p \<times> 'w client \<Rightarrow> creation_page \<times> 'p \<times> 'w client" where
  "handleCreate f onCharacterCreated = (\<lambda>(s, p, c).
     if name s = [] then (s, p, c)
     else create_finish onCharacterCreated (call f (create_op s) c) (request_start s, p))"

section \<open>What is shown\<close>

record preview_view =
  image :: "jsval option"
  heading :: jsval
  stats :: "jsval list"

record creation_view =
  name_input :: string
  sliders :: "(string \<times> jsval) list"
  selects :: "string list"
  preview_disabled :: bool
  create_disabled :: bool
  panel :: "preview_view option"

definition preview_panel :: "jsval \<Rightarrow> js_error + preview_view option" where
  "preview_panel p =
     (if truthy p then
        (case get_prop p ''image_url'' of Inl e \<Rightarrow> Inl e | Inr image_url \<Rightarrow>
         case get_prop p ''name'' of Inl e \<Rightarrow> Inl e | Inr nm \<Rightarrow>
         case get_prop p ''attributes'' of Inl e \<Rightarrow> Inl e | Inr attrs \<Rightarrow>
         case read_all attrs [''strength'', ''intelligence'', ''charisma'', ''agility'', ''luck''] of
           Inl e \<Rightarrow> Inl e
         | Inr vals \<Rightarrow>
             Inr (Some \<lparr>image = (if truthy image_url then Some image_url else None),
                        heading = nm, stats = vals\<rparr>))
      else Inr None)"

definition creation_render :: "creation_page \<Rightarrow> js_error + creation_view" where
  "creation_render s =
     (case preview_panel (preview s) of
        Inl e \<Rightarrow> Inl e
      | Inr pv \<Rightarrow>
          Inr \<lparr>name_input = name s,
               sliders = [(''strength'', strength (attributes s)),
                          (''intelligence'', intelligence (attributes s)),
                          (''charisma'', charisma (attributes s)),
                          (''agility'', agility (attributes s)),
                          (''luck'', luck (attributes s))],
               selects = [hair_color (characteristics s), eye_color (characteristics s),
                          skin_tone (characteristics s), height (characteristics s),
                          build (characteristics s)],
               preview_disabled = buttons_disabled s,
               create_disabled = buttons_disabled s,
               panel = pv\<rparr>)"

section \<open>Events\<close>

datatype creation_event =
    TypeName string
  | Slide attribute_key "jsval list"
  | Choose characteristic_key string
  | ClickPreview
  | ClickCreate

fun creation_step ::
  "'w fetch \<Rightarrow> ('p \<Rightarrow> 'p) \<Rightarrow> creation_event \<Rightarrow> creation_page \<times> 'p \<times> 'w client \<Rightarrow>
     creation_page \<times> 'p \<times> 'w client" where
  "creation_step f g (TypeName v) (s, p, c) = (setName v s, p, c)"
| "creation_step f g (Slide key val) (s, p, c) = (handleAttributeChange key val s, p, c)"
| "creation_step f g (Choose key v) (s, p, c) = (setCharacteristics key v s, p, c)"
| "creation_step f g ClickPreview (s, p, c) =
     (if buttons_disabled s then (s, p, c)
      else (fst (handlePreview f (s, c)), p, snd (handlePreview f (s, c))))"
| "creation_step f g ClickCreate (s, p, c) =
     (if buttons_disabled s then (s, p, c) else handleCreate f g (s, p, c))"

fun creation_run ::
  "'w fetch \<Rightarrow> ('p \<Rightarrow> 'p) \<Rightarrow> creation_event list \<Rightarrow> creation_page \<times> 'p \<times> 'w client \<Rightarrow>
     creation_page \<times> 'p \<times> 'w client" where
  "creation_run f g [] x = x"
| "creation_run f g (ev # evs) x = creation_run f g evs (creation_step f g ev x)"

section \<open>What the rendered controls can emit\<close>

text \<open>
  The slider is rendered with \<^verbatim>\<open>min={1} max={10} step={1}\<close> and each select box with a fixed
  list of items. \<open>ui_event\<close> holds of the events these controls emit; \<open>form_valid\<close> is the
  property of the form they are meant to keep.
\<close>

definition in_range :: "jsval \<Rightarrow> bool" where
  "in_range v \<longleftrightarrow> (case v of JNum n \<Rightarrow> 1 \<le> n \<and> n \<le> 10 | _ \<Rightarrow> False)"

fun ui_event :: "creation_event \<Rightarrow> bool" where
  "ui_event (Slide key val) = (length val = 1 \<and> in_range (first_of val))"
| "ui_event (Choose key v) = (v \<in> set (select_items key))"
| "ui_event ev = True"

definition form_valid :: "creation_page \<Rightarrow> bool" where
  "form_valid s \<longleftrightarrow>
     (\<forall>key. in_range (get_attribute key (attributes s))) \<and>
     (\<forall>key. get_characteristic key (characteristics s) \<in> set (select_items key))"

text \<open>
  For the closed instances: a form with a name, a server that answers both endpoints with
  a character of the interface, and one whose preview lacks the attributes.
\<close>

definition named_form :: creation_page where
  "named_form = creation_initial\<lparr>name := ''Rin''\<rparr>"

definition creation_server :: "unit fetch" where
  "creation_server = static_server
     [(''http://localhost:8000/api/character/preview'', rin),
      (''http://localhost:8000/api/character/create'', rin)]"

definition partial_server :: "unit fetch" where
  "partial_server = static_server
     [(''http://localhost:8000/api/character/preview'', JObj [(''name'', JStr ''Rin'')])]"

lemmas creation_handler_defs [view_defs] =
  handleAttributeChange_def setName_def setCharacteristics_def handlePreview_def handleCreate_def
  preview_finish_def create_finish_def request_start_def preview_op_def create_op_def

section \<open>The handlers on each branch\<close>

lemma handlers_empty_name [simp]:
  "name s = [] \<Longrightarrow> handleCreate f g (s, p, c) = (s, p, c)"
  "name s = [] \<Longrightarrow> handlePreview f (s, c) = (s, c)"
  by (simp_all add: handleCreate_def handlePreview_def)

lemma handleCreate_fulfilled:
  "name s \<noteq> [] \<Longrightarrow> call f (create_op s) c = (Inr character, c') \<Longrightarrow>
   handleCreate f g (s, p, c) = (s\<lparr>loading := False\<rparr>, g p, c')"
  by (simp add: handleCreate_def create_finish_def request_start_def)

lemma handleCreate_rejected:
  "name s \<noteq> [] \<Longrightarrow> call f (create_op s) c = (Inl e, c') \<Longrightarrow>
   handleCreate f g (s, p, c) =
     (s\<lparr>loading := False\<rparr>, p, console_error ''Character creation failed:'' e c')"
  by (simp add: handleCreate_def create_finish_def request_start_def)

lemma handlePreview_fulfilled:
  "name s \<noteq> [] \<Longrightarrow> call f (preview_op s) c = (Inr character, c') \<Longrightarrow>
   handlePreview f (s, c) = (s\<lparr>preview := character, loading := False\<rparr>, c')"
  by (simp add: handlePreview_def preview_finish_def request_start_def)

lemma handlePreview_rejected:
  "name s \<noteq> [] \<Longrightarrow> call f (preview_op s) c = (Inl e, c') \<Longrightarrow>
   handlePreview f (s, c) = (s\<lparr>loading := False\<rparr>, console_error ''Preview failed:'' e c')"
  by (simp add: handlePreview_def preview_finish_def request_start_def)

lemma creation_ops_store_nothing [simp]:
  "\<not> stores_token (create_op s)" "\<not> stores_token (preview_op s)"
  by (simp_all add: create_op_def preview_op_def)

lemma not_loading_update [simp]: "\<not> loading s \<Longrightarrow> s\<lparr>loading := False\<rparr> = s"
  by simp

text \<open>
  C8 (create_success). A creation that the server accepts. With a non-empty name and a fulfilled
  \<^verbatim>\<open>createCharacter\<close>, \<open>handleCreate\<close> calls \<^verbatim>\<open>onCharacterCreated\<close> exactly once, ends the
  loading state, keeps the form, and leaves the token, the store and the console of the
  browser as they were.
\<close>

theorem create_success:
  assumes "name s \<noteq> []" and "call f (create_op s) c = (Inr character, c')"
  shows "handleCreate f g (s, p, c) = (s\<lparr>loading := False\<rparr>, g p, c') \<and> same_store c c'"
  using assms call_same_store [of "create_op s" c f]
  by (simp add: handleCreate_fulfilled)

text \<open>
  C24 (create_failure_only_logged). A creation that fails is only logged. When \<^verbatim>\<open>createCharacter\<close> is rejected, the
  page is exactly as it was before the click (so nothing on the screen tells the user), the
  parent is not called, the console has one more line, labelled
  \<^verbatim>\<open>Character creation failed:\<close>, and the token is kept.
\<close>

theorem create_failure_only_logged:
  assumes "name s \<noteq> []" and "\<not> loading s" and "call f (create_op s) c = (Inl e, c')"
  shows "fst (handleCreate f g (s, p, c)) = s \<and> fst (snd (handleCreate f g (s, p, c))) = p \<and>
         console (snd (snd (handleCreate f g (s, p, c)))) =
           console c @ [(''Character creation failed:'', e)] \<and>
         token (snd (snd (handleCreate f g (s, p, c)))) = token c \<and>
         localStorage (snd (snd (handleCreate f g (s, p, c)))) = localStorage c"
  using assms call_rejected_same_store [OF assms(3)]
  by (simp add: handleCreate_rejected same_store_def)

text \<open>
  The preview. With a non-empty name, \<open>handlePreview\<close> replaces the preview by the
  character the server returned; when the call is rejected it keeps the page as it was,
  the former preview included, and logs the error under \<^verbatim>\<open>Preview failed:\<close>.
\<close>

theorem preview_outcome:
  assumes "name s \<noteq> []" and "\<not> loading s" and "call f (preview_op s) c = (r, c')"
  shows "handlePreview f (s, c) =
           (case r of
              Inr character \<Rightarrow> (s\<lparr>preview := character\<rparr>, c')
            | Inl e \<Rightarrow> (s, console_error ''Preview failed:'' e c'))"
  using assms by (cases r) (simp_all add: handlePreview_fulfilled handlePreview_rejected)


text \<open>
  Both handlers end with the loading flag down on every path, a rejected call
  included: the page is never left with its buttons disabled by \<^verbatim>\<open>loading\<close>.
\<close>

theorem handlers_release_buttons:
  assumes "\<not> loading s"
  shows "\<not> loading (fst (handleCreate f g (s, p, c))) \<and> \<not> loading (fst (handlePreview f (s, c)))"
  using assms
  by (auto simp: handleCreate_def handlePreview_def create_finish_def preview_finish_def
      split: prod.splits sum.splits)

section \<open>The form stays valid under the events of the rendered controls\<close>

text \<open>A property of every key, as the conjunction over the enumeration.\<close>

lemma all_keys:
  "(\<forall>key. P key) \<longleftrightarrow> P Strength \<and> P Intelligence \<and> P Charisma \<and> P Agility \<and> P Luck"
  "(\<forall>key. Q key) \<longleftrightarrow> Q Hair_color \<and> Q Eye_color \<and> Q Skin_tone \<and> Q Height \<and> Q Build"
  using enum_all_attribute_key_def [of P] enum_all_characteristic_key_def [of Q] by simp_all

lemma form_valid_initial: "form_valid creation_initial"
  by (simp add: form_valid_def all_keys creation_initial_def in_range_def)

lemma get_set_attribute [simp]:
  "get_attribute k (set_attribute k' v a) = (if k = k' then v else get_attribute k a)"
  by (cases k; cases k') simp_all

lemma get_set_characteristic [simp]:
  "get_characteristic k (set_characteristic k' v ch) = (if k = k' then v else get_characteristic k ch)"
  by (cases k; cases k') simp_all

lemma form_valid_cong:
  "attributes s' = attributes s \<Longrightarrow> characteristics s' = characteristics s \<Longrightarrow>
   form_valid s' = form_valid s"
  by (simp add: form_valid_def)

lemma handlers_keep_form [simp]:
  "attributes (fst (handleCreate f g x)) = attributes (fst x)"
  "characteristics (fst (handleCreate f g x)) = characteristics (fst x)"
  "attributes (fst (handlePreview f y)) = attributes (fst y)"
  "characteristics (fst (handlePreview f y)) = characteristics (fst y)"
  by (cases x; cases y;
      simp add: handleCreate_def handlePreview_def create_finish_def preview_finish_def
        request_start_def split: prod.splits sum.splits)+

lemma creation_step_valid:
  assumes "ui_event ev" and "form_valid (fst x)"
  shows "form_valid (fst (creation_step f g ev x))"
proof (cases x)
  case (fields s p c)
  show ?thesis
  proof (cases ev)
    case (TypeName v)
    with fields assms show ?thesis by (simp add: setName_def form_valid_def)
  next
    case (Slide key val)
    with fields assms show ?thesis
      by (simp add: form_valid_def handleAttributeChange_def)
  next
    case (Choose key v)
    with fields assms show ?thesis
      by (simp add: form_valid_def setCharacteristics_def)
  next
    case ClickPreview
    with fields assms show ?thesis
      using form_valid_cong [of "fst (handlePreview f (s, c))" s] by simp
  next
    case ClickCreate
    with fields assms show ?thesis
      using form_valid_cong [of "fst (handleCreate f g (s, p, c))" s] by simp
  qed
qed

lemma creation_run_valid:
  "list_all ui_event evs \<Longrightarrow> form_valid (fst x) \<Longrightarrow> form_valid (fst (creation_run f g evs x))"
  by (induction evs arbitrary: x) (simp_all add: creation_step_valid)

lemma in_range_number: "in_range v \<Longrightarrow> is_number v"
  by (cases v) (simp_all add: in_range_def is_number_def)

lemma form_valid_typed:
  assumes "form_valid s"
  shows "is_CharacterAttributes (js_of_attributes (attributes s))"
proof -
  have "is_number (get_attribute key (attributes s))" for key
    using assms by (simp add: form_valid_def in_range_number)
  from this [of Strength] this [of Intelligence] this [of Charisma] this [of Agility] this [of Luck]
  show ?thesis by (simp add: js_of_attributes_typed)
qed

text \<open>
  C25 (ui_events_keep_form_valid). As long as every event comes from the rendered controls (a slider emits one
  integer from 1 to 10, a select box one of its items), the form stays valid through any
  run of events, requests included: every attribute is an integer from 1 to 10, every
  characteristic is an item of its select box, and the attributes sent to the server are
  a \<^verbatim>\<open>CharacterAttributes\<close> of the interface.
\<close>

theorem ui_events_keep_form_valid:
  assumes "list_all ui_event evs" and "form_valid s"
  shows "form_valid (fst (creation_run f g evs (s, p, c))) \<and>
         is_CharacterAttributes (js_of_attributes (attributes (fst (creation_run f g evs (s, p, c)))))"
  using creation_run_valid [OF assms(1), of "(s, p, c)" f g] assms(2)
  by (simp add: form_valid_typed)


text \<open>
  The preview panel renders every character of the interface: it shows the
  name, the five attributes, and the image exactly when \<^verbatim>\<open>image_url\<close> is truthy.
\<close>

theorem preview_panel_typed:
  assumes "is_Character p"
  shows "preview_panel p =
           Inr (Some \<lparr>image = (if truthy (opt_chain p ''image_url'')
                                then Some (opt_chain p ''image_url'') else None),
                      heading = opt_chain p ''name'',
                      stats = map (opt_chain (opt_chain p ''attributes''))
                        [''strength'', ''intelligence'', ''charisma'', ''agility'', ''luck'']\<rparr>)"
proof -
  from assms obtain kvs where p: "p = JObj kvs"
    by (cases p) (simp_all add: is_Character_def is_object_def)
  from assms obtain avs where a: "opt_chain p ''attributes'' = JObj avs"
    by (cases "opt_chain p ''attributes''")
       (simp_all add: is_Character_def is_CharacterAttributes_def is_object_def)
  from p a show ?thesis
    by (simp add: preview_panel_def)
qed

section \<open>Closed instances\<close>

lemmas creation_eval_defs = named_form_def creation_initial_def creation_server_def
  partial_server_def create_op_def preview_op_def createCharacter_def previewCharacter_def eval_defs

lemma named_form_create:
  "call creation_server (create_op named_form) (client0 ()) = (Inr rin, client0 ())"
  by (simp add: creation_eval_defs)

lemma named_form_preview:
  "call creation_server (preview_op named_form) (client0 ()) = (Inr rin, client0 ())"
  by (simp add: creation_eval_defs)

lemma named_form_offline:
  "call (static_server []) (create_op named_form) (client0 ()) =
     (Inl (Error ''Not Found''), client0 ())"
  by (simp add: creation_eval_defs)

lemma named_form_simps [simp]: "name named_form \<noteq> []" "\<not> loading named_form"
  by (simp_all add: named_form_def creation_initial_def)

theorem create_success_witness:
  "name named_form \<noteq> [] \<and>
   call creation_server (create_op named_form) (client0 ()) = (Inr rin, client0 ()) \<and>
   handleCreate creation_server Suc (named_form, 0, client0 ()) = (named_form, 1, client0 ())"
  using create_success [OF _ named_form_create, of Suc 0] named_form_create by simp

theorem create_failure_only_logged_witness:
  "name named_form \<noteq> [] \<and> \<not> loading named_form \<and>
   call (static_server []) (create_op named_form) (client0 ()) =
     (Inl (Error ''Not Found''), client0 ()) \<and>
   fst (handleCreate (static_server []) Suc (named_form, 0, client0 ())) = named_form \<and>
   console (snd (snd (handleCreate (static_server []) Suc (named_form, 0, client0 ())))) =
     [(''Character creation failed:'', Error ''Not Found'')]"
  using create_failure_only_logged [OF _ _ named_form_offline, of Suc 0] named_form_offline
  by (simp add: client0_def profile_def constructor_def)

theorem preview_outcome_witness:
  "name named_form \<noteq> [] \<and> \<not> loading named_form \<and>
   call creation_server (preview_op named_form) (client0 ()) = (Inr rin, client0 ()) \<and>
   handlePreview creation_server (named_form, client0 ()) = (named_form\<lparr>preview := rin\<rparr>, client0 ())"
  using preview_outcome [OF _ _ named_form_preview] named_form_preview by simp

theorem handlers_release_buttons_witness:
  "\<not> loading named_form \<and>
   \<not> loading (fst (handleCreate creation_server Suc (named_form, 0, client0 ())))"
  using handlers_release_buttons [of named_form creation_server Suc 0 "client0 ()"] by simp

theorem ui_events_keep_form_valid_witness:
  "list_all ui_event [TypeName ''Rin'', Slide Strength [JNum 7], Choose Height ''tall'', ClickCreate] \<and>
   form_valid creation_initial \<and>
   form_valid (fst (creation_run creation_server Suc
     [TypeName ''Rin'', Slide Strength [JNum 7], Choose Height ''tall'', ClickCreate]
     (creation_initial, 0, client0 ())))"
  using ui_events_keep_form_valid [OF _ form_valid_initial,
      of "[TypeName ''Rin'', Slide Strength [JNum 7], Choose Height ''tall'', ClickCreate]"
        creation_server Suc 0 "client0 ()"]
    form_valid_initial
  by (simp add: in_range_def)

theorem preview_panel_typed_witness:
  "is_Character rin \<and>
   preview_panel rin =
     Inr (Some \<lparr>image = None, heading = JStr ''Rin'',
                stats = [JNum 5, JNum 5, JNum 5, JNum 5, JNum 5]\<rparr>)"
  using preview_panel_typed [OF is_Character_rin] is_Character_rin
  by (simp add: rin_def)


end
