(* ===== verification/GamePage.thy ===== *)
theory GamePage
  imports ApiTypes
begin

text \<open>
  The game screen, \<^verbatim>\<open>src/life-sim-frontend/src/components/GamePage.tsx\<close>.

  \<open>game_page\<close> is the four \<^verbatim>\<open>useState\<close> cells. \<open>loadGameState\<close> and the five action
  handlers are functions on the page and the browser, run to the end of their \<^verbatim>\<open>finally\<close>
  block; the handlers share one shape (\<open>game_action\<close>): the call, the message, the
  reload, the log on a failure. \<open>game_render\<close> is the JSX, a partial function because it
  reads properties of the game state the server returned. \<open>offered\<close> says which controls
  the rendered screen offers, \<open>game_step\<close> dispatches a click to its handler, and
  \<open>action_of\<close> is the table of the five action handlers (call, label, message).

  The lemmas show the outcome of an action on each branch, what it sends, that the
  dashboard renders every game state of the interface, which controls are offered, and
  that a screen whose first load failed offers none. The screen with its requests in
  flight is the theory \<open>GameRequests\<close>.
\<close>

section \<open>State\<close>

record game_page =
  gameState :: jsval
  loading :: bool
  actionLoading :: bool
  currentAction :: jsval

definition game_initial :: game_page where
  "game_initial = \<lparr>gameState = JNull, loading = True, actionLoading = False, currentAction = JStr []\<rparr>"

section \<open>Handlers\<close>

definition load_finish :: "(js_error, jsval, 'w client) promise \<Rightarrow> game_page \<Rightarrow> game_page \<times> 'w client" where
  "load_finish r s =
     (case r of
        (Inr st, c) \<Rightarrow> (s\<lparr>gameState := st, loading := False\<rparr>, c)
      | (Inl error, c) \<Rightarrow> (s\<lparr>loading := False\<rparr>, console_error ''Failed to load game state:'' error c))"

definition loadGameState :: "'w fetch \<Rightarrow> game_page \<times> 'w client \<Rightarrow> game_page \<times> 'w client" where
  "loadGameState f = (\<lambda>(s, c). load_finish (call f GetGameState c) s)"

definition game_mount :: "'w fetch \<Rightarrow> 'w client \<Rightarrow> game_page \<times> 'w client" where
  "game_mount f c = loadGameState f (game_initial, c)"

text \<open>
  The part of a handler between its two \<^verbatim>\<open>await\<close>s: the message is computed from the
  result, which throws when the result is \<^verbatim>\<open>null\<close>; \<open>action_failed\<close> is the \<^verbatim>\<open>catch\<close> block
  followed by the \<^verbatim>\<open>finally\<close> block.
\<close>

definition action_failed :: "string \<Rightarrow> js_error \<Rightarrow> game_page \<times> 'w client \<Rightarrow> game_page \<times> 'w client" where
  "action_failed label error = (\<lambda>(s, c). (s\<lparr>actionLoading := False\<rparr>, console_error label error c))"

definition action_done :: "game_page \<times> 'w client \<Rightarrow> game_page \<times> 'w client" where
  "action_done = (\<lambda>(s, c). (s\<lparr>actionLoading := False\<rparr>, c))"

definition game_action ::
  "'w fetch \<Rightarrow> api_op \<Rightarrow> string \<Rightarrow> (jsval \<Rightarrow> js_error + jsval) \<Rightarrow>
     game_page \<times> 'w client \<Rightarrow> game_page \<times> 'w client" where
  "game_action f op label describe = (\<lambda>(s, c).
     let s1 = s\<lparr>actionLoading := True\<rparr> in
     case call f op c of
       (Inl error, c1) \<Rightarrow> action_failed label error (s1, c1)
     | (Inr result, c1) \<Rightarrow>
         (case describe result of
            Inl error \<Rightarrow> action_failed label error (s1, c1)
          | Inr msg \<Rightarrow> action_done (loadGameState f (s1\<lparr>currentAction := msg\<rparr>, c1))))"

definition announce :: "string \<Rightarrow> jsval \<Rightarrow> js_error + jsval" where
  "announce prefix result =
     (case get_prop result ''name'' of
        Inl e \<Rightarrow> Inl e
      | Inr n \<Rightarrow> Inr (JStr (prefix @ to_string n @ ''!'')))"

definition handleGenerateCharacter :: "'w fetch \<Rightarrow> game_page \<times> 'w client \<Rightarrow> game_page \<times> 'w client" where
  "handleGenerateCharacter f =
     game_action f GenerateCharacter ''Failed to generate character:'' (announce ''You encountered '')"

definition handleGeneratePlace :: "'w fetch \<Rightarrow> game_page \<times> 'w client \<Rightarrow> game_page \<times> 'w client" where
  "handleGeneratePlace f =
     game_action f GeneratePlace ''Failed to generate place:'' (announce ''You discovered '')"

definition handleGenerateObject :: "'w fetch \<Rightarrow> game_page \<times> 'w client \<Rightarrow> game_page \<times> 'w client" where
  "handleGenerateObject f =
     game_action f GenerateObject ''Failed to generate object:'' (announce ''You found '')"

definition action_context :: "game_page \<Rightarrow> jsval" where
  "action_context s =
     or_else (opt_chain (opt_chain (gameState s) ''current_place'') ''name'') (JStr [])"

definition handleGenerateAction :: "'w fetch \<Rightarrow> game_page \<times> 'w client \<Rightarrow> game_page \<times> 'w client" where
  "handleGenerateAction f = (\<lambda>(s, c).
     game_action f (GenerateAction (action_context s)) ''Failed to generate action:''
       (\<lambda>result. get_prop result ''action'') (s, c))"

definition handleTravelToPlace ::
  "'w fetch \<Rightarrow> jsval \<Rightarrow> game_page \<times> 'w client \<Rightarrow> game_page \<times> 'w client" where
  "handleTravelToPlace f placeId =
     game_action f (TravelToPlace placeId) ''Failed to travel:'' (\<lambda>result. get_prop result ''message'')"

section \<open>What is shown\<close>

text \<open>
  A card is what the dashboard shows of a character, a place or an item: the image when
  \<^verbatim>\<open>image_url\<close> is truthy, the name, further lines, and for a discovered place other than
  the current one the place the \<^verbatim>\<open>Travel Here\<close> button travels to. The first property
  read of an element (its \<^verbatim>\<open>key\<close>) throws when the element is \<^verbatim>\<open>null\<close> or \<^verbatim>\<open>undefined\<close>;
  after it the other reads of the element cannot throw and have the value optional
  chaining gives (\<open>reading\<close>). \<^verbatim>\<open>!==\<close> is modelled as inequality of values, which is what it
  is on strings and numbers.
\<close>

record card =
  picture :: "jsval option"
  title :: jsval
  details :: "jsval list"
  travel :: "jsval option"

record dashboard =
  player_panel :: "card option"
  place_panel :: "card option"
  action_note :: "jsval option"
  generate_disabled :: bool
  inventory :: "card list"
  characters :: "card list"
  places :: "card list"

datatype game_view = Loading_game | Load_failed | Dashboard dashboard

definition shown :: "jsval \<Rightarrow> jsval option" where
  "shown v = (if truthy v then Some v else None)"

definition reading :: "jsval \<Rightarrow> string \<Rightarrow> 'a \<Rightarrow> js_error + 'a" where
  "reading v k x = (case get_prop v k of Inl e \<Rightarrow> Inl e | Inr y \<Rightarrow> Inr x)"

definition player_card :: "jsval \<Rightarrow> js_error + card" where
  "player_card pc =
     (case get_prop pc ''image_url'' of
        Inl e \<Rightarrow> Inl e
      | Inr img \<Rightarrow>
          (case read_all (opt_chain pc ''attributes'')
                  [''strength'', ''intelligence'', ''charisma'', ''agility'', ''luck''] of
             Inl e \<Rightarrow> Inl e
           | Inr vals \<Rightarrow>
               Inr \<lparr>picture = shown img, title = opt_chain pc ''name'', details = vals,
                    travel = None\<rparr>))"

definition current_place_card :: "jsval \<Rightarrow> js_error + card" where
  "current_place_card cp =
     reading cp ''image_url''
       \<lparr>picture = shown (opt_chain cp ''image_url''), title = opt_chain cp ''name'',
        details = [opt_chain cp ''description''], travel = None\<rparr>"

definition item_card :: "jsval \<Rightarrow> js_error + card" where
  "item_card item =
     reading item ''id''
       \<lparr>picture = shown (opt_chain item ''image_url''), title = opt_chain item ''name'',
        details = [opt_chain item ''description''], travel = None\<rparr>"

definition character_card :: "jsval \<Rightarrow> js_error + card" where
  "character_card character =
     (case get_prop character ''id'' of
        Inl e \<Rightarrow> Inl e
      | Inr key \<Rightarrow>
          (case read_all (opt_chain character ''attributes'')
                  [''strength'', ''intelligence'', ''charisma''] of
             Inl e \<Rightarrow> Inl e
           | Inr vals \<Rightarrow>
               Inr \<lparr>picture = shown (opt_chain character ''image_url''),
                    title = opt_chain character ''name'', details = vals, travel = None\<rparr>))"

definition place_card :: "jsval \<Rightarrow> jsval \<Rightarrow> js_error + card" where
  "place_card cp place =
     reading place ''id''
       \<lparr>picture = shown (opt_chain place ''image_url''), title = opt_chain place ''name'',
        details = [opt_chain place ''description''],
        travel = (if opt_chain cp ''id'' \<noteq> opt_chain place ''id''
                  then Some (opt_chain place ''id'') else None)\<rparr>"

text \<open>
  \<^verbatim>\<open>xs.length > 0 ? xs.map(card) : empty\<close>: for an array the cards of its elements; for
  \<^verbatim>\<open>null\<close> and \<^verbatim>\<open>undefined\<close> the \<^verbatim>\<open>TypeError\<close> of \<^verbatim>\<open>.length\<close>; for a non-empty string the
  \<^verbatim>\<open>TypeError\<close> of \<^verbatim>\<open>.map\<close>; for an object its \<^verbatim>\<open>length\<close> property decides, compared as a
  number or a boolean (a \<^verbatim>\<open>length\<close> of another type is outside the model and taken as not
  greater than 0).
\<close>

definition positive :: "jsval \<Rightarrow> bool" where
  "positive v \<longleftrightarrow> (case v of JNum n \<Rightarrow> 0 < n | JBool b \<Rightarrow> b | _ \<Rightarrow> False)"

definition listing :: "(jsval \<Rightarrow> js_error + card) \<Rightarrow> jsval \<Rightarrow> string \<Rightarrow> js_error + card list" where
  "listing mk gs k =
     (case opt_chain gs k of
        JArr xs \<Rightarrow> traverse mk xs
      | JUndefined \<Rightarrow> Inl (TypeError (read_null_msg JUndefined ''length''))
      | JNull \<Rightarrow> Inl (TypeError (read_null_msg JNull ''length''))
      | JStr str \<Rightarrow>
          if str = [] then Inr [] else Inl (TypeError (''gameState.'' @ k @ ''.map is not a function''))
      | JObj kvs \<Rightarrow>
          if positive (opt_chain (JObj kvs) ''length'')
          then Inl (TypeError (''gameState.'' @ k @ ''.map is not a function'')) else Inr []
      | _ \<Rightarrow> Inr [])"

definition optional_card :: "(jsval \<Rightarrow> js_error + card) \<Rightarrow> jsval \<Rightarrow> js_error + card option" where
  "optional_card mk v =
     (if truthy v then (case mk v of Inl e \<Rightarrow> Inl e | Inr x \<Rightarrow> Inr (Some x)) else Inr None)"

definition game_render :: "game_page \<Rightarrow> js_error + game_view" where
  "game_render s =
     (if loading s then Inr Loading_game
      else if \<not> truthy (gameState s) then Inr Load_failed
      else
        case optional_card player_card (opt_chain (gameState s) ''player_character'') of
          Inl e \<Rightarrow> Inl e | Inr pl \<Rightarrow>
        case optional_card current_place_card (opt_chain (gameState s) ''current_place'') of
          Inl e \<Rightarrow> Inl e | Inr cur \<Rightarrow>
        case listing item_card (gameState s) ''inventory'' of
          Inl e \<Rightarrow> Inl e | Inr items \<Rightarrow>
        case listing character_card (gameState s) ''discovered_characters'' of
          Inl e \<Rightarrow> Inl e | Inr chars \<Rightarrow>
        case listing (place_card (opt_chain (gameState s) ''current_place'')) (gameState s)
               ''discovered_places'' of
          Inl e \<Rightarrow> Inl e | Inr pls \<Rightarrow>
        Inr (Dashboard
               \<lparr>player_panel = pl, place_panel = cur, action_note = shown (currentAction s),
                generate_disabled = actionLoading s,
                inventory = items, characters = chars, places = pls\<rparr>))"

section \<open>Events\<close>

datatype game_event =
    GenerateCharacterClicked
  | GeneratePlaceClicked
  | GenerateObjectClicked
  | GenerateActionClicked
  | TravelClicked jsval
  | LogoutClicked

text \<open>
  The controls the screen offers: none unless the dashboard is rendered; then the logout
  button, the four generate buttons unless they are disabled, and the travel buttons of the
  cards that have one.
\<close>

definition offered :: "game_page \<Rightarrow> game_event \<Rightarrow> bool" where
  "offered s ev \<longleftrightarrow>
     (case game_render s of
        Inr (Dashboard d) \<Rightarrow>
          (case ev of
             TravelClicked placeId \<Rightarrow> Some placeId \<in> set (map travel (places d))
           | LogoutClicked \<Rightarrow> True
           | _ \<Rightarrow> \<not> generate_disabled d)
      | _ \<Rightarrow> False)"

fun game_handler :: "'w fetch \<Rightarrow> game_event \<Rightarrow> game_page \<times> 'w client \<Rightarrow> game_page \<times> 'w client" where
  "game_handler f GenerateCharacterClicked = handleGenerateCharacter f"
| "game_handler f GeneratePlaceClicked = handleGeneratePlace f"
| "game_handler f GenerateObjectClicked = handleGenerateObject f"
| "game_handler f GenerateActionClicked = handleGenerateAction f"
| "game_handler f (TravelClicked placeId) = handleTravelToPlace f placeId"
| "game_handler f LogoutClicked = id"

definition game_step ::
  "'w fetch \<Rightarrow> ('p \<times> 'w client \<Rightarrow> 'p \<times> 'w client) \<Rightarrow> game_event \<Rightarrow>
     game_page \<times> 'p \<times> 'w client \<Rightarrow> game_page \<times> 'p \<times> 'w client" where
  "game_step f onLogout ev = (\<lambda>(s, p, c).
     if \<not> offered s ev then (s, p, c)
     else if ev = LogoutClicked then (s, onLogout (p, c))
     else (fst (game_handler f ev (s, c)), p, snd (game_handler f ev (s, c))))"

fun game_run ::
  "'w fetch \<Rightarrow> ('p \<times> 'w client \<Rightarrow> 'p \<times> 'w client) \<Rightarrow> game_event list \<Rightarrow>
     game_page \<times> 'p \<times> 'w client \<Rightarrow> game_page \<times> 'p \<times> 'w client" where
  "game_run f g [] x = x"
| "game_run f g (ev # evs) x = game_run f g evs (game_step f g ev x)"

text \<open>The five action handlers as a table: the call, the label of the log, the message.\<close>

fun action_of :: "game_page \<Rightarrow> game_event \<Rightarrow> (api_op \<times> string \<times> (jsval \<Rightarrow> js_error + jsval)) option" where
  "action_of s GenerateCharacterClicked =
     Some (GenerateCharacter, ''Failed to generate character:'', announce ''You encountered '')"
| "action_of s GeneratePlaceClicked =
     Some (GeneratePlace, ''Failed to generate place:'', announce ''You discovered '')"
| "action_of s GenerateObjectClicked =
     Some (GenerateObject, ''Failed to generate object:'', announce ''You found '')"
| "action_of s GenerateActionClicked =
     Some (GenerateAction (action_context s), ''Failed to generate action:'',
           \<lambda>result. get_prop result ''action'')"
| "action_of s (TravelClicked placeId) =
     Some (TravelToPlace placeId, ''Failed to travel:'', \<lambda>result. get_prop result ''message'')"
| "action_of s LogoutClicked = None"

text \<open>
  \<open>elements\<close> are the elements of an array. For the closed instances: a game state of
  the interface with one discovered place, a server that knows it and generates one
  character, and the page showing it.
\<close>

definition elements :: "jsval \<Rightarrow> jsval list" where
  "elements v = (case v of JArr xs \<Rightarrow> xs | _ \<Rightarrow> [])"

definition forest :: jsval where
  "forest = JObj [(''id'', JStr ''p1''), (''name'', JStr ''Forest''),
     (''description'', JStr ''Tall trees''), (''created_at'', JStr ''2025-01-01T00:00:00'')]"

definition world_state :: jsval where
  "world_state = JObj
     [(''user_id'', JStr ''u1''), (''player_character'', rin), (''inventory'', JArr []),
      (''discovered_characters'', JArr []), (''discovered_places'', JArr [forest]),
      (''action_history'', JArr []), (''last_updated'', JStr ''2025-01-01T00:00:00'')]"

definition game_server :: "unit fetch" where
  "game_server = static_server
     [(''http://localhost:8000/api/game/state'', world_state),
      (''http://localhost:8000/api/game/generate-character'', rin)]"

definition playing :: game_page where
  "playing = game_initial\<lparr>gameState := world_state, loading := False\<rparr>"

lemmas game_handler_defs [view_defs] =
  handleGenerateCharacter_def handleGeneratePlace_def handleGenerateObject_def
  handleGenerateAction_def handleTravelToPlace_def game_action_def action_failed_def
  action_done_def loadGameState_def load_finish_def

section \<open>The handlers on each branch\<close>

text \<open>The rows of the table of actions, for case analysis on a handler that is one.\<close>

fun_cases action_ofE: "action_of s ev = Some (op, label, describe)"

lemma game_handler_action_of:
  "action_of s ev = Some (op, label, describe) \<Longrightarrow>
   game_handler f ev (s, c) = game_action f op label describe (s, c)"
  by (erule action_ofE)
     (auto simp: handleGenerateCharacter_def handleGeneratePlace_def handleGenerateObject_def
        handleGenerateAction_def handleTravelToPlace_def)

lemma game_action_rejected:
  "call f op c = (Inl e, c1) \<Longrightarrow>
   game_action f op label describe (s, c) = (s\<lparr>actionLoading := False\<rparr>, console_error label e c1)"
  by (simp add: game_action_def action_failed_def)

lemma game_action_threw:
  "call f op c = (Inr result, c1) \<Longrightarrow> describe result = Inl e \<Longrightarrow>
   game_action f op label describe (s, c) = (s\<lparr>actionLoading := False\<rparr>, console_error label e c1)"
  by (simp add: game_action_def action_failed_def)

lemma game_action_fulfilled:
  "call f op c = (Inr result, c1) \<Longrightarrow> describe result = Inr msg \<Longrightarrow>
   game_action f op label describe (s, c) =
     action_done (load_finish (call f GetGameState c1) (s\<lparr>actionLoading := True, currentAction := msg\<rparr>))"
  by (simp add: game_action_def loadGameState_def)

lemma load_finish_simps [simp]:
  "load_finish (Inr st, c) s = (s\<lparr>gameState := st, loading := False\<rparr>, c)"
  "load_finish (Inl e, c) s = (s\<lparr>loading := False\<rparr>, console_error ''Failed to load game state:'' e c)"
  by (simp_all add: load_finish_def)

lemma action_done_simp [simp]: "action_done (s, c) = (s\<lparr>actionLoading := False\<rparr>, c)"
  by (simp add: action_done_def)

text \<open>
  C9 (action_outcome). An action that is fulfilled. For each of the five action handlers, when
  the call is fulfilled and the message can be read from the result, the handler shows the
  message, reloads the game state and ends with \<^verbatim>\<open>actionLoading\<close> down. When the reload is
  fulfilled the page holds the new game state; when it is rejected the page keeps the old
  one and the error is logged under \<^verbatim>\<open>Failed to load game state:\<close>.
\<close>

theorem action_outcome:
  assumes "action_of s ev = Some (op, label, describe)"
    and "call f op c = (Inr result, c1)" and "describe result = Inr msg"
    and "call f GetGameState c1 = (r, c2)"
  shows "game_handler f ev (s, c) =
           (case r of
              Inr st \<Rightarrow>
                (s\<lparr>gameState := st, loading := False, actionLoading := False, currentAction := msg\<rparr>, c2)
            | Inl e \<Rightarrow>
                (s\<lparr>loading := False, actionLoading := False, currentAction := msg\<rparr>,
                 console_error ''Failed to load game state:'' e c2))"
  using assms
  by (cases r) (simp_all add: game_handler_action_of game_action_fulfilled)

text \<open>
  C23 (action_failure_keeps_state). An action that fails. When the call is rejected, or is fulfilled
  with a result the message cannot be read from (\<^verbatim>\<open>null\<close>), the handler leaves the page as it
  was before the click, sends no reload, and logs the error under the label of the handler.
  Nothing is shown to the user.
\<close>

theorem action_failure_keeps_state:
  assumes "action_of s ev = Some (op, label, describe)" and "\<not> actionLoading s"
    and "call f op c = (r, c1)"
    and "case r of Inl e \<Rightarrow> err = e | Inr result \<Rightarrow> describe result = Inl err"
  shows "game_handler f ev (s, c) = (s, console_error label err c1)"
  using assms
  by (cases r) (simp_all add: game_handler_action_of game_action_rejected game_action_threw)

lemma sent_reload:
  "sent (snd (getGameState (spy f) c)) =
     sent c @ [(API_URL c @ ''/api/game/state'', no_options\<lparr>headers := request_headers (token c) no_options\<rparr>)]"
  by (simp add: getGameState_def)

lemma sent_load_finish [simp]: "sent (snd (load_finish r s)) = sent (snd r)"
  by (cases r; cases "fst r") simp_all

lemma sent_action_done [simp]: "sent (snd (action_done x)) = sent (snd x)"
  by (cases x) simp

lemma token_call_game:
  "action_of s ev = Some (op, label, describe) \<Longrightarrow> same_store c (snd (call f op c))"
  by (erule action_ofE) (use call_same_store [of op c f] in auto)

text \<open>
  What an action sends. Each action handler sends the request of its row of the
  endpoint table, with the headers \<^verbatim>\<open>request\<close> builds from the cached token, followed by
  \<^verbatim>\<open>GET /api/game/state\<close> with the same token exactly when the call was fulfilled and its
  message could be read; it sends nothing else.
\<close>

theorem action_sends:
  assumes "action_of s ev = Some (op, label, describe)"
  shows "\<exists>rq. conforms c op rq \<and> headers (snd rq) = request_headers (token c) no_options \<and>
           sent (snd (game_handler (spy f) ev (s, c))) =
             sent c @ rq #
               (if (\<exists>result msg. fst (call (spy f) op c) = Inr result \<and> describe result = Inr msg)
                then [(API_URL c @ ''/api/game/state'',
                       no_options\<lparr>headers := request_headers (token c) no_options\<rparr>)]
                else [])"
proof -
  obtain r c1 where call: "call (spy f) op c = (r, c1)" by (cases "call (spy f) op c")
  have "\<exists>rq. sent (snd (call (spy f) op c)) = sent c @ [rq] \<and> conforms c op rq \<and>
     headers (snd rq) = request_headers (token c) no_options"
    using assms
    by (cases ev)
       (auto simp: api_defs conforms_def http_verb_def post_def no_options_def request_headers_def)
  then obtain rq where rq: "sent c1 = sent c @ [rq]" "conforms c op rq"
    "headers (snd rq) = request_headers (token c) no_options"
    using call by auto
  have same: "token c1 = token c" "API_URL c1 = API_URL c"
    using token_call_game [OF assms, of c "spy f"] call
    by (simp_all add: same_store_token same_store_API_URL)
  show ?thesis
  proof (cases r)
    case (Inl e)
    with call rq show ?thesis
      by (intro exI [of _ rq])
         (simp add: game_handler_action_of [OF assms] game_action_rejected)
  next
    case (Inr result)
    show ?thesis
    proof (cases "describe result")
      case (Inl e)
      with call Inr rq show ?thesis
        by (intro exI [of _ rq])
           (simp add: game_handler_action_of [OF assms] game_action_threw)
    next
      case (Inr msg)
      with call \<open>r = Inr result\<close> rq same show ?thesis
        by (intro exI [of _ rq])
           (simp add: game_handler_action_of [OF assms] game_action_fulfilled
              sent_reload)
    qed
  qed
qed

section \<open>Rendering a game state of the interface\<close>

lemma is_objectE: "is_object v \<Longrightarrow> (\<And>kvs. v = JObj kvs \<Longrightarrow> P) \<Longrightarrow> P"
  by (cases v) (simp_all add: is_object_def)

lemma get_prop_object: "is_object v \<Longrightarrow> get_prop v k = Inr (opt_chain v k)"
  by (erule is_objectE) simp

lemma reading_object [simp]: "is_object v \<Longrightarrow> reading v k x = Inr x"
  by (erule is_objectE) (simp add: reading_def)

lemma read_all_is_object [simp]: "is_object v \<Longrightarrow> read_all v ks = Inr (map (opt_chain v) ks)"
  by (erule is_objectE) simp

lemma is_Character_attributes: "is_Character v \<Longrightarrow> is_object (opt_chain v ''attributes'')"
  by (simp add: is_Character_def is_CharacterAttributes_def)

lemma is_GameObject_object: "is_GameObject v \<Longrightarrow> is_object v"
  by (simp add: is_GameObject_def)

lemma item_card_typed:
  "is_GameObject v \<Longrightarrow> item_card v =
     Inr \<lparr>picture = shown (opt_chain v ''image_url''), title = opt_chain v ''name'',
          details = [opt_chain v ''description''], travel = None\<rparr>"
  by (simp add: item_card_def is_GameObject_object)

lemma character_card_typed:
  "is_Character v \<Longrightarrow> character_card v =
     Inr \<lparr>picture = shown (opt_chain v ''image_url''), title = opt_chain v ''name'',
          details = map (opt_chain (opt_chain v ''attributes''))
            [''strength'', ''intelligence'', ''charisma''], travel = None\<rparr>"
  by (simp add: character_card_def get_prop_object is_Character_object is_Character_attributes)

lemma player_card_typed:
  "is_Character v \<Longrightarrow> player_card v =
     Inr \<lparr>picture = shown (opt_chain v ''image_url''), title = opt_chain v ''name'',
          details = map (opt_chain (opt_chain v ''attributes''))
            [''strength'', ''intelligence'', ''charisma'', ''agility'', ''luck''], travel = None\<rparr>"
  by (simp add: player_card_def get_prop_object is_Character_attributes is_Character_object)

lemma place_card_typed:
  "is_Place v \<Longrightarrow> place_card cp v =
     Inr \<lparr>picture = shown (opt_chain v ''image_url''), title = opt_chain v ''name'',
          details = [opt_chain v ''description''],
          travel = (if opt_chain cp ''id'' \<noteq> opt_chain v ''id'' then Some (opt_chain v ''id'') else None)\<rparr>"
  by (simp add: place_card_def is_Place_object)

lemma current_place_card_typed:
  "is_Place v \<Longrightarrow> current_place_card v =
     Inr \<lparr>picture = shown (opt_chain v ''image_url''), title = opt_chain v ''name'',
          details = [opt_chain v ''description''], travel = None\<rparr>"
  by (simp add: current_place_card_def is_Place_object)

lemma listing_typed:
  assumes "has_array T gs k" and "\<And>x. T x \<Longrightarrow> mk x = Inr (h x)"
  shows "listing mk gs k = Inr (map h (elements (opt_chain gs k)))"
proof -
  from assms(1) obtain xs where xs: "opt_chain gs k = JArr xs" "list_all T xs"
    by (cases "opt_chain gs k") (simp_all add: has_array_def)
  then have "traverse mk xs = Inr (map h xs)"
    by (intro traverse_total assms(2)) (simp add: list_all_iff)
  with xs show ?thesis by (simp add: listing_def elements_def)
qed

lemma optional_card_typed:
  assumes "has_optional T gs k" and "\<And>x. T x \<Longrightarrow> is_object x" and "\<And>x. T x \<Longrightarrow> mk x = Inr (h x)"
  shows "optional_card mk (opt_chain gs k) =
           Inr (if opt_chain gs k = JUndefined then None else Some (h (opt_chain gs k)))"
  using assms has_optional_truthy [OF assms(1,2)]
  by (auto simp: optional_card_def has_optional_def)

lemma game_render_typed:
  assumes "is_GameState (gameState s)" and "\<not> loading s"
  shows "game_render s = Inr (Dashboard
     \<lparr>player_panel =
        (if opt_chain (gameState s) ''player_character'' = JUndefined then None
         else Some \<lparr>picture = shown (opt_chain (opt_chain (gameState s) ''player_character'') ''image_url''),
                    title = opt_chain (opt_chain (gameState s) ''player_character'') ''name'',
                    details = map (opt_chain (opt_chain (opt_chain (gameState s) ''player_character'') ''attributes''))
                      [''strength'', ''intelligence'', ''charisma'', ''agility'', ''luck''],
                    travel = None\<rparr>),
      place_panel =
        (if opt_chain (gameState s) ''current_place'' = JUndefined then None
         else Some \<lparr>picture = shown (opt_chain (opt_chain (gameState s) ''current_place'') ''image_url''),
                    title = opt_chain (opt_chain (gameState s) ''current_place'') ''name'',
                    details = [opt_chain (opt_chain (gameState s) ''current_place'') ''description''],
                    travel = None\<rparr>),
      action_note = shown (currentAction s),
      generate_disabled = actionLoading s,
      inventory = map (\<lambda>v. \<lparr>picture = shown (opt_chain v ''image_url''), title = opt_chain v ''name'',
          details = [opt_chain v ''description''], travel = None\<rparr>)
        (elements (opt_chain (gameState s) ''inventory'')),
      characters = map (\<lambda>v. \<lparr>picture = shown (opt_chain v ''image_url''), title = opt_chain v ''name'',
          details = map (opt_chain (opt_chain v ''attributes'')) [''strength'', ''intelligence'', ''charisma''],
          travel = None\<rparr>)
        (elements (opt_chain (gameState s) ''discovered_characters'')),
      places = map (\<lambda>v. \<lparr>picture = shown (opt_chain v ''image_url''), title = opt_chain v ''name'',
          details = [opt_chain v ''description''],
          travel = (if opt_chain (opt_chain (gameState s) ''current_place'') ''id'' \<noteq> opt_chain v ''id''
                    then Some (opt_chain v ''id'') else None)\<rparr>)
        (elements (opt_chain (gameState s) ''discovered_places''))\<rparr>)"
proof -
  let ?gs = "gameState s"
  from assms(1) have t: "truthy ?gs"
    by (intro is_object_truthy is_GameState_object)
  from assms(1) have
    pc: "has_optional is_Character ?gs ''player_character''" and
    cp: "has_optional is_Place ?gs ''current_place''" and
    inv: "has_array is_GameObject ?gs ''inventory''" and
    chs: "has_array is_Character ?gs ''discovered_characters''" and
    pls: "has_array is_Place ?gs ''discovered_places''"
    by (simp_all add: is_GameState_def)
  note cards =
    optional_card_typed [OF pc is_Character_object player_card_typed]
    optional_card_typed [OF cp is_Place_object current_place_card_typed]
    listing_typed [OF inv item_card_typed]
    listing_typed [OF chs character_card_typed]
    listing_typed [OF pls place_card_typed]
  from assms(2) t show ?thesis
    by (simp add: game_render_def cards)
qed

text \<open>
  C12 (dashboard_renders_typed_state). The dashboard renders every game state of the interface.
  When the page holds a value of the interface \<^verbatim>\<open>GameState\<close> and is not loading, the render
  does not throw: it shows the dashboard, with the player and the current place exactly when
  they are present, one card per item, character and discovered place in the order of the
  arrays, the generate buttons disabled exactly while \<^verbatim>\<open>actionLoading\<close> is set, and a
  \<^verbatim>\<open>Travel Here\<close> button on exactly the places whose \<^verbatim>\<open>id\<close> differs from the current one.
\<close>

theorem dashboard_renders_typed_state:
  assumes "is_GameState (gameState s)" and "\<not> loading s"
  shows "\<exists>d. game_render s = Inr (Dashboard d) \<and>
           generate_disabled d = actionLoading s \<and>
           (player_panel d = None \<longleftrightarrow> opt_chain (gameState s) ''player_character'' = JUndefined) \<and>
           (place_panel d = None \<longleftrightarrow> opt_chain (gameState s) ''current_place'' = JUndefined) \<and>
           map title (inventory d) =
             map (\<lambda>v. opt_chain v ''name'') (elements (opt_chain (gameState s) ''inventory'')) \<and>
           map title (characters d) =
             map (\<lambda>v. opt_chain v ''name'') (elements (opt_chain (gameState s) ''discovered_characters'')) \<and>
           map title (places d) =
             map (\<lambda>v. opt_chain v ''name'') (elements (opt_chain (gameState s) ''discovered_places'')) \<and>
           map travel (places d) =
             map (\<lambda>v. if opt_chain (opt_chain (gameState s) ''current_place'') ''id'' \<noteq> opt_chain v ''id''
                       then Some (opt_chain v ''id'') else None)
               (elements (opt_chain (gameState s) ''discovered_places''))"
  unfolding game_render_typed [OF assms] by (simp add: comp_def)

section \<open>Controls, and the screen that failed to load\<close>

lemma offered_rendered: "offered s ev \<Longrightarrow> \<exists>d. game_render s = Inr (Dashboard d)"
  unfolding offered_def by (cases "game_render s"; cases "projr (game_render s)") simp_all

lemma rendered_dashboard:
  "game_render s = Inr (Dashboard d) \<Longrightarrow> \<not> loading s \<and> truthy (gameState s)"
  by (cases "loading s"; cases "truthy (gameState s)") (simp_all add: game_render_def)

lemma offered_dashboard:
  assumes "offered s ev"
  shows "\<not> loading s \<and> truthy (gameState s)"
proof -
  from offered_rendered [OF assms] obtain d where "game_render s = Inr (Dashboard d)" ..
  then show ?thesis by (rule rendered_dashboard)
qed

lemma logout_offered: "is_GameState (gameState s) \<Longrightarrow> \<not> loading s \<Longrightarrow> offered s LogoutClicked"
  by (simp add: offered_def game_render_typed)

lemma not_offered_loading [simp]: "loading s \<Longrightarrow> \<not> offered s ev"
  by (auto dest: offered_dashboard)

lemma not_offered_falsy [simp]: "\<not> truthy (gameState s) \<Longrightarrow> \<not> offered s ev"
  by (auto dest: offered_dashboard)

lemma game_step_not_offered [simp]: "\<not> offered s ev \<Longrightarrow> game_step f g ev (s, p, c) = (s, p, c)"
  by (simp add: game_step_def)

lemma game_run_stuck: "(\<And>ev. \<not> offered s ev) \<Longrightarrow> game_run f g evs (s, p, c) = (s, p, c)"
  by (induction evs) simp_all

lemma game_mount_rejected:
  "call f GetGameState c = (Inl e, c') \<Longrightarrow>
   game_mount f c = (game_initial\<lparr>loading := False\<rparr>, console_error ''Failed to load game state:'' e c')"
  by (simp add: game_mount_def loadGameState_def)

lemma game_mount_fulfilled:
  "call f GetGameState c = (Inr st, c') \<Longrightarrow>
   game_mount f c = (game_initial\<lparr>gameState := st, loading := False\<rparr>, c')"
  by (simp add: game_mount_def loadGameState_def)

text \<open>
  C36 (load_failed_is_stuck). A failed first load ends the session on this screen. When the
  \<^verbatim>\<open>getGameState\<close> of the mount is rejected, the screen shows \<^verbatim>\<open>Failed to load game state\<close>,
  offers no control at all, the logout button included, and no sequence of clicks changes
  the page, the application or the browser.
\<close>

theorem load_failed_is_stuck:
  assumes "call f GetGameState c = (Inl e, c')"
  shows "game_render (fst (game_mount f c)) = Inr Load_failed \<and>
         (\<forall>ev. \<not> offered (fst (game_mount f c)) ev) \<and>
         game_run f g evs (fst (game_mount f c), p, snd (game_mount f c)) =
           (game_initial\<lparr>loading := False\<rparr>, p, console_error ''Failed to load game state:'' e c')"
proof -
  have m: "game_mount f c =
      (game_initial\<lparr>loading := False\<rparr>, console_error ''Failed to load game state:'' e c')"
    using assms by (rule game_mount_rejected)
  have n: "\<not> offered (game_initial\<lparr>loading := False\<rparr>) ev" for ev
    by (simp add: game_initial_def)
  from m n show ?thesis
    by (simp add: game_run_stuck) (simp add: game_render_def game_initial_def)
qed

section \<open>Closed instances\<close>

lemma is_Place_forest: "is_Place forest"
  by (simp add: forest_def is_Place_def property_defs)

lemma is_GameState_world_state: "is_GameState world_state"
  using is_Character_rin is_Place_forest
  by (simp add: world_state_def is_GameState_def property_defs)

lemmas game_eval_defs = game_server_def world_state_def forest_def rin_def playing_def
  game_initial_def eval_defs

lemma travel_offered:
  "gameState s = world_state \<Longrightarrow> \<not> loading s \<Longrightarrow> offered s (TravelClicked (JStr ''p1''))"
  by (simp add: offered_def game_render_def optional_card_def player_card_def listing_def
      place_card_def reading_def shown_def world_state_def forest_def rin_def)

lemma generate_offered:
  "gameState s = world_state \<Longrightarrow> \<not> loading s \<Longrightarrow> \<not> actionLoading s \<Longrightarrow>
   offered s GenerateCharacterClicked"
  by (simp add: offered_def game_render_def optional_card_def player_card_def listing_def
      place_card_def reading_def shown_def world_state_def forest_def rin_def)

lemma travel_rejected:
  "call game_server (TravelToPlace (JStr ''p1'')) (client0 ()) = (Inl (Error ''Not Found''), client0 ())"
  by (simp add: travelToPlace_def game_eval_defs)

lemma generate_fulfilled:
  "call game_server GenerateCharacter (client0 ()) = (Inr rin, client0 ())"
  by (simp add: generateCharacter_def game_eval_defs)

lemma reload_fulfilled:
  "call game_server GetGameState (client0 ()) = (Inr world_state, client0 ())"
  by (simp add: getGameState_def game_server_def eval_defs)

lemma playing_simps [simp]:
  "gameState playing = world_state" "\<not> loading playing" "\<not> actionLoading playing"
  "currentAction playing = JStr []"
  by (simp_all add: playing_def game_initial_def)

lemma announce_rin: "announce ''You encountered '' rin = Inr (JStr ''You encountered Rin!'')"
  by (simp add: announce_def rin_def)

theorem action_outcome_witness:
  "action_of playing GenerateCharacterClicked =
     Some (GenerateCharacter, ''Failed to generate character:'', announce ''You encountered '') \<and>
   call game_server GenerateCharacter (client0 ()) = (Inr rin, client0 ()) \<and>
   announce ''You encountered '' rin = Inr (JStr ''You encountered Rin!'') \<and>
   call game_server GetGameState (client0 ()) = (Inr world_state, client0 ()) \<and>
   game_handler game_server GenerateCharacterClicked (playing, client0 ()) =
     (playing\<lparr>currentAction := JStr ''You encountered Rin!''\<rparr>, client0 ())"
  using action_outcome [where s = playing and ev = GenerateCharacterClicked and f = game_server
      and c = "client0 ()" and op = GenerateCharacter and label = "''Failed to generate character:''"
      and describe = "announce ''You encountered ''",
      OF _ generate_fulfilled announce_rin reload_fulfilled]
    generate_fulfilled announce_rin reload_fulfilled
  by (simp add: playing_def game_initial_def)

theorem action_failure_keeps_state_witness:
  "action_of playing (TravelClicked (JStr ''p1'')) =
     Some (TravelToPlace (JStr ''p1''), ''Failed to travel:'', \<lambda>result. get_prop result ''message'') \<and>
   \<not> actionLoading playing \<and>
   call game_server (TravelToPlace (JStr ''p1'')) (client0 ()) = (Inl (Error ''Not Found''), client0 ()) \<and>
   game_handler game_server (TravelClicked (JStr ''p1'')) (playing, client0 ()) =
     (playing, console_error ''Failed to travel:'' (Error ''Not Found'') (client0 ()))"
  using action_failure_keeps_state [OF _ _ travel_rejected, of playing "TravelClicked (JStr ''p1'')"
      "''Failed to travel:''" "\<lambda>result. get_prop result ''message''" "Error ''Not Found''"]
    travel_rejected
  by simp

theorem action_sends_witness:
  "action_of playing GenerateCharacterClicked =
     Some (GenerateCharacter, ''Failed to generate character:'', announce ''You encountered '') \<and>
   map fst (sent (snd (game_handler (spy game_server) GenerateCharacterClicked
     (playing, client0 ((), []))))) =
     [''http://localhost:8000/api/game/generate-character'', ''http://localhost:8000/api/game/state'']"
  using action_sends [of playing GenerateCharacterClicked GenerateCharacter
      "''Failed to generate character:''" "announce ''You encountered ''" "client0 ((), [])" game_server]
  by (simp add: handleGenerateCharacter_def game_action_def loadGameState_def load_finish_def
      action_done_def action_failed_def generateCharacter_def getGameState_def announce_def
      spy_def sent_def game_eval_defs)

lemma offline_load:
  "call (static_server []) GetGameState (client0 ()) = (Inl (Error ''Not Found''), client0 ())"
  by (simp add: getGameState_def eval_defs)

theorem load_failed_is_stuck_witness:
  "call (static_server []) GetGameState (client0 ()) = (Inl (Error ''Not Found''), client0 ()) \<and>
   game_render (fst (game_mount (static_server []) (client0 ()))) = Inr Load_failed \<and>
   game_run (static_server []) id [GenerateCharacterClicked, LogoutClicked]
     (fst (game_mount (static_server []) (client0 ())), (),
      snd (game_mount (static_server []) (client0 ()))) =
     (game_initial\<lparr>loading := False\<rparr>, (),
      console_error ''Failed to load game state:'' (Error ''Not Found'') (client0 ()))"
  using load_failed_is_stuck [OF offline_load, of id "[GenerateCharacterClicked, LogoutClicked]" "()"]
    offline_load
  by (simp add: game_mount_rejected [OF offline_load])

theorem dashboard_renders_typed_state_witness:
  "is_GameState (gameState playing) \<and> \<not> loading playing \<and>
   (\<exists>d. game_render playing = Inr (Dashboard d) \<and> map title (places d) = [JStr ''Forest''] \<and>
        map travel (places d) = [Some (JStr ''p1'')])"
  using dashboard_renders_typed_state [of playing] is_GameState_world_state
  by (auto simp: elements_def world_state_def forest_def rin_def)

end
