(* ===== verification/Site.thy ===== *)
theory Site
  imports App AuthPage CharacterCreation GamePage
begin

text \<open>
  The application with the screen it has mounted: \<^verbatim>\<open>src/life-sim-frontend/src/App.tsx\<close>,
  lines 50 to 66, together with the three screens.

  \<open>App\<close> returns one of three components, each with one of its callbacks as a property.
  When the component returned changes, React unmounts the old one and mounts the new one
  with its initial state, and runs its effect: the game screen loads the game state.
  \<open>site\<close> is the state of the whole client: the flags of \<open>App\<close>, the mounted page with its
  state, and the browser. \<open>site_step\<close> hands an event to the mounted page, with the callback
  \<open>App\<close> passes, and mounts the page of the new screen when the screen has changed. The
  lemmas show that a run of the site is a run of the application's transition relation, so
  that the invariants of \<open>App\<close> hold of it, that the mounted page is always the one of the
  screen, and that a page that is mounted starts from its initial state.
\<close>

section \<open>The mounted page\<close>

datatype page = Splash | Auth auth_page | Creation creation_page | Game game_page

type_synonym 'w site = "app_state \<times> page \<times> 'w client"

definition app_part :: "'w site \<Rightarrow> app_state \<times> 'w client" where
  "app_part = (\<lambda>(a, pg, c). (a, c))"

definition page_part :: "'w site \<Rightarrow> page" where
  "page_part = (\<lambda>(a, pg, c). pg)"

fun page_screen :: "page \<Rightarrow> screen" where
  "page_screen Splash = LoadingScreen"
| "page_screen (Auth s) = AuthScreen"
| "page_screen (Creation s) = CharacterCreationScreen"
| "page_screen (Game s) = GameScreen"

definition mount :: "'w fetch \<Rightarrow> app_state \<times> 'w client \<Rightarrow> 'w site" where
  "mount f = (\<lambda>(a, c).
     case app_render a of
       LoadingScreen \<Rightarrow> (a, Splash, c)
     | AuthScreen \<Rightarrow> (a, Auth auth_initial, c)
     | CharacterCreationScreen \<Rightarrow> (a, Creation creation_initial, c)
     | GameScreen \<Rightarrow> (a, Game (fst (game_mount f c)), snd (game_mount f c)))"

text \<open>
  After an event the application renders again: the page stays, with the state the event
  left, when the screen is the same, and the page of the new screen is mounted otherwise.
\<close>

definition rerender :: "'w fetch \<Rightarrow> screen \<Rightarrow> page \<Rightarrow> app_state \<times> 'w client \<Rightarrow> 'w site" where
  "rerender f before pg = (\<lambda>(a, c). if app_render a = before then (a, pg, c) else mount f (a, c))"

section \<open>Events\<close>

datatype site_event =
    AuthEvent auth_event
  | CreationEvent creation_event
  | GameEvent game_event

fun site_step :: "'w fetch \<Rightarrow> site_event \<Rightarrow> 'w site \<Rightarrow> 'w site" where
  "site_step f (AuthEvent ev) (a, Auth s, c) =
     (case auth_step f handleAuthSuccess ev (s, a, c) of
        (s', x) \<Rightarrow> rerender f AuthScreen (Auth s') x)"
| "site_step f (CreationEvent ev) (a, Creation s, c) =
     (case creation_step f handleCharacterCreated ev (s, a, c) of
        (s', x) \<Rightarrow> rerender f CharacterCreationScreen (Creation s') x)"
| "site_step f (GameEvent ev) (a, Game s, c) =
     (case game_step f handleLogout ev (s, a, c) of
        (s', x) \<Rightarrow> rerender f GameScreen (Game s') x)"
| "site_step f ev x = x"

definition site_boot :: "'w fetch \<Rightarrow> 'w client \<Rightarrow> 'w site" where
  "site_boot f c0 = mount f (boot f c0)"

fun site_run :: "'w fetch \<Rightarrow> site_event list \<Rightarrow> 'w site \<Rightarrow> 'w site" where
  "site_run f [] x = x"
| "site_run f (ev # evs) x = site_run f evs (site_step f ev x)"

text \<open>
  \<open>app_steps\<close> are the runs of the application's transition relation, with the events of
  \<open>App\<close> they consist of. \<open>fresh_page\<close> is a page as it is mounted.
\<close>

inductive app_steps ::
  "'w fetch \<Rightarrow> app_state \<times> 'w client \<Rightarrow> app_event list \<Rightarrow> app_state \<times> 'w client \<Rightarrow> bool"
  for f :: "'w fetch" where
  idle: "app_steps f x [] x"
| more: "app_steps f x es y \<Longrightarrow> app_trans f y e z \<Longrightarrow> app_steps f x (es @ [e]) z"

fun fresh_page :: "page \<Rightarrow> bool" where
  "fresh_page Splash = True"
| "fresh_page (Auth s) = (s = auth_initial)"
| "fresh_page (Creation s) = (s = creation_initial)"
| "fresh_page (Game s) =
     (s = game_initial\<lparr>loading := False\<rparr> \<or> (\<exists>st. s = game_initial\<lparr>gameState := st, loading := False\<rparr>))"

section \<open>The pages as steps of the application\<close>

text \<open>
  Each handler of a page, run with the callback \<open>App\<close> passes to the page, is a step of the
  application's transition relation or a sequence of two: the submission of the auth form,
  the two buttons of the creation form, and on the game screen the load of the mount and
  the five actions, each one \<open>Acted\<close> step for its call, with the line it logs on a failure,
  and one for the reload after a fulfilled call.
\<close>

lemma submit_is_app_step:
  assumes "app_render a = AuthScreen"
  shows "app_trans f (a, c) (Submitted (submit_op s))
           (fst (snd (handleSubmit f handleAuthSuccess (s, a, c))),
            snd (snd (handleSubmit f handleAuthSuccess (s, a, c))))"
proof (cases "call f (submit_op s) c")
  case (Pair r c')
  show ?thesis
  proof (cases r)
    case (Inl e)
    with Pair assms show ?thesis
      by (simp add: handleSubmit_rejected app_trans.submit_failed)
  next
    case (Inr data)
    with Pair assms show ?thesis
      by (simp add: handleSubmit_fulfilled app_trans.submit_ok)
  qed
qed

lemma creation_handlers_are_app_steps:
  assumes "app_render a = CharacterCreationScreen" and "name s \<noteq> []"
  shows "app_trans f (a, c) (Created (create_op s))
           (fst (snd (handleCreate f handleCharacterCreated (s, a, c))),
            snd (snd (handleCreate f handleCharacterCreated (s, a, c)))) \<and>
         app_trans f (a, c) (Created (preview_op s)) (a, snd (handlePreview f (s, c)))"
proof
  show "app_trans f (a, c) (Created (create_op s))
           (fst (snd (handleCreate f handleCharacterCreated (s, a, c))),
            snd (snd (handleCreate f handleCharacterCreated (s, a, c))))"
  proof (cases "call f (create_op s) c")
    case (Pair r c')
    show ?thesis
    proof (cases r)
      case (Inr character)
      with Pair assms app_trans.create_ok [of a "create_op s" f c character c'] show ?thesis
        by (simp add: handleCreate_fulfilled create_op_def)
    next
      case (Inl e)
      with Pair assms app_trans.create_other [of a "create_op s" f c] show ?thesis
        by (simp add: handleCreate_rejected creation_label_def create_op_def)
    qed
  qed
  show "app_trans f (a, c) (Created (preview_op s)) (a, snd (handlePreview f (s, c)))"
  proof (cases "call f (preview_op s) c")
    case (Pair r c')
    with assms app_trans.create_other [of a "preview_op s" f c] show ?thesis
      by (cases r)
         (simp_all add: handlePreview_fulfilled handlePreview_rejected creation_label_def
            preview_op_def)
  qed
qed

lemma action_of_game_op:
  "action_of s ev = Some (op, label, describe) \<Longrightarrow> game_op op \<and> game_label op = label"
  by (erule action_ofE) auto

lemma snd_loadGameState:
  "snd (loadGameState f (s, c)) = log_failure ''Failed to load game state:'' (call f GetGameState c)"
  by (cases "call f GetGameState c"; cases "fst (call f GetGameState c)")
     (simp_all add: loadGameState_def load_finish_def)

lemma reload_is_app_step:
  "app_render a = GameScreen \<Longrightarrow>
   app_trans f (a, c) (Acted GetGameState) (a, snd (load_finish (getGameState f c) s))"
  using app_trans.acted [of a GetGameState f c] snd_loadGameState [of f s c]
  by (simp add: loadGameState_def)

lemma game_handlers_are_app_steps:
  assumes "app_render a = GameScreen" and "action_of s ev = Some (op, label, describe)"
  shows "app_trans f (a, c) (Acted GetGameState) (a, snd (game_mount f c)) \<and>
         (case call f op c of
            (Inl e, c1) \<Rightarrow> app_trans f (a, c) (Acted op) (a, snd (game_handler f ev (s, c)))
          | (Inr result, c1) \<Rightarrow>
              (case describe result of
                 Inl e \<Rightarrow> app_trans f (a, c) (Acted op) (a, snd (game_handler f ev (s, c)))
               | Inr msg \<Rightarrow>
                   app_trans f (a, c) (Acted op) (a, c1) \<and>
                   app_trans f (a, c1) (Acted GetGameState) (a, snd (game_handler f ev (s, c)))))"
proof
  show "app_trans f (a, c) (Acted GetGameState) (a, snd (game_mount f c))"
    using reload_is_app_step [OF assms(1)] by (simp add: game_mount_def loadGameState_def)
  note h = game_handler_action_of [OF assms(2), of f c]
  from action_of_game_op [OF assms(2)] have op: "game_op op" "game_label op = label" by simp_all
  obtain r c1 where call: "call f op c = (r, c1)" by (cases "call f op c")
  show "case call f op c of
            (Inl e, c1) \<Rightarrow> app_trans f (a, c) (Acted op) (a, snd (game_handler f ev (s, c)))
          | (Inr result, c1) \<Rightarrow>
              (case describe result of
                 Inl e \<Rightarrow> app_trans f (a, c) (Acted op) (a, snd (game_handler f ev (s, c)))
               | Inr msg \<Rightarrow>
                   app_trans f (a, c) (Acted op) (a, c1) \<and>
                   app_trans f (a, c1) (Acted GetGameState) (a, snd (game_handler f ev (s, c))))"
  proof (cases r)
    case (Inl e)
    with call op assms(1) app_trans.acted [of a op f c] show ?thesis
      by (simp add: h game_action_rejected action_failed_def)
  next
    case (Inr result)
    show ?thesis
    proof (cases "describe result")
      case (Inl e)
      with call Inr op assms(1) app_trans.acted_threw [of a op f c result c1 e] show ?thesis
        by (simp add: h game_action_threw action_failed_def)
    next
      case (Inr msg)
      with call \<open>r = Inr result\<close> op assms(1) app_trans.acted [of a op f c]
        reload_is_app_step [OF assms(1), of f c1]
      show ?thesis
        by (simp add: h game_action_fulfilled action_done_def split_beta loadGameState_def)
    qed
  qed
qed

section \<open>A step of the site is a run of the application\<close>

lemma app_steps_one: "app_trans f x e y \<Longrightarrow> app_steps f x [e] y"
  using app_steps.more [OF app_steps.idle] by fastforce

lemma app_steps_trans:
  "app_steps f y es' z \<Longrightarrow> app_steps f x es y \<Longrightarrow> app_steps f x (es @ es') z"
proof (induction rule: app_steps.induct)
  case (more y es' z e w)
  from app_steps.more [OF more.IH [OF more.prems] more.hyps(2)] show ?case by simp
qed simp

lemma app_steps_reachable: "app_steps f x es y \<Longrightarrow> reachable f c0 x \<Longrightarrow> reachable f c0 y"
  by (induction rule: app_steps.induct) (auto intro: reachable.step)

text \<open>The reachable states are the ends of the runs from module load.\<close>

lemma reachable_iff_steps:
  "reachable f c0 s \<longleftrightarrow> (\<exists>es. app_steps f (app_initial, constructor c0) es s)"
proof
  show "reachable f c0 s \<Longrightarrow> \<exists>es. app_steps f (app_initial, constructor c0) es s"
    by (induction rule: reachable.induct) (blast intro: app_steps.intros)+
qed (blast intro: app_steps_reachable reachable.start)

lemma site_parts [simp]: "app_part (a, pg, c) = (a, c)" "page_part (a, pg, c) = pg"
  by (simp_all add: app_part_def page_part_def)

lemma game_mount_page:
  "fst (game_mount f c) = game_initial\<lparr>loading := False\<rparr> \<or>
   (\<exists>st. fst (game_mount f c) = game_initial\<lparr>gameState := st, loading := False\<rparr>)"
  by (cases "call f GetGameState c"; cases "fst (call f GetGameState c)")
     (auto simp: game_mount_def loadGameState_def)

lemma mount_steps:
  "\<exists>es. app_steps f x es (app_part (mount f x)) \<and> length es \<le> 1 \<and>
        page_screen (page_part (mount f x)) = app_render (fst x) \<and>
        fst (mount f x) = fst x \<and> fresh_page (page_part (mount f x))"
proof (cases x)
  case (Pair a c)
  show ?thesis
  proof (cases "app_render a")
    case GameScreen
    from reload_is_app_step [OF GameScreen, of f c game_initial] Pair
    have "app_steps f x [Acted GetGameState] (a, snd (game_mount f c))"
      by (intro app_steps_one) (simp add: game_mount_def loadGameState_def)
    with Pair GameScreen game_mount_page [of f c] show ?thesis
      by (intro exI [of _ "[Acted GetGameState]"]) (simp add: mount_def del: app_render_simps)
  qed (use Pair in \<open>auto simp: mount_def simp del: app_render_simps
      intro!: exI [of _ "[]"] app_steps.idle\<close>)
qed

lemma rerender_steps:
  assumes "app_steps f x es y" and "page_screen pg = before"
  shows "\<exists>es'. app_steps f x (es @ es') (app_part (rerender f before pg y)) \<and> length es' \<le> 1 \<and>
           page_screen (page_part (rerender f before pg y)) = app_render (fst (rerender f before pg y)) \<and>
           (page_part (rerender f before pg y) = pg \<or> fresh_page (page_part (rerender f before pg y)))"
proof (cases "app_render (fst y) = before")
  case True
  with assms show ?thesis
    by (intro exI [of _ "[]"]) (simp add: rerender_def split_beta app_part_def page_part_def)
next
  case False
  from mount_steps [of f y] obtain es' where
    "app_steps f y es' (app_part (mount f y))" "length es' \<le> 1"
    "page_screen (page_part (mount f y)) = app_render (fst y)" "fst (mount f y) = fst y"
    "fresh_page (page_part (mount f y))"
    by blast
  with False app_steps_trans [OF _ assms(1)] show ?thesis
    by (intro exI [of _ es']) (simp add: rerender_def split_beta)
qed

lemma auth_step_steps:
  assumes "app_render a = AuthScreen"
  shows "\<exists>es. app_steps f (a, c) es (snd (auth_step f handleAuthSuccess ev (s, a, c))) \<and> length es \<le> 1"
proof (cases "ev = SubmitForm \<and> can_submit s")
  case True
  with submit_is_app_step [OF assms, of f c s] show ?thesis
    by (intro exI [of _ "[Submitted (submit_op s)]"]) (simp add: app_steps_one)
next
  case False
  then show ?thesis
    by (intro exI [of _ "[]"]) (cases ev; simp add: app_steps.idle)
qed

lemma creation_step_steps:
  assumes "app_render a = CharacterCreationScreen"
  shows "\<exists>es. app_steps f (a, c) es (snd (creation_step f handleCharacterCreated ev (s, a, c))) \<and>
           length es \<le> 1"
proof (cases "buttons_disabled s \<or> ev \<notin> {ClickPreview, ClickCreate}")
  case True
  then show ?thesis
    by (intro exI [of _ "[]"]) (cases ev; auto simp: app_steps.idle)
next
  case False
  then have n: "name s \<noteq> []" by (simp add: buttons_disabled_def)
  from creation_handlers_are_app_steps [OF assms n, of f c] False show ?thesis
    by (cases ev) (auto intro!: exI app_steps_one)
qed

lemma game_step_steps:
  assumes "app_render a = GameScreen"
  shows "\<exists>es. app_steps f (a, c) es (snd (game_step f handleLogout ev (s, a, c))) \<and> length es \<le> 2"
proof (cases "offered s ev")
  case False
  then show ?thesis by (intro exI [of _ "[]"]) (simp add: game_step_def app_steps.idle)
next
  case True
  show ?thesis
  proof (cases "action_of s ev")
    case None
    then have "ev = LogoutClicked" by (cases ev) simp_all
    with True app_trans.logged_out [OF assms, of f c] show ?thesis
      by (intro exI [of _ "[LoggedOut]"]) (simp add: game_step_def app_steps_one)
  next
    case (Some row)
    then obtain op label describe where row: "action_of s ev = Some (op, label, describe)"
      by (cases row) auto
    then have ev: "ev \<noteq> LogoutClicked" by auto
    obtain r c1 where call: "call f op c = (r, c1)" by (cases "call f op c")
    note h = game_handlers_are_app_steps [OF assms row, of f c, THEN conjunct2]
    have "\<exists>es. app_steps f (a, c) es (a, snd (game_handler f ev (s, c))) \<and> length es \<le> 2"
    proof (cases "case r of Inl e \<Rightarrow> None | Inr result \<Rightarrow>
        (case describe result of Inl e \<Rightarrow> None | Inr msg \<Rightarrow> Some msg)")
      case None
      with h call show ?thesis
        by (intro exI [of _ "[Acted op]"]) (auto simp: app_steps_one split: sum.splits)
    next
      case (Some msg)
      with h call have "app_trans f (a, c) (Acted op) (a, c1)"
        "app_trans f (a, c1) (Acted GetGameState) (a, snd (game_handler f ev (s, c)))"
        by (auto split: sum.splits)
      from app_steps.more [OF app_steps_one [OF this(1)] this(2)] show ?thesis
        by (intro exI [of _ "[Acted op, Acted GetGameState]"]) simp
    qed
    with True ev show ?thesis by (simp add: game_step_def)
  qed
qed

lemma rerender_run:
  assumes "app_steps f (a, c) es y" and "length es \<le> 2" and "page_screen pg' = before"
  shows "\<exists>es. app_steps f (a, c) es (app_part (rerender f before pg' y)) \<and> length es \<le> 3 \<and>
           page_screen (page_part (rerender f before pg' y)) = app_render (fst (rerender f before pg' y))"
proof -
  from rerender_steps [OF assms(1,3)] obtain es' where
    "app_steps f (a, c) (es @ es') (app_part (rerender f before pg' y))" "length es' \<le> 1"
    "page_screen (page_part (rerender f before pg' y)) = app_render (fst (rerender f before pg' y))"
    by blast
  with assms(2) show ?thesis by (intro exI [of _ "es @ es'"]) simp
qed

lemma site_step_auth:
  assumes "app_render a = AuthScreen"
  shows "\<exists>es. app_steps f (a, c) es (app_part (site_step f (AuthEvent e) (a, Auth s, c))) \<and>
           length es \<le> 3 \<and>
           page_screen (page_part (site_step f (AuthEvent e) (a, Auth s, c))) =
             app_render (fst (site_step f (AuthEvent e) (a, Auth s, c)))"
proof -
  from auth_step_steps [OF assms, of f c e s] obtain es where
    "app_steps f (a, c) es (snd (auth_step f handleAuthSuccess e (s, a, c)))" "length es \<le> 1"
    by blast
  then show ?thesis
    using rerender_run [of f a c es _ "Auth (fst (auth_step f handleAuthSuccess e (s, a, c)))" AuthScreen]
    by (simp add: split_beta)
qed

lemma site_step_creation:
  assumes "app_render a = CharacterCreationScreen"
  shows "\<exists>es. app_steps f (a, c) es (app_part (site_step f (CreationEvent e) (a, Creation s, c))) \<and>
           length es \<le> 3 \<and>
           page_screen (page_part (site_step f (CreationEvent e) (a, Creation s, c))) =
             app_render (fst (site_step f (CreationEvent e) (a, Creation s, c)))"
proof -
  from creation_step_steps [OF assms, of f c e s] obtain es where
    "app_steps f (a, c) es (snd (creation_step f handleCharacterCreated e (s, a, c)))"
    "length es \<le> 1"
    by blast
  then show ?thesis
    using rerender_run [of f a c es _
        "Creation (fst (creation_step f handleCharacterCreated e (s, a, c)))" CharacterCreationScreen]
    by (simp add: split_beta)
qed

lemma site_step_game:
  assumes "app_render a = GameScreen"
  shows "\<exists>es. app_steps f (a, c) es (app_part (site_step f (GameEvent e) (a, Game s, c))) \<and>
           length es \<le> 3 \<and>
           page_screen (page_part (site_step f (GameEvent e) (a, Game s, c))) =
             app_render (fst (site_step f (GameEvent e) (a, Game s, c)))"
proof -
  from game_step_steps [OF assms, of f c e s] obtain es where
    "app_steps f (a, c) es (snd (game_step f handleLogout e (s, a, c)))" "length es \<le> 2"
    by blast
  then show ?thesis
    using rerender_run [of f a c es _ "Game (fst (game_step f handleLogout e (s, a, c)))" GameScreen]
    by (simp add: split_beta)
qed

lemma site_step_steps:
  assumes "page_screen pg = app_render a"
  shows "\<exists>es. app_steps f (a, c) es (app_part (site_step f ev (a, pg, c))) \<and> length es \<le> 3 \<and>
           page_screen (page_part (site_step f ev (a, pg, c))) =
             app_render (fst (site_step f ev (a, pg, c)))"
proof (cases "site_step f ev (a, pg, c) = (a, pg, c)")
  case True
  with assms show ?thesis by (intro exI [of _ "[]"]) (simp add: app_steps.idle)
next
  case False
  with assms [symmetric] show ?thesis
    using site_step_auth [of a f c] site_step_creation [of a f c] site_step_game [of a f c]
    by (cases pg; cases ev) (simp_all del: site_step.simps app_render_simps, simp_all)
qed

lemma app_trans_not_loading: "app_trans f x e y \<Longrightarrow> \<not> app_state.loading (fst y)"
  by (induction rule: app_trans.induct) (simp_all add: app_handler_defs)

lemma app_steps_not_loading: "app_steps f x es y \<Longrightarrow> \<not> app_state.loading (fst x) \<Longrightarrow> \<not> app_state.loading (fst y)"
  by (induction rule: app_steps.induct) (auto dest: app_trans_not_loading)

lemma site_run_steps:
  assumes "page_screen (page_part x) = app_render (fst x)"
  shows "\<exists>es. app_steps f (app_part x) es (app_part (site_run f evs x)) \<and>
           length es \<le> 3 * length evs \<and>
           page_screen (page_part (site_run f evs x)) = app_render (fst (site_run f evs x))"
  using assms
proof (induction evs arbitrary: x)
  case Nil
  then show ?case by (intro exI [of _ "[]"]) (simp add: app_steps.idle)
next
  case (Cons ev evs)
  obtain a pg c where x: "x = (a, pg, c)" by (cases x)
  with Cons.prems site_step_steps [of pg a f c ev] obtain es where es:
    "app_steps f (a, c) es (app_part (site_step f ev x))" "length es \<le> 3"
    "page_screen (page_part (site_step f ev x)) = app_render (fst (site_step f ev x))"
    by auto
  from Cons.IH [OF es(3)] obtain es' where es':
    "app_steps f (app_part (site_step f ev x)) es' (app_part (site_run f evs (site_step f ev x)))"
    "length es' \<le> 3 * length evs"
    "page_screen (page_part (site_run f evs (site_step f ev x))) =
       app_render (fst (site_run f evs (site_step f ev x)))"
    by blast
  from app_steps_trans [OF es'(1) es(1)] es(2) es'(2,3) x show ?case
    by (intro exI [of _ "es @ es'"]) simp
qed

text \<open>
  C28 (site_refines_app). A run of the site is a run of the application. Whatever events the
  pages receive after start-up, the flags of \<open>App\<close> and the browser are reached from the
  start-up check by steps of the application's transition relation, at most three for each
  event and one for the first mount; so the state is a reachable state of \<open>App\<close>. The page
  that is mounted is the page of the screen \<open>App\<close> renders, and it is never the loading
  screen.
\<close>

theorem site_refines_app:
  "\<exists>es. app_steps f (boot f c0) es (app_part (site_run f evs (site_boot f c0))) \<and>
        length es \<le> 3 * length evs + 1 \<and>
        reachable f c0 (app_part (site_run f evs (site_boot f c0))) \<and>
        page_screen (page_part (site_run f evs (site_boot f c0))) =
          app_render (fst (site_run f evs (site_boot f c0))) \<and>
        page_part (site_run f evs (site_boot f c0)) \<noteq> Splash"
proof -
  from mount_steps [of f "boot f c0"] obtain es0 where es0:
    "app_steps f (boot f c0) es0 (app_part (site_boot f c0))" "length es0 \<le> 1"
    "page_screen (page_part (site_boot f c0)) = app_render (fst (site_boot f c0))"
    by (auto simp: site_boot_def)
  from site_run_steps [OF es0(3), of f evs] obtain es where es:
    "app_steps f (app_part (site_boot f c0)) es (app_part (site_run f evs (site_boot f c0)))"
    "length es \<le> 3 * length evs"
    "page_screen (page_part (site_run f evs (site_boot f c0))) =
       app_render (fst (site_run f evs (site_boot f c0)))"
    by blast
  let ?x = "site_run f evs (site_boot f c0)"
  have run: "app_steps f (boot f c0) (es0 @ es) (app_part ?x)"
    using app_steps_trans [OF es(1) es0(1)] .
  have "\<not> app_state.loading (fst (app_part ?x))"
    using app_steps_not_loading [OF run] by (simp add: boot_def)
  then have "page_part ?x \<noteq> Splash"
    using es(3) by (cases ?x) (auto simp: app_render_def split: if_splits)
  with run es0(2) es(2,3) app_steps_reachable [OF run reachable_boot] show ?thesis
    by (intro exI [of _ "es0 @ es"]) simp
qed

text \<open>
  Navigating discards the state of a page. After every event either
  the same kind of page is mounted as before, or the page was mounted by this event and
  has its initial state: empty forms on the auth and creation pages, and on the game page
  the state \<^verbatim>\<open>loadGameState\<close> leaves when it is run on the initial state.
\<close>

theorem pages_start_fresh:
  "page_screen (page_part (site_step f ev x)) = page_screen (page_part x) \<or>
   fresh_page (page_part (site_step f ev x))"
proof -
  have r: "page_screen (page_part (rerender f (page_screen pg) pg' y)) = page_screen pg \<or>
      fresh_page (page_part (rerender f (page_screen pg) pg' y))"
    if "page_screen pg' = page_screen pg" for pg pg' y
    using that mount_steps [of f y] by (cases y) (auto simp: rerender_def)
  obtain a pg c where x: "x = (a, pg, c)" by (cases x)
  show ?thesis
    unfolding x using r [of _ pg]
    by (cases pg; cases ev) (auto simp: split_beta)
qed

end
