(* ===== verification/GameRequests.thy ===== *)
theory GameRequests
  imports GamePage
begin

text \<open>
  The game screen of \<^verbatim>\<open>src/life-sim-frontend/src/components/GamePage.tsx\<close> with its
  requests in flight.

  The handlers of \<open>GamePage\<close> run from the click to the end of their \<^verbatim>\<open>finally\<close> block.
  Here each handler is split at its \<^verbatim>\<open>await\<close>s: \<open>game_trans\<close> is the step relation of the
  screen, in which a click sends a request and leaves a continuation in \<open>waiting\<close>, and
  the continuations settle in any order. The lemmas show that a handler of \<open>GamePage\<close>
  is a run of this relation, that the screen is serialised when the travel buttons are
  held back like the generate buttons, that it is not as written, and that settling
  ends.
\<close>

section \<open>The screen with its requests in flight\<close>

text \<open>
  A handler is suspended at each \<^verbatim>\<open>await\<close>. \<open>pending\<close> is what a suspended handler waits for
  and goes on with: the answer to an action (with the label and the message of the
  handler), the answer to the reload that ends an action, or the answer to the load of the
  mount. The server has answered when the request was sent; the answers arrive in any
  order.
\<close>

datatype pending =
    AwaitAction string "jsval \<Rightarrow> js_error + jsval" "js_error + jsval"
  | AwaitReload "js_error + jsval"
  | AwaitLoad "js_error + jsval"

record ('p, 'w) game_sys =
  board :: game_page
  waiting :: "pending list"
  mounted :: bool
  owner :: 'p
  window :: "'w client"

definition game_mounted :: "'w fetch \<Rightarrow> 'p \<Rightarrow> 'w client \<Rightarrow> ('p, 'w) game_sys" where
  "game_mounted f p c =
     \<lparr>board = game_initial, waiting = [AwaitLoad (fst (call f GetGameState c))], mounted = True,
      owner = p, window = snd (call f GetGameState c)\<rparr>"

text \<open>
  \<open>settles\<close> are the steps in which an answer arrives and the suspended handler goes on to
  its next \<^verbatim>\<open>await\<close> or to its end. \<open>game_trans guarded\<close> adds the clicks: with \<open>guarded\<close>
  false the screen as it is written; with \<open>guarded\<close> true the screen in which the travel
  buttons, too, are held back while an action is pending.
\<close>

inductive settles :: "'w fetch \<Rightarrow> ('p, 'w) game_sys \<Rightarrow> ('p, 'w) game_sys \<Rightarrow> bool"
  for f :: "'w fetch" where
  action_rejected:
    "waiting x = ps @ AwaitAction label describe (Inl e) # qs \<Longrightarrow>
     settles f x
       (x\<lparr>board := fst (action_failed label e (board x, window x)), waiting := ps @ qs,
          window := snd (action_failed label e (board x, window x))\<rparr>)"
| action_threw:
    "waiting x = ps @ AwaitAction label describe (Inr result) # qs \<Longrightarrow>
     describe result = Inl e \<Longrightarrow>
     settles f x
       (x\<lparr>board := fst (action_failed label e (board x, window x)), waiting := ps @ qs,
          window := snd (action_failed label e (board x, window x))\<rparr>)"
| action_fulfilled:
    "waiting x = ps @ AwaitAction label describe (Inr result) # qs \<Longrightarrow>
     describe result = Inr msg \<Longrightarrow> call f GetGameState (window x) = (r, c') \<Longrightarrow>
     settles f x
       (x\<lparr>board := (board x)\<lparr>currentAction := msg\<rparr>, waiting := ps @ AwaitReload r # qs,
          window := c'\<rparr>)"
| reloaded:
    "waiting x = ps @ AwaitReload r # qs \<Longrightarrow>
     settles f x
       (x\<lparr>board := fst (action_done (load_finish (r, window x) (board x))), waiting := ps @ qs,
          window := snd (action_done (load_finish (r, window x) (board x)))\<rparr>)"
| loaded:
    "waiting x = ps @ AwaitLoad r # qs \<Longrightarrow>
     settles f x
       (x\<lparr>board := fst (load_finish (r, window x) (board x)), waiting := ps @ qs,
          window := snd (load_finish (r, window x) (board x))\<rparr>)"

inductive game_trans ::
  "bool \<Rightarrow> 'w fetch \<Rightarrow> ('p \<times> 'w client \<Rightarrow> 'p \<times> 'w client) \<Rightarrow>
     ('p, 'w) game_sys \<Rightarrow> ('p, 'w) game_sys \<Rightarrow> bool"
  for guarded :: bool and f :: "'w fetch" and g :: "'p \<times> 'w client \<Rightarrow> 'p \<times> 'w client" where
  click:
    "mounted x \<Longrightarrow> offered (board x) ev \<Longrightarrow> guarded \<longrightarrow> \<not> actionLoading (board x) \<Longrightarrow>
     action_of (board x) ev = Some (op, label, describe) \<Longrightarrow>
     call f op (window x) = (r, c') \<Longrightarrow>
     game_trans guarded f g x
       (x\<lparr>board := (board x)\<lparr>actionLoading := True\<rparr>,
          waiting := waiting x @ [AwaitAction label describe r], window := c'\<rparr>)"
| settle:
    "settles f x y \<Longrightarrow> game_trans guarded f g x y"
| logout:
    "mounted x \<Longrightarrow> offered (board x) LogoutClicked \<Longrightarrow>
     game_trans guarded f g x
       (x\<lparr>mounted := False, owner := fst (g (owner x, window x)),
          window := snd (g (owner x, window x))\<rparr>)"

inductive game_reachable ::
  "bool \<Rightarrow> 'w fetch \<Rightarrow> ('p \<times> 'w client \<Rightarrow> 'p \<times> 'w client) \<Rightarrow>
     ('p, 'w) game_sys \<Rightarrow> ('p, 'w) game_sys \<Rightarrow> bool"
  for guarded :: bool and f :: "'w fetch" and g :: "'p \<times> 'w client \<Rightarrow> 'p \<times> 'w client"
    and x0 :: "('p, 'w) game_sys" where
  game_start: "game_reachable guarded f g x0 x0"
| game_next: "game_reachable guarded f g x0 x \<Longrightarrow> game_trans guarded f g x y \<Longrightarrow>
     game_reachable guarded f g x0 y"

text \<open>One request at a time: what the page shows of its requests is what is in flight.\<close>

definition serialised :: "('p, 'w) game_sys \<Rightarrow> bool" where
  "serialised x \<longleftrightarrow>
     (case waiting x of
        [] \<Rightarrow> \<not> loading (board x) \<and> \<not> actionLoading (board x)
      | [AwaitLoad r] \<Rightarrow> loading (board x) \<and> \<not> actionLoading (board x)
      | [w] \<Rightarrow> \<not> loading (board x) \<and> actionLoading (board x)
      | _ \<Rightarrow> False)"

text \<open>
  What is left to do for the requests in flight: an action is followed by its reload.
  \<open>settle_next\<close> delivers the oldest answer, and \<open>drain\<close> delivers answers, oldest first,
  until none is in flight.
\<close>

fun weight :: "pending \<Rightarrow> nat" where
  "weight (AwaitAction label describe r) = 2"
| "weight (AwaitReload r) = 1"
| "weight (AwaitLoad r) = 1"

definition debt :: "('p, 'w) game_sys \<Rightarrow> nat" where
  "debt x = sum_list (map weight (waiting x))"

definition settle_next :: "'w fetch \<Rightarrow> ('p, 'w) game_sys \<Rightarrow> ('p, 'w) game_sys" where
  "settle_next f x =
     (case waiting x of
        [] \<Rightarrow> x
      | AwaitAction label describe r # qs \<Rightarrow>
          (case (case r of Inl e \<Rightarrow> Inl e | Inr result \<Rightarrow> describe result) of
             Inl e \<Rightarrow>
               x\<lparr>board := fst (action_failed label e (board x, window x)), waiting := qs,
                 window := snd (action_failed label e (board x, window x))\<rparr>
           | Inr msg \<Rightarrow>
               x\<lparr>board := (board x)\<lparr>currentAction := msg\<rparr>,
                 waiting := AwaitReload (fst (call f GetGameState (window x))) # qs,
                 window := snd (call f GetGameState (window x))\<rparr>)
      | AwaitReload r # qs \<Rightarrow>
          x\<lparr>board := fst (action_done (load_finish (r, window x) (board x))), waiting := qs,
            window := snd (action_done (load_finish (r, window x) (board x)))\<rparr>
      | AwaitLoad r # qs \<Rightarrow>
          x\<lparr>board := fst (load_finish (r, window x) (board x)), waiting := qs,
            window := snd (load_finish (r, window x) (board x))\<rparr>)"

function drain :: "'w fetch \<Rightarrow> ('p, 'w) game_sys \<Rightarrow> ('p, 'w) game_sys" where
  "drain f x = (if waiting x = [] then x else drain f (settle_next f x))"
  by pat_completeness auto

termination
  by (relation "measure (\<lambda>(f, x). debt x)")
     (auto simp: debt_def settle_next_def split: list.splits pending.splits sum.splits)

declare drain.simps [simp del]

text \<open>
  For the closed instances: the screen showing \<open>playing\<close>, the screen after \<open>n\<close> clicks on
  \<^verbatim>\<open>Travel Here\<close>, and the screen after the first of two such requests has settled.
\<close>

definition playing_sys :: "(unit, unit) game_sys" where
  "playing_sys = \<lparr>board = playing, waiting = [], mounted = True, owner = (), window = client0 ()\<rparr>"

definition travelling :: "nat \<Rightarrow> (unit, unit) game_sys" where
  "travelling n = playing_sys
     \<lparr>board := playing\<lparr>actionLoading := True\<rparr>,
      waiting := replicate n
        (AwaitAction ''Failed to travel:'' (\<lambda>result. get_prop result ''message'') (Inl (Error ''Not Found'')))\<rparr>"

definition half_settled :: "(unit, unit) game_sys" where
  "half_settled = playing_sys
     \<lparr>waiting := [AwaitAction ''Failed to travel:'' (\<lambda>result. get_prop result ''message'')
         (Inl (Error ''Not Found''))],
      window := console_error ''Failed to travel:'' (Error ''Not Found'') (client0 ())\<rparr>"

section \<open>One request at a time\<close>

lemma serialised_iff:
  "serialised x \<longleftrightarrow>
     waiting x = [] \<and> \<not> loading (board x) \<and> \<not> actionLoading (board x) \<or>
     (\<exists>r. waiting x = [AwaitLoad r]) \<and> loading (board x) \<and> \<not> actionLoading (board x) \<or>
     (\<exists>w. waiting x = [w] \<and> (\<forall>r. w \<noteq> AwaitLoad r)) \<and> \<not> loading (board x) \<and> actionLoading (board x)"
proof (cases "waiting x")
  case Nil
  then show ?thesis by (simp add: serialised_def)
next
  case (Cons w ws)
  then show ?thesis
    by (cases ws; cases w) (simp_all add: serialised_def)
qed

lemma serialised_waiting:
  assumes "serialised x" and "waiting x = ps @ w # qs"
  shows "ps = [] \<and> qs = [] \<and>
         (case w of AwaitLoad r \<Rightarrow> loading (board x) \<and> \<not> actionLoading (board x)
          | _ \<Rightarrow> \<not> loading (board x) \<and> actionLoading (board x))"
proof -
  from assms(1) have "length (waiting x) \<le> 1"
    unfolding serialised_iff by auto
  with assms(2) have e: "ps = []" "qs = []" by simp_all
  with assms show ?thesis
    unfolding serialised_iff by (cases w) auto
qed

lemma serialised_idle:
  "serialised x \<Longrightarrow> \<not> loading (board x) \<Longrightarrow> \<not> actionLoading (board x) \<Longrightarrow> waiting x = []"
  unfolding serialised_iff by auto

lemma settles_serialised:
  assumes "settles f x y" and "serialised x"
  shows "serialised y"
  using assms(1)
proof (cases rule: settles.cases)
  case (action_rejected ps label describe e qs)
  from serialised_waiting [OF assms(2) action_rejected(2)]
  show ?thesis unfolding action_rejected(1) serialised_iff by (simp add: action_failed_def)
next
  case (action_threw ps label describe result qs e)
  from serialised_waiting [OF assms(2) action_threw(2)]
  show ?thesis unfolding action_threw(1) serialised_iff by (simp add: action_failed_def)
next
  case (action_fulfilled ps label describe result qs msg r c')
  from serialised_waiting [OF assms(2) action_fulfilled(2)]
  show ?thesis unfolding action_fulfilled(1) serialised_iff by simp
next
  case (reloaded ps r qs)
  from serialised_waiting [OF assms(2) reloaded(2)]
  show ?thesis unfolding reloaded(1) serialised_iff by (cases r) simp_all
next
  case (loaded ps r qs)
  from serialised_waiting [OF assms(2) loaded(2)]
  show ?thesis unfolding loaded(1) serialised_iff by (cases r) simp_all
qed

lemma game_trans_serialised:
  assumes "game_trans True f g x y" and "serialised x"
  shows "serialised y"
  using assms(1)
proof (cases rule: game_trans.cases)
  case (click ev op label describe r c')
  from offered_dashboard [OF click(3)] have d: "\<not> loading (board x)" ..
  from click(4) have a: "\<not> actionLoading (board x)" by simp
  from serialised_idle [OF assms(2) d a] have w: "waiting x = []" .
  show ?thesis unfolding click(1) serialised_iff using d w by simp
next
  case settle
  then show ?thesis using assms(2) by (rule settles_serialised)
next
  case logout
  from assms(2) show ?thesis unfolding logout(1) serialised_iff by simp
qed


section \<open>The screen as written\<close>

lemma travel_click:
  assumes "mounted x" and "gameState (board x) = world_state" and "\<not> loading (board x)"
    and "window x = client0 ()"
  shows "game_trans False game_server g x
     (x\<lparr>board := (board x)\<lparr>actionLoading := True\<rparr>,
        waiting := waiting x @ [AwaitAction ''Failed to travel:'' (\<lambda>result. get_prop result ''message'')
          (Inl (Error ''Not Found''))],
        window := client0 ()\<rparr>)"
  using game_trans.click [of x "TravelClicked (JStr ''p1'')" False "TravelToPlace (JStr ''p1'')"
      "''Failed to travel:''" "\<lambda>result. get_prop result ''message''" game_server
      "Inl (Error ''Not Found'')" "client0 ()" g]
    assms travel_offered [OF assms(2,3)] travel_rejected
  by simp

lemma reach_travelling_1: "game_reachable False game_server g playing_sys (travelling 1)"
proof -
  have "game_trans False game_server g playing_sys (travelling 1)"
    using travel_click [of playing_sys g]
    by (simp add: playing_sys_def playing_def travelling_def game_initial_def)
  with game_reachable.game_start show ?thesis by (rule game_reachable.game_next)
qed

lemma reach_travelling_2: "game_reachable False game_server g playing_sys (travelling 2)"
proof -
  have "game_trans False game_server g (travelling 1) (travelling 2)"
    using travel_click [of "travelling 1" g]
    by (simp add: playing_sys_def playing_def travelling_def game_initial_def numeral_2_eq_2)
  with reach_travelling_1 show ?thesis by (rule game_reachable.game_next)
qed

lemma reach_half_settled: "game_reachable False game_server g playing_sys half_settled"
proof -
  have "game_trans False game_server g (travelling 2) half_settled"
    using settles.action_rejected [of "travelling 2" "[]" "''Failed to travel:''"
        "\<lambda>result. get_prop result ''message''" "Error ''Not Found''" _ game_server]
    by (intro game_trans.settle) (simp add: travelling_def half_settled_def playing_sys_def playing_def game_initial_def
        action_failed_def numeral_2_eq_2)
  with reach_travelling_2 show ?thesis by (rule game_reachable.game_next)
qed

text \<open>
  The screen as written is not serialised: two clicks on \<^verbatim>\<open>Travel Here\<close> put two requests in
  flight, and when the first has failed the generate buttons are enabled while the second
  is still in flight.
\<close>

theorem travel_not_serialised:
  "serialised playing_sys \<and>
   game_reachable False game_server id playing_sys (travelling 2) \<and>
   length (waiting (travelling 2)) = 2 \<and>
   game_reachable False game_server id playing_sys half_settled \<and>
   waiting half_settled \<noteq> [] \<and> \<not> actionLoading (board half_settled) \<and>
   offered (board half_settled) GenerateCharacterClicked \<and> \<not> serialised half_settled"
  using reach_travelling_2 [of id] reach_half_settled [of id]
    generate_offered [of "board half_settled"]
  by (simp add: serialised_def travelling_def half_settled_def playing_sys_def playing_def
      game_initial_def)

section \<open>The handlers as runs of the screen with requests in flight\<close>

lemma game_reachable_trans:
  "game_reachable guarded f g y z \<Longrightarrow> game_reachable guarded f g x y \<Longrightarrow>
   game_reachable guarded f g x z"
  by (induction rule: game_reachable.induct) (auto intro: game_reachable.game_next)

lemma game_reachable_step:
  "game_trans guarded f g x y \<Longrightarrow> game_reachable guarded f g x y"
  by (rule game_reachable.game_next [OF game_reachable.game_start])

lemma settles_debt: "settles f x y \<Longrightarrow> debt y < debt x"
  by (induction rule: settles.induct) (simp_all add: debt_def)

lemma settle_next_settles:
  assumes "waiting x \<noteq> []"
  shows "settles f x (settle_next f x)"
proof -
  from assms obtain w qs where w: "waiting x = [] @ w # qs" by (cases "waiting x") auto
  show ?thesis
  proof (cases w)
    case (AwaitAction label describe r)
    show ?thesis
    proof (cases "case r of Inl e \<Rightarrow> Inl e | Inr result \<Rightarrow> describe result")
      case (Inl e)
      with w AwaitAction settles.action_rejected [of x "[]" label describe e qs f]
        settles.action_threw [of x "[]" label describe _ qs e f]
      show ?thesis by (cases r) (simp_all add: settle_next_def)
    next
      case (Inr msg)
      then obtain result where "r = Inr result" "describe result = Inr msg" by (cases r) auto
      with w AwaitAction Inr
        settles.action_fulfilled [of x "[]" label describe result qs msg f
          "fst (call f GetGameState (window x))" "snd (call f GetGameState (window x))"]
      show ?thesis by (simp add: settle_next_def)
    qed
  next
    case (AwaitReload r)
    with w settles.reloaded [of x "[]" r qs f] show ?thesis by (simp add: settle_next_def)
  next
    case (AwaitLoad r)
    with w settles.loaded [of x "[]" r qs f] show ?thesis by (simp add: settle_next_def)
  qed
qed

lemma drain_idle [simp]: "waiting x = [] \<Longrightarrow> drain f x = x"
  by (simp add: drain.simps)

lemma drain_next: "waiting x \<noteq> [] \<Longrightarrow> drain f x = drain f (settle_next f x)"
  by (subst drain.simps) simp

lemma drain_waiting [simp]: "waiting (drain f x) = []"
  by (induction f x rule: drain.induct) (subst drain.simps, simp)

lemma drain_reachable: "game_reachable guarded f g x (drain f x)"
proof (induction f x rule: drain.induct)
  case (1 f x)
  show ?case
  proof (cases "waiting x = []")
    case True
    then show ?thesis by (simp add: game_reachable.game_start)
  next
    case False
    from settle_next_settles [OF False] have "game_reachable guarded f g x (settle_next f x)"
      by (intro game_reachable_step game_trans.settle)
    from game_reachable_trans [OF 1 [OF False] this] False show ?thesis
      by (simp add: drain_next)
  qed
qed

lemma drain_click:
  assumes "action_of s ev = Some (op, label, describe)" and "board x = s\<lparr>actionLoading := True\<rparr>"
    and "waiting x = [AwaitAction label describe (fst (call f op c))]"
    and "window x = snd (call f op c)"
  shows "drain f x = x\<lparr>board := fst (game_handler f ev (s, c)), waiting := [],
                       window := snd (game_handler f ev (s, c))\<rparr>"
proof (cases "call f op c")
  case (Pair r c1)
  note h = game_handler_action_of [OF assms(1), of f c]
  show ?thesis
  proof (cases "case r of Inl e \<Rightarrow> Inl e | Inr result \<Rightarrow> describe result")
    case (Inl e)
    with Pair assms(2-4) show ?thesis
      by (cases r)
         (simp_all add: h game_action_rejected game_action_threw drain_next settle_next_def
            action_failed_def)
  next
    case (Inr msg)
    then obtain result where r: "r = Inr result" "describe result = Inr msg" by (cases r) auto
    with Pair assms(2-4) show ?thesis
      by (simp add: h game_action_fulfilled drain_next settle_next_def split_beta
          loadGameState_def)
  qed
qed

text \<open>
  C27 (settling_terminates). Settling ends. The steps in which an answer arrives are well-founded:
  an action is followed by at most one reload, so from every state only finitely many
  answers arrive unless a control is clicked. Delivering the answers oldest first reaches a
  state with nothing in flight, and that state is reachable by steps of the screen.
\<close>

theorem settling_terminates:
  "wf {(y, x). settles f x y} \<and> waiting (drain f x) = [] \<and>
   game_reachable guarded f g x (drain f x)"
proof -
  have "wf {(y, x). settles f x y}"
    by (rule wf_subset [OF wf_measure [of debt]]) (auto simp: settles_debt)
  then show ?thesis by (simp add: drain_reachable)
qed

theorem settling_terminates_witness:
  "wf {(y, x). settles game_server x y} \<and>
   drain game_server (game_mounted game_server () (client0 ())) =
     \<lparr>board = playing, waiting = [], mounted = True, owner = (), window = client0 ()\<rparr>"
proof -
  have "drain game_server (game_mounted game_server () (client0 ())) =
      \<lparr>board = playing, waiting = [], mounted = True, owner = (), window = client0 ()\<rparr>"
    by (simp add: drain_next settle_next_def game_mounted_def reload_fulfilled [simplified]
        playing_def)
  moreover from settling_terminates [of game_server "game_mounted game_server () (client0 ())" False id]
  have "wf {(y, x). settles game_server x y}" ..
  ultimately show ?thesis by (rule conjI [rotated])
qed

text \<open>
  C26 (click_then_settle). The handlers are runs of the screen with requests in flight. From a
  mounted screen with nothing in flight, a click on an offered action control followed by
  the answers in the order they were requested (\<open>drain\<close>) ends in the state the handler of
  \<open>GamePage\<close> computes in one step, and that state is reachable.
\<close>

theorem click_then_settle:
  assumes "mounted x" and "waiting x = []" and "offered (board x) ev"
    and "action_of (board x) ev = Some (op, label, describe)"
    and "guarded \<longrightarrow> \<not> actionLoading (board x)"
  shows "\<exists>x1. game_trans guarded f g x x1 \<and>
           drain f x1 = x\<lparr>board := fst (game_handler f ev (board x, window x)), waiting := [],
                           window := snd (game_handler f ev (board x, window x))\<rparr> \<and>
           game_reachable guarded f g x (drain f x1)"
proof -
  let ?x1 = "x\<lparr>board := (board x)\<lparr>actionLoading := True\<rparr>,
               waiting := waiting x @ [AwaitAction label describe (fst (call f op (window x)))],
               window := snd (call f op (window x))\<rparr>"
  have t: "game_trans guarded f g x ?x1"
    using assms(1,3,5,4) by (intro game_trans.click) simp_all
  have d: "drain f ?x1 = x\<lparr>board := fst (game_handler f ev (board x, window x)), waiting := [],
                            window := snd (game_handler f ev (board x, window x))\<rparr>"
    using drain_click [OF assms(4), of ?x1 f "window x"] assms(2) by simp
  from game_reachable_trans [OF drain_reachable game_reachable_step [OF t]] t d
  show ?thesis by blast
qed

lemma serialised_playing_sys: "serialised playing_sys"
  by (simp add: serialised_def playing_sys_def)

lemma playing_sys_simps [simp]:
  "mounted playing_sys" "waiting playing_sys = []" "board playing_sys = playing"
  "window playing_sys = client0 ()"
  by (simp_all add: playing_sys_def)

theorem click_then_settle_witness:
  "mounted playing_sys \<and> waiting playing_sys = [] \<and>
   offered (board playing_sys) GenerateCharacterClicked \<and>
   game_reachable True game_server id playing_sys
     (playing_sys\<lparr>board := playing\<lparr>currentAction := JStr ''You encountered Rin!''\<rparr>\<rparr>)"
proof -
  have o: "offered (board playing_sys) GenerateCharacterClicked"
    by (simp add: generate_offered)
  have h: "game_handler game_server GenerateCharacterClicked (playing, client0 ()) =
     (playing\<lparr>currentAction := JStr ''You encountered Rin!''\<rparr>, client0 ())"
    by (simp add: handleGenerateCharacter_def playing_def game_initial_def reload_fulfilled [simplified]
        game_action_fulfilled [where describe = "announce ''You encountered ''",
          OF generate_fulfilled announce_rin])
  from click_then_settle [of playing_sys GenerateCharacterClicked GenerateCharacter
      "''Failed to generate character:''" "announce ''You encountered ''" True game_server id] o h
  show ?thesis by (auto simp: playing_sys_def)
qed


end
