(* ===== verification/GameContract.thy ===== *)
theory GameContract
  imports GameRequests "HOL-Library.Sublist"
begin

text \<open>
  The game screen of \<^verbatim>\<open>src/life-sim-frontend/src/components/GamePage.tsx\<close> against a
  server that keeps the interfaces of \<^verbatim>\<open>src/life-sim-frontend/src/api.ts\<close>.

  The screen checks nothing of what the server returns: it stores the game state and reads
  its properties when it renders, and it reads \<^verbatim>\<open>name\<close>, \<^verbatim>\<open>action\<close> or \<^verbatim>\<open>message\<close> of the
  result of an action. \<open>typed_sys\<close> is what the screen relies on: the game state on the page
  is \<^verbatim>\<open>null\<close> or a \<^verbatim>\<open>GameState\<close>, and so is every answer in flight that will be stored. The
  lemmas show that it is an invariant of the screen with its requests in flight when the
  server keeps the interfaces (\<open>keeps_interface\<close>), and that then no render and no handler
  throws.
\<close>

section \<open>What the screen relies on\<close>

definition typed_page :: "game_page \<Rightarrow> bool" where
  "typed_page s \<longleftrightarrow> gameState s = JNull \<or> is_GameState (gameState s)"

fun typed_pending :: "pending \<Rightarrow> bool" where
  "typed_pending (AwaitAction label describe r) =
     (case r of Inl e \<Rightarrow> True | Inr v \<Rightarrow> \<not> isl (describe v))"
| "typed_pending (AwaitReload r) = (case r of Inl e \<Rightarrow> True | Inr v \<Rightarrow> is_GameState v)"
| "typed_pending (AwaitLoad r) = (case r of Inl e \<Rightarrow> True | Inr v \<Rightarrow> is_GameState v)"

definition typed_sys :: "('p, 'w) game_sys \<Rightarrow> bool" where
  "typed_sys x \<longleftrightarrow> typed_page (board x) \<and> list_all typed_pending (waiting x)"

section \<open>The invariant\<close>

lemma announce_object:
  "is_object v \<Longrightarrow> announce pre v = Inr (JStr (pre @ to_string (opt_chain v ''name'') @ ''!''))"
  by (erule is_objectE) (simp add: announce_def)

lemma describe_typed:
  assumes "action_of s ev = Some (op, label, describe)" and "returns op v"
  shows "\<exists>msg. describe v = Inr msg"
  using assms
  by (elim action_ofE)
     (auto simp: announce_object is_Character_object is_Place_object is_GameObject_object
        get_prop_object)

lemma typed_page_renders:
  assumes "typed_page s"
  shows "\<exists>view. game_render s = Inr view"
proof (cases "loading s \<or> gameState s = JNull")
  case True
  then show ?thesis by (auto simp: game_render_def)
next
  case False
  with assms have "is_GameState (gameState s)" "\<not> loading s" by (auto simp: typed_page_def)
  from game_render_typed [OF this] show ?thesis by blast
qed

lemma typed_load_finish:
  assumes "typed_page s" and "case r of Inl e \<Rightarrow> True | Inr v \<Rightarrow> is_GameState v"
  shows "typed_page (fst (load_finish (r, c) s))"
  using assms by (cases r) (simp_all add: typed_page_def)

lemma typed_page_frame [simp]:
  "typed_page (s\<lparr>actionLoading := b\<rparr>) = typed_page s"
  "typed_page (s\<lparr>currentAction := m\<rparr>) = typed_page s"
  "typed_page (s\<lparr>loading := b\<rparr>) = typed_page s"
  by (simp_all add: typed_page_def)

lemma settles_typed:
  assumes "settles f x y" and "keeps_interface f" and "typed_sys x"
  shows "typed_sys y"
  using assms
proof (induction rule: settles.induct)
  case (action_fulfilled x ps label describe result qs msg r c')
  from keeps_interfaceD [OF action_fulfilled(4), of GetGameState "window x" _ c'] action_fulfilled(3)
  have "case r of Inl e \<Rightarrow> True | Inr v \<Rightarrow> is_GameState v"
    by (cases r) simp_all
  with action_fulfilled show ?case by (auto simp: typed_sys_def)
next
  case (reloaded x ps r qs)
  then show ?case
    by (cases r) (auto simp: typed_sys_def action_done_def typed_page_def)
next
  case (loaded x ps r qs)
  then show ?case
    by (cases r) (auto simp: typed_sys_def typed_page_def)
qed (auto simp: typed_sys_def action_failed_def)

lemma typed_sys_describes:
  assumes "typed_sys x" and "waiting x = ps @ AwaitAction label describe (Inr result) # qs"
  shows "\<exists>msg. describe result = Inr msg"
  using assms by (cases "describe result") (simp_all add: typed_sys_def)

lemma game_trans_typed:
  assumes "game_trans guarded f g x y" and "keeps_interface f" and "typed_sys x"
  shows "typed_sys y"
  using assms(1)
proof (cases rule: game_trans.cases)
  case (click ev op label describe r c')
  have "typed_pending (AwaitAction label describe r)"
  proof (cases r)
    case (Inr v)
    with click(6) keeps_interfaceD [OF assms(2), of op "window x" v c'] have "returns op v" by simp
    from describe_typed [OF click(5) this] Inr show ?thesis by auto
  qed simp
  with assms(3) show ?thesis unfolding click(1) by (simp add: typed_sys_def)
next
  case settle
  from settles_typed [OF this assms(2,3)] show ?thesis .
next
  case logout
  with assms(3) show ?thesis by (simp add: typed_sys_def)
qed

text \<open>
  C16 (contract_keeps_dashboard). Against a server that keeps the interfaces the screen never throws.
  In every state reachable from the mount, in any order of clicks and answers, the render
  yields a view, and every action that was fulfilled has a result its handler can read the
  message from.
\<close>

theorem contract_keeps_dashboard:
  assumes "keeps_interface f" and "game_reachable guarded f g (game_mounted f p c) x"
  shows "(\<exists>view. game_render (board x) = Inr view) \<and>
         (\<forall>ps label describe result qs.
            waiting x = ps @ AwaitAction label describe (Inr result) # qs \<longrightarrow>
            (\<exists>msg. describe result = Inr msg))"
proof -
  from assms(2) have "typed_sys x"
  proof (induction rule: game_reachable.induct)
    case game_start
    obtain r c' where r: "call f GetGameState c = (r, c')" by (cases "call f GetGameState c")
    with keeps_interfaceD [OF assms(1), of GetGameState c _ c'] show ?case
      by (cases r) (simp_all add: typed_sys_def game_mounted_def typed_page_def game_initial_def)
  next
    case (game_next x y)
    from game_trans_typed [OF game_next(2) assms(1) game_next(3)] show ?case .
  qed
  then show ?thesis
    using typed_sys_describes [of x] by (auto simp: typed_sys_def typed_page_renders)
qed

section \<open>A server that keeps the interfaces\<close>

lemma url_eq_iff: "b @ e = k \<longleftrightarrow> suffix e k \<and> b = take (length k - length e) k"
  by (auto simp: suffix_def)

lemma url_infix: "b @ p @ q = k \<Longrightarrow> sublist p k"
  by (auto simp: sublist_def)

lemma game_server_keeps_interface: "keeps_interface game_server"
  unfolding game_server_def
proof (rule static_server_keeps_interface)
  fix op :: api_op and b v
  assume a: "map_of [(''http://localhost:8000/api/game/state'', world_state),
      (''http://localhost:8000/api/game/generate-character'', rin)]
      (b @ fst (snd (rest_table op))) = Some v"
  have travel:
    "b @ ''/api/game/travel-to-place/'' @ q \<noteq> ''http://localhost:8000/api/game/state''"
    "b @ ''/api/game/travel-to-place/'' @ q \<noteq> ''http://localhost:8000/api/game/generate-character''"
    for q
    using url_infix [of b "''/api/game/travel-to-place/''" q "''http://localhost:8000/api/game/state''"]
      url_infix [of b "''/api/game/travel-to-place/''" q
        "''http://localhost:8000/api/game/generate-character''"]
    by (auto simp: sublist_Cons_right)
  show "returns op v"
  proof (cases op)
    case (TravelToPlace placeId)
    with a travel [of "to_string placeId"] show ?thesis by simp
  qed (use a is_GameState_world_state is_Character_rin in
      \<open>auto simp: url_eq_iff suffix_to_prefix split: if_splits\<close>)
qed

theorem contract_keeps_dashboard_witness:
  "keeps_interface game_server \<and>
   game_reachable False game_server id (game_mounted game_server () (client0 ()))
     (drain game_server (game_mounted game_server () (client0 ()))) \<and>
   board (drain game_server (game_mounted game_server () (client0 ()))) = playing \<and>
   (\<exists>view. game_render playing = Inr view)"
proof -
  have d: "drain game_server (game_mounted game_server () (client0 ())) =
      \<lparr>board = playing, waiting = [], mounted = True, owner = (), window = client0 ()\<rparr>"
    by (simp add: drain_next settle_next_def game_mounted_def reload_fulfilled [simplified]
        playing_def)
  from contract_keeps_dashboard [OF game_server_keeps_interface, of False id "()" "client0 ()"
      "drain game_server (game_mounted game_server () (client0 ()))"]
    drain_reachable [of False game_server id "game_mounted game_server () (client0 ())"]
    game_server_keeps_interface d
  show ?thesis by simp
qed

end
