(* ===== verification/GameRaces.thy ===== *)
theory GameRaces
  imports GameContract
begin

text \<open>
  The order in which answers arrive at the game screen of
  \<^verbatim>\<open>src/life-sim-frontend/src/components/GamePage.tsx\<close>.

  Every action ends with a reload of the game state, and the reload that arrives last is
  the one the page shows. When one request is in flight at a time (the screen with the
  travel buttons held back, \<open>game_trans True\<close>) the page at rest shows what the server
  holds. The screen as written lets a second travel request start while the first is in
  flight; then the reloads can arrive in the other order, and the page at rest shows a
  place the player has left.
\<close>

section \<open>Servers with a state\<close>

text \<open>
  A server whose answer to the request for the game state is \<open>view\<close> of its state and
  leaves the state alone (\<open>reads\<close>), and whose state is not changed by a request it answers
  with an error (\<open>failures_pure\<close>); a logout callback that neither sends nor logs
  (\<open>quiet\<close>). \<open>fresh\<close> says that the page shows what the server holds, as far as the answers
  in flight allow: at rest the game state on the page is the server's, unless a load of the
  game state has failed and was logged.
\<close>

definition reads :: "'w fetch \<Rightarrow> ('w \<Rightarrow> jsval) \<Rightarrow> bool" where
  "reads f view \<longleftrightarrow>
     (\<forall>c r c'. call f GetGameState c = (r, c') \<longrightarrow>
        net c' = net c \<and> (\<forall>v. r = Inr v \<longrightarrow> v = view (net c)))"

definition failures_pure :: "'w fetch \<Rightarrow> bool" where
  "failures_pure f \<longleftrightarrow> (\<forall>op c e c'. call f op c = (Inl e, c') \<longrightarrow> net c' = net c)"

definition quiet :: "('p \<times> 'w client \<Rightarrow> 'p \<times> 'w client) \<Rightarrow> bool" where
  "quiet g \<longleftrightarrow> (\<forall>p c. net (snd (g (p, c))) = net c \<and> console (snd (g (p, c))) = console c)"

definition load_failed :: "'w client \<Rightarrow> bool" where
  "load_failed c \<longleftrightarrow> ''Failed to load game state:'' \<in> fst ` set (console c)"

fun awaited :: "bool \<Rightarrow> jsval \<Rightarrow> pending \<Rightarrow> bool" where
  "awaited up_to_date current (AwaitAction label describe r) =
     (case r of Inl e \<Rightarrow> up_to_date | Inr v \<Rightarrow> \<not> isl (describe v))"
| "awaited up_to_date current (AwaitReload r) = (case r of Inl e \<Rightarrow> True | Inr v \<Rightarrow> v = current)"
| "awaited up_to_date current (AwaitLoad r) = (case r of Inl e \<Rightarrow> True | Inr v \<Rightarrow> v = current)"

definition up_to_date :: "('w \<Rightarrow> jsval) \<Rightarrow> ('p, 'w) game_sys \<Rightarrow> bool" where
  "up_to_date view x \<longleftrightarrow>
     gameState (board x) = view (net (window x)) \<or> load_failed (window x)"

definition fresh :: "('w \<Rightarrow> jsval) \<Rightarrow> ('p, 'w) game_sys \<Rightarrow> bool" where
  "fresh view x \<longleftrightarrow>
     (waiting x = [] \<longrightarrow> up_to_date view x) \<and>
     list_all (awaited (up_to_date view x) (view (net (window x)))) (waiting x)"

text \<open>
  For the closed instances: a server that keeps where the player is, answers the travel
  requests for two places and the request for the game state, and the screen of a player
  who is nowhere yet.
\<close>

datatype whereabouts = Nowhere | InForest | AtLake

definition lake :: jsval where
  "lake = JObj [(''id'', JStr ''p2''), (''name'', JStr ''Lake''),
     (''description'', JStr ''Still water''), (''created_at'', JStr ''2025-01-01T00:00:00'')]"

fun place_of :: "whereabouts \<Rightarrow> jsval" where
  "place_of Nowhere = JUndefined"
| "place_of InForest = forest"
| "place_of AtLake = lake"

definition state_at :: "whereabouts \<Rightarrow> jsval" where
  "state_at w = JObj
     [(''user_id'', JStr ''u1''), (''current_place'', place_of w), (''inventory'', JArr []),
      (''discovered_characters'', JArr []), (''discovered_places'', JArr [forest, lake]),
      (''action_history'', JArr []), (''last_updated'', JStr ''2025-01-01T00:00:00'')]"

definition travelled :: "whereabouts \<Rightarrow> jsval" where
  "travelled w = JObj
     [(''message'', JStr (''Traveled to '' @ to_string (opt_chain (place_of w) ''name''))),
      (''place'', place_of w)]"

definition travel_server :: "whereabouts fetch" where
  "travel_server = (\<lambda>w url options.
     if url = ''http://localhost:8000/api/game/state''
     then (Resolves \<lparr>ok = True, json = Inr (state_at w)\<rparr>, w)
     else if url = ''http://localhost:8000/api/game/travel-to-place/p1''
     then (Resolves \<lparr>ok = True, json = Inr (travelled InForest)\<rparr>, InForest)
     else if url = ''http://localhost:8000/api/game/travel-to-place/p2''
     then (Resolves \<lparr>ok = True, json = Inr (travelled AtLake)\<rparr>, AtLake)
     else (Resolves \<lparr>ok = False, json = Inr (JObj [(''detail'', JStr ''Not Found'')])\<rparr>, w))"

definition scene :: "game_page \<Rightarrow> pending list \<Rightarrow> whereabouts \<Rightarrow> (unit, whereabouts) game_sys" where
  "scene s ws w = \<lparr>board = s, waiting = ws, mounted = True, owner = (), window = client0 w\<rparr>"

definition arrived :: "(unit, whereabouts) game_sys" where
  "arrived = scene (game_initial\<lparr>gameState := state_at Nowhere, loading := False\<rparr>) [] Nowhere"

definition crossed :: "(unit, whereabouts) game_sys" where
  "crossed = scene (game_initial\<lparr>gameState := state_at InForest, loading := False,
       currentAction := JStr ''Traveled to Lake''\<rparr>) [] AtLake"

section \<open>Answers that arrive out of order\<close>

lemma travel_server_calls [simp]:
  "getGameState travel_server (client0 w) = (Inr (state_at w), client0 w)"
  "travelToPlace travel_server (JStr ''p1'') (client0 w) = (Inr (travelled InForest), client0 InForest)"
  "travelToPlace travel_server (JStr ''p2'') (client0 w) = (Inr (travelled AtLake), client0 AtLake)"
  by (simp_all add: travel_server_def getGameState_def travelToPlace_def eval_defs client0_def
      profile_def constructor_def getItem_def)

lemma travel_buttons:
  assumes "gameState s = state_at Nowhere" and "\<not> loading s"
  shows "offered s (TravelClicked (JStr ''p1''))" and "offered s (TravelClicked (JStr ''p2''))"
  using assms
  by (simp_all add: offered_def game_render_def optional_card_def listing_def place_card_def
      item_card_def character_card_def reading_def state_at_def forest_def lake_def)

lemma scene_click:
  assumes "gameState s = state_at Nowhere" and "\<not> loading s"
    and "(placeId, w') = (''p1'', InForest) \<or> (placeId, w') = (''p2'', AtLake)"
  shows "game_trans False travel_server g (scene s ws w)
           (scene (s\<lparr>actionLoading := True\<rparr>)
              (ws @ [AwaitAction ''Failed to travel:'' (\<lambda>result. get_prop result ''message'')
                 (Inr (travelled w'))]) w')"
  using game_trans.click [of "scene s ws w" "TravelClicked (JStr placeId)" False
      "TravelToPlace (JStr placeId)" "''Failed to travel:''" "\<lambda>result. get_prop result ''message''"
      travel_server "Inr (travelled w')" "client0 w'" g]
    assms travel_buttons [OF assms(1,2)]
  by (auto simp: scene_def)

lemma scene_travelled:
  "game_trans guarded travel_server g
     (scene s (ps @ AwaitAction label (\<lambda>result. get_prop result ''message'') (Inr (travelled w')) # qs) w)
     (scene (s\<lparr>currentAction := JStr (''Traveled to '' @ to_string (opt_chain (place_of w') ''name''))\<rparr>)
        (ps @ AwaitReload (Inr (state_at w)) # qs) w)"
  using settles.action_fulfilled [of "scene s (ps @ AwaitAction label (\<lambda>result. get_prop result ''message'')
      (Inr (travelled w')) # qs) w" ps label "\<lambda>result. get_prop result ''message''" "travelled w'" qs
      _ travel_server "Inr (state_at w)" "client0 w"]
  by (intro game_trans.settle) (simp add: scene_def travelled_def)

lemma scene_reloaded:
  "game_trans guarded travel_server g
     (scene s (ps @ AwaitReload (Inr st) # qs) w)
     (scene (s\<lparr>gameState := st, loading := False, actionLoading := False\<rparr>) (ps @ qs) w)"
  using settles.reloaded [of "scene s (ps @ AwaitReload (Inr st) # qs) w" ps "Inr st" qs travel_server]
  by (intro game_trans.settle) (simp add: scene_def action_done_def)

lemma race_run: "game_reachable False travel_server id arrived crossed"
proof -
  let ?m = "\<lambda>result. get_prop result ''message''"
  let ?s0 = "game_initial\<lparr>gameState := state_at Nowhere, loading := False\<rparr>"
  let ?forest = "AwaitReload (Inr (state_at InForest))"
  note step = game_reachable.game_next [where guarded = False and f = travel_server and g = id]
  have "game_reachable False travel_server id arrived arrived"
    by (rule game_reachable.game_start)
  from step [OF this [unfolded arrived_def] scene_click [where placeId = "''p1''" and w' = InForest]]
  have "game_reachable False travel_server id arrived
      (scene (?s0\<lparr>actionLoading := True\<rparr>) [AwaitAction ''Failed to travel:'' ?m (Inr (travelled InForest))] InForest)"
    by (simp add: arrived_def game_initial_def)
  from step [OF this scene_travelled [where ps = "[]", simplified]]
  have "game_reachable False travel_server id arrived
      (scene (?s0\<lparr>actionLoading := True, currentAction := JStr ''Traveled to Forest''\<rparr>) [?forest] InForest)"
    by (simp add: forest_def game_initial_def)
  from step [OF this scene_click [where placeId = "''p2''" and w' = AtLake]]
  have "game_reachable False travel_server id arrived
      (scene (?s0\<lparr>actionLoading := True, currentAction := JStr ''Traveled to Forest''\<rparr>)
         [?forest, AwaitAction ''Failed to travel:'' ?m (Inr (travelled AtLake))] AtLake)"
    by (simp add: game_initial_def)
  from step [OF this scene_travelled [where ps = "[?forest]" and qs = "[]", simplified]]
  have "game_reachable False travel_server id arrived
      (scene (?s0\<lparr>actionLoading := True, currentAction := JStr ''Traveled to Lake''\<rparr>)
         [?forest, AwaitReload (Inr (state_at AtLake))] AtLake)"
    by (simp add: lake_def game_initial_def)
  from step [OF this scene_reloaded [where ps = "[?forest]" and qs = "[]", simplified]]
  have "game_reachable False travel_server id arrived
      (scene (?s0\<lparr>actionLoading := False, currentAction := JStr ''Traveled to Lake'',
          gameState := state_at AtLake\<rparr>) [?forest] AtLake)"
    by (simp add: game_initial_def)
  from step [OF this scene_reloaded [where ps = "[]" and qs = "[]", simplified]]
  show ?thesis
    by (simp add: crossed_def game_initial_def)
qed

text \<open>
  C18 (travel_race_stale). Answers out of order leave a place on the page that the player has left.
  The travel buttons are not disabled while an action is pending. A player who travels to
  the forest and, before the reload has arrived, to the lake, is at the lake on the server;
  when the reload of the second journey arrives before that of the first, the page at rest
  shows the forest as the current location under the message of the journey to the lake.
\<close>

theorem travel_race_stale:
  "game_reachable False travel_server id arrived crossed \<and>
   waiting crossed = [] \<and> net (window crossed) = AtLake \<and>
   opt_chain (gameState (board crossed)) ''current_place'' = forest \<and>
   (\<exists>d. game_render (board crossed) = Inr (Dashboard d) \<and>
        map_option title (place_panel d) = Some (JStr ''Forest'') \<and>
        action_note d = Some (JStr ''Traveled to Lake''))"
  using race_run
    by (simp add: crossed_def scene_def client0_def constructor_def profile_def state_at_def
        forest_def game_render_def optional_card_def current_place_card_def listing_def
        place_card_def item_card_def character_card_def reading_def shown_def game_initial_def
        lake_def)

section \<open>One request at a time keeps the page up to date\<close>

lemma readsD:
  "reads f view \<Longrightarrow> call f GetGameState c = (r, c') \<Longrightarrow>
   net c' = net c \<and> (case r of Inl e \<Rightarrow> True | Inr v \<Rightarrow> v = view (net c))"
  unfolding reads_def by (cases r) auto

lemma load_failed_console_error [simp]:
  "load_failed (console_error label e c) \<longleftrightarrow> label = ''Failed to load game state:'' \<or> load_failed c"
  by (auto simp: load_failed_def console_error_def)

lemma up_to_date_frame [simp]:
  "up_to_date view (x\<lparr>waiting := ws\<rparr>) = up_to_date view x"
  "up_to_date view (x\<lparr>mounted := m\<rparr>) = up_to_date view x"
  "up_to_date view (x\<lparr>owner := p\<rparr>) = up_to_date view x"
  by (simp_all add: up_to_date_def)

lemma settles_fresh:
  assumes "settles f x y" and "reads f view" and "serialised x" and "fresh view x"
  shows "fresh view y"
  using assms(1)
proof (cases rule: settles.cases)
  case (action_rejected ps label describe e qs)
  from serialised_waiting [OF assms(3) action_rejected(2)] assms(4) action_rejected(2)
  show ?thesis unfolding action_rejected(1)
    by (auto simp: fresh_def up_to_date_def action_failed_def)
next
  case (action_threw ps label describe result qs e)
  from serialised_waiting [OF assms(3) action_threw(2)] assms(4) action_threw(2,3)
  show ?thesis by (simp add: fresh_def)
next
  case (action_fulfilled ps label describe result qs msg r c')
  from serialised_waiting [OF assms(3) action_fulfilled(2)] readsD [OF assms(2) action_fulfilled(4)]
  show ?thesis unfolding action_fulfilled(1) by (cases r) (simp_all add: fresh_def)
next
  case (reloaded ps r qs)
  from serialised_waiting [OF assms(3) reloaded(2)] assms(4) reloaded(2)
  show ?thesis unfolding reloaded(1)
    by (cases r) (simp_all add: fresh_def up_to_date_def action_done_def)
next
  case (loaded ps r qs)
  from serialised_waiting [OF assms(3) loaded(2)] assms(4) loaded(2)
  show ?thesis unfolding loaded(1)
    by (cases r) (simp_all add: fresh_def up_to_date_def)
qed

lemma game_trans_fresh:
  assumes "game_trans True f g x y" and "keeps_interface f" and "reads f view"
    and "failures_pure f" and "quiet g" and "serialised x" and "fresh view x"
  shows "fresh view y"
  using assms(1)
proof (cases rule: game_trans.cases)
  case (click ev op label describe r c')
  from offered_dashboard [OF click(3)] have "\<not> loading (board x)" ..
  from serialised_idle [OF assms(6) this] click(4) have w: "waiting x = []" by simp
  with assms(7) have u: "up_to_date view x" by (simp add: fresh_def)
  show ?thesis
  proof (cases r)
    case (Inl e)
    with click(6) assms(4) have "net c' = net (window x)"
      unfolding failures_pure_def by blast
    moreover from Inl click(6) have "console c' = console (window x)"
      using call_rejected_same_store [of f op "window x" e c'] by (simp add: same_store_def)
    ultimately show ?thesis
      using u w Inl unfolding click(1) by (simp add: fresh_def up_to_date_def load_failed_def)
  next
    case (Inr v)
    with click(6) keeps_interfaceD [OF assms(2), of op "window x" v c'] have "returns op v"
      by simp
    from describe_typed [OF click(5) this] w Inr show ?thesis
      unfolding click(1) by (auto simp: fresh_def)
  qed
next
  case settle
  from settles_fresh [OF this assms(3,6,7)] show ?thesis .
next
  case logout
  with assms(5,7) show ?thesis
    by (simp add: fresh_def up_to_date_def load_failed_def quiet_def)
qed

text \<open>
  C19 (guarded_screen_fresh). One request at a time keeps the page up to date. Against a server
  that keeps the interfaces, answers the game state with a view of what it holds, and
  changes nothing when it answers with an error, the screen whose travel buttons are held
  back shows, whenever nothing is in flight, the game state the server holds, unless a
  load of the game state has failed and was logged.
\<close>

theorem guarded_screen_fresh:
  assumes "keeps_interface f" and "reads f view" and "failures_pure f" and "quiet g"
    and "game_reachable True f g (game_mounted f p c) x" and "waiting x = []"
  shows "gameState (board x) = view (net (window x)) \<or> load_failed (window x)"
proof -
  from assms(5) have "serialised x \<and> fresh view x"
  proof (induction rule: game_reachable.induct)
    case game_start
    obtain r c' where r: "call f GetGameState c = (r, c')" by (cases "call f GetGameState c")
    from readsD [OF assms(2) r] r show ?case
      by (cases r) (simp_all add: game_mounted_def fresh_def serialised_def game_initial_def)
  next
    case (game_next x y)
    then show ?case
      using game_trans_serialised [of f g x y] game_trans_fresh [OF _ assms(1-4), of x y] by blast
  qed
  with assms(6) show ?thesis by (simp add: fresh_def up_to_date_def)
qed

section \<open>The travel server\<close>

lemma is_Place_lake: "is_Place lake"
  by (simp add: lake_def is_Place_def property_defs)

lemma is_Place_place_of: "w \<noteq> Nowhere \<Longrightarrow> is_Place (place_of w)"
  by (cases w) (simp_all add: is_Place_forest is_Place_lake)

lemma is_GameState_state_at: "is_GameState (state_at w)"
  using is_Place_place_of [of w] is_Place_forest is_Place_lake
  by (cases w) (simp_all add: state_at_def is_GameState_def property_defs)

lemma returns_travelled: "w \<noteq> Nowhere \<Longrightarrow> returns (TravelToPlace placeId) (travelled w)"
  using is_Place_place_of [of w] by (simp add: travelled_def property_defs)

lemma travel_server_failures_pure: "failures_pure travel_server"
  unfolding failures_pure_def
proof (intro allI impI)
  fix op :: api_op and c :: "whereabouts client" and e c'
  assume "call travel_server op c = (Inl e, c')"
  then show "net c' = net c"
    by (cases op)
       (auto simp: api_defs register_def login_def store_access_token_def request_unfold
          travel_server_def settle_def travelled_def state_at_def
          split: if_splits sum.splits)
qed

lemma travel_server_reads: "reads travel_server state_at"
  unfolding reads_def
  by (auto simp: getGameState_def request_unfold travel_server_def no_options_def
      url_eq_iff suffix_to_prefix settle_def)

lemma travel_server_keeps_interface: "keeps_interface travel_server"
  unfolding keeps_interface_def
proof (intro allI impI)
  fix op :: api_op and c :: "whereabouts client" and v c'
  assume a: "call travel_server op c = (Inr v, c')"
  have travel: "API_URL c @ ''/api/game/travel-to-place/'' @ q \<noteq> ''http://localhost:8000/api/game/state''"
    for q
    using url_infix [of "API_URL c" "''/api/game/travel-to-place/''" q
        "''http://localhost:8000/api/game/state''"]
    by (auto simp: sublist_Cons_right)
  show "returns op v"
  proof (cases op)
    case (TravelToPlace placeId)
    with a travel [of "to_string placeId"] returns_travelled [of _ placeId] show ?thesis
      by (auto simp: travelToPlace_def request_unfold travel_server_def settle_def post_def
          split: if_splits)
  qed (use a is_GameState_state_at in
      \<open>auto simp: api_defs register_def login_def store_access_token_def request_unfold
         travel_server_def settle_def url_eq_iff suffix_to_prefix split: if_splits sum.splits\<close>)
qed

lemma quiet_id: "quiet id"
  by (simp add: quiet_def)

lemma mounted_drained:
  "drain travel_server (game_mounted travel_server () (client0 Nowhere)) = arrived"
  by (simp add: drain_next settle_next_def game_mounted_def arrived_def scene_def)

theorem guarded_screen_fresh_witness:
  "keeps_interface travel_server \<and> reads travel_server state_at \<and> failures_pure travel_server \<and>
   quiet (id :: unit \<times> whereabouts client \<Rightarrow> unit \<times> whereabouts client) \<and>
   game_reachable True travel_server id (game_mounted travel_server () (client0 Nowhere)) arrived \<and>
   waiting arrived = [] \<and> gameState (board arrived) = state_at (net (window arrived))"
  using guarded_screen_fresh [OF travel_server_keeps_interface travel_server_reads
      travel_server_failures_pure quiet_id, of "()" "client0 Nowhere" arrived]
    drain_reachable [of True travel_server id "game_mounted travel_server () (client0 Nowhere)"]
    travel_server_keeps_interface travel_server_reads travel_server_failures_pure
  by (simp add: mounted_drained quiet_id)
     (simp add: arrived_def scene_def client0_def constructor_def profile_def load_failed_def)

end
