(* ===== verification/CreationRequests.thy ===== *)
theory CreationRequests
  imports CharacterCreation
begin

text \<open>
  The creation screen of \<^verbatim>\<open>src/life-sim-frontend/src/components/CharacterCreation.tsx\<close>
  with its requests in flight.

  \<open>handlePreview\<close> and \<open>handleCreate\<close> of \<open>CharacterCreation\<close> run from the click to the end of
  their \<^verbatim>\<open>finally\<close> block. Here they are split at their \<^verbatim>\<open>await\<close>: a click sends the request
  with the values the form holds and disables both buttons; the fields stay editable; the
  answer, when it arrives, updates the form as it is then. The lemmas show that one request
  is in flight at most, that a click followed by its answer is the handler of
  \<open>CharacterCreation\<close>, and that edits made in between are kept, so that the preview can
  show a character that is not the one of the form.
\<close>

section \<open>The screen with its request in flight\<close>

datatype asked = AskedPreview "js_error + jsval" | AskedCreate "js_error + jsval"

record ('p, 'w) creation_sys =
  sheet :: creation_page
  outstanding :: "asked list"
  caller :: 'p
  pane :: "'w client"

definition creation_sys_initial :: "'p \<Rightarrow> 'w client \<Rightarrow> ('p, 'w) creation_sys" where
  "creation_sys_initial p c = \<lparr>sheet = creation_initial, outstanding = [], caller = p, pane = c\<rparr>"

fun creation_edit :: "creation_event \<Rightarrow> creation_page \<Rightarrow> creation_page" where
  "creation_edit (TypeName v) s = setName v s"
| "creation_edit (Slide key val) s = handleAttributeChange key val s"
| "creation_edit (Choose key v) s = setCharacteristics key v s"
| "creation_edit ClickPreview s = s"
| "creation_edit ClickCreate s = s"

fun is_click :: "creation_event \<Rightarrow> bool" where
  "is_click ClickPreview = True"
| "is_click ClickCreate = True"
| "is_click ev = False"

inductive creation_trans ::
  "'w fetch \<Rightarrow> ('p \<Rightarrow> 'p) \<Rightarrow> ('p, 'w) creation_sys \<Rightarrow> ('p, 'w) creation_sys \<Rightarrow> bool"
  for f :: "'w fetch" and onCharacterCreated :: "'p \<Rightarrow> 'p" where
  edited:
    "\<not> is_click ev \<Longrightarrow>
     creation_trans f onCharacterCreated x (x\<lparr>sheet := creation_edit ev (sheet x)\<rparr>)"
| ask_preview:
    "\<not> buttons_disabled (sheet x) \<Longrightarrow> call f (preview_op (sheet x)) (pane x) = (r, c') \<Longrightarrow>
     creation_trans f onCharacterCreated x
       (x\<lparr>sheet := request_start (sheet x), outstanding := outstanding x @ [AskedPreview r],
          pane := c'\<rparr>)"
| ask_create:
    "\<not> buttons_disabled (sheet x) \<Longrightarrow> call f (create_op (sheet x)) (pane x) = (r, c') \<Longrightarrow>
     creation_trans f onCharacterCreated x
       (x\<lparr>sheet := request_start (sheet x), outstanding := outstanding x @ [AskedCreate r],
          pane := c'\<rparr>)"
| preview_answered:
    "outstanding x = ps @ AskedPreview r # qs \<Longrightarrow>
     creation_trans f onCharacterCreated x
       (x\<lparr>sheet := fst (preview_finish (r, pane x) (sheet x)), outstanding := ps @ qs,
          pane := snd (preview_finish (r, pane x) (sheet x))\<rparr>)"
| create_answered:
    "outstanding x = ps @ AskedCreate r # qs \<Longrightarrow>
     creation_trans f onCharacterCreated x
       (x\<lparr>sheet := fst (create_finish onCharacterCreated (r, pane x) (sheet x, caller x)),
          outstanding := ps @ qs,
          caller := fst (snd (create_finish onCharacterCreated (r, pane x) (sheet x, caller x))),
          pane := snd (snd (create_finish onCharacterCreated (r, pane x) (sheet x, caller x)))\<rparr>)"

inductive creation_reachable ::
  "'w fetch \<Rightarrow> ('p \<Rightarrow> 'p) \<Rightarrow> ('p, 'w) creation_sys \<Rightarrow> ('p, 'w) creation_sys \<Rightarrow> bool"
  for f :: "'w fetch" and onCharacterCreated :: "'p \<Rightarrow> 'p" and x0 :: "('p, 'w) creation_sys" where
  creation_start: "creation_reachable f onCharacterCreated x0 x0"
| creation_next:
    "creation_reachable f onCharacterCreated x0 x \<Longrightarrow> creation_trans f onCharacterCreated x y \<Longrightarrow>
     creation_reachable f onCharacterCreated x0 y"

text \<open>One request at a time: a request is in flight exactly while the loading flag is set.\<close>

definition creation_inv :: "('p, 'w) creation_sys \<Rightarrow> bool" where
  "creation_inv x \<longleftrightarrow> length (outstanding x) \<le> 1 \<and> (outstanding x \<noteq> [] \<longleftrightarrow> loading (sheet x))"

text \<open>
  For the closed instances: the form with the name Rin, and the same form after the preview
  button was pressed, the name was changed to Ren and the answer has arrived.
\<close>

definition named_sys :: "(nat, unit) creation_sys" where
  "named_sys = \<lparr>sheet = named_form, outstanding = [], caller = 0, pane = client0 ()\<rparr>"

definition renamed :: "(nat, unit) creation_sys" where
  "renamed = \<lparr>sheet = named_form\<lparr>name := ''Ren'', preview := rin\<rparr>, outstanding = [],
     caller = 0, pane = client0 ()\<rparr>"

section \<open>One request at a time\<close>

lemma creation_edit_loading [simp]: "loading (creation_edit ev s) = loading s"
  by (cases ev) (simp_all add: setName_def handleAttributeChange_def setCharacteristics_def)

lemma creation_step_edit:
  "\<not> is_click ev \<Longrightarrow> creation_step f g ev (s, p, c) = (creation_edit ev s, p, c)"
  by (cases ev) simp_all

lemma creation_inv_outstanding:
  assumes "creation_inv x" and "outstanding x = ps @ a # qs"
  shows "ps = [] \<and> qs = [] \<and> loading (sheet x)"
  using assms by (cases ps) (auto simp: creation_inv_def)

lemma finish_loading [simp]:
  "\<not> loading (fst (preview_finish r s))" "\<not> loading (fst (create_finish g r (s, p)))"
  by (cases r; cases "fst r"; simp add: preview_finish_def create_finish_def)+

lemma creation_trans_inv:
  assumes "creation_trans f g x y" and "creation_inv x"
  shows "creation_inv y"
  using assms(1)
proof (cases rule: creation_trans.cases)
  case (edited ev)
  with assms(2) show ?thesis by (simp add: creation_inv_def)
next
  case (ask_preview r c')
  with assms(2) show ?thesis
    by (auto simp: creation_inv_def buttons_disabled_def request_start_def)
next
  case (ask_create r c')
  with assms(2) show ?thesis
    by (auto simp: creation_inv_def buttons_disabled_def request_start_def)
next
  case (preview_answered ps r qs)
  from creation_inv_outstanding [OF assms(2) preview_answered(2)] show ?thesis
    unfolding preview_answered(1) by (simp add: creation_inv_def)
next
  case (create_answered ps r qs)
  from creation_inv_outstanding [OF assms(2) create_answered(2)] show ?thesis
    unfolding create_answered(1) by (simp add: creation_inv_def)
qed

text \<open>
  C33 (creation_serialised). In every state the creation screen reaches from its mount, by
  edits, clicks on the buttons that are enabled and answers in any order, at most one request
  is in flight, one is in flight exactly while \<open>loading\<close> is set, and both buttons are disabled
  while it is.
\<close>

theorem creation_serialised:
  assumes "creation_reachable f g (creation_sys_initial p c) x"
  shows "length (outstanding x) \<le> 1 \<and> (outstanding x \<noteq> [] \<longleftrightarrow> loading (sheet x)) \<and>
         (outstanding x \<noteq> [] \<longrightarrow> buttons_disabled (sheet x))"
proof -
  from assms have "creation_inv x"
  proof (induction rule: creation_reachable.induct)
    case creation_start
    show ?case by (simp add: creation_inv_def creation_sys_initial_def creation_initial_def)
  next
    case (creation_next x y)
    from creation_trans_inv [OF creation_next(2,3)] show ?case .
  qed
  then show ?thesis by (auto simp: creation_inv_def buttons_disabled_def)
qed

section \<open>The handlers as runs, and edits while a request is in flight\<close>

lemma creation_reachable_step:
  "creation_trans f g x y \<Longrightarrow> creation_reachable f g x y"
  by (rule creation_reachable.creation_next [OF creation_reachable.creation_start])

lemma creation_reachable_trans:
  "creation_reachable f g y z \<Longrightarrow> creation_reachable f g x y \<Longrightarrow> creation_reachable f g x z"
  by (induction rule: creation_reachable.induct) (auto intro: creation_reachable.creation_next)

text \<open>
  A click on Preview with the edits that follow it, before the answer arrives: the request
  carries the values of the form at the click.
\<close>

lemma preview_in_flight:
  assumes "outstanding x = []" and "\<not> buttons_disabled (sheet x)" and "list_all (\<lambda>ev. \<not> is_click ev) evs"
  shows "creation_reachable f g x
           \<lparr>sheet = fold creation_edit evs (request_start (sheet x)),
            outstanding = [AskedPreview (fst (call f (preview_op (sheet x)) (pane x)))],
            caller = caller x, pane = snd (call f (preview_op (sheet x)) (pane x))\<rparr>"
  using assms(3)
proof (induction evs rule: rev_induct)
  case Nil
  from creation_trans.ask_preview [OF assms(2), of f "fst (call f (preview_op (sheet x)) (pane x))"
      "snd (call f (preview_op (sheet x)) (pane x))" g] assms(1)
  show ?case by (cases x) (auto dest: creation_reachable_step)
next
  case (snoc ev evs)
  let ?y = "\<lparr>sheet = fold creation_edit evs (request_start (sheet x)),
      outstanding = [AskedPreview (fst (call f (preview_op (sheet x)) (pane x)))],
      caller = caller x, pane = snd (call f (preview_op (sheet x)) (pane x))\<rparr>"
  from snoc have "creation_reachable f g x ?y" "\<not> is_click ev" by simp_all
  from creation_reachable.creation_next [OF this(1) creation_trans.edited [OF this(2)]]
  show ?case by simp
qed

text \<open>
  C34 (edits_in_flight_kept). The fields are not disabled while a request is in flight
  (only the two buttons are). When the answer of a preview arrives after edits, the form
  keeps the edits and shows the preview of the values it had at the click; with no edit in
  between the run is \<open>handlePreview\<close> of \<open>CharacterCreation\<close>. In the closed instance the name
  field reads Ren under a preview of Rin.
\<close>

theorem edits_in_flight_kept:
  assumes "outstanding x = []" and "\<not> buttons_disabled (sheet x)"
    and "list_all (\<lambda>ev. \<not> is_click ev) evs"
    and "call f (preview_op (sheet x)) (pane x) = (r, c')"
  shows "creation_reachable f g x
           \<lparr>sheet = fst (preview_finish (r, c') (fold creation_edit evs (request_start (sheet x)))),
            outstanding = [], caller = caller x,
            pane = snd (preview_finish (r, c') (fold creation_edit evs (request_start (sheet x))))\<rparr> \<and>
         preview_finish (r, c') (fold creation_edit [] (request_start (sheet x))) =
           handlePreview f (sheet x, pane x)"
proof
  let ?y = "\<lparr>sheet = fold creation_edit evs (request_start (sheet x)),
      outstanding = [AskedPreview r], caller = caller x, pane = c'\<rparr>"
  from preview_in_flight [OF assms(1-3), of f g] assms(4) have "creation_reachable f g x ?y"
    by simp
  moreover have "creation_trans f g ?y
      (?y\<lparr>sheet := fst (preview_finish (r, pane ?y) (sheet ?y)), outstanding := [] @ [],
          pane := snd (preview_finish (r, pane ?y) (sheet ?y))\<rparr>)"
    by (rule creation_trans.preview_answered) simp
  ultimately show "creation_reachable f g x
      \<lparr>sheet = fst (preview_finish (r, c') (fold creation_edit evs (request_start (sheet x)))),
       outstanding = [], caller = caller x,
       pane = snd (preview_finish (r, c') (fold creation_edit evs (request_start (sheet x))))\<rparr>"
    by (auto dest: creation_reachable.creation_next)
  show "preview_finish (r, c') (fold creation_edit [] (request_start (sheet x))) =
      handlePreview f (sheet x, pane x)"
    using assms(2,4) by (simp add: handlePreview_def buttons_disabled_def)
qed

text \<open>A click on Create followed by its answer is \<open>handleCreate\<close> of \<open>CharacterCreation\<close>.\<close>

lemma create_in_flight:
  assumes "outstanding x = []" and "\<not> buttons_disabled (sheet x)"
  shows "creation_reachable f g x
           \<lparr>sheet = fst (handleCreate f g (sheet x, caller x, pane x)), outstanding = [],
            caller = fst (snd (handleCreate f g (sheet x, caller x, pane x))),
            pane = snd (snd (handleCreate f g (sheet x, caller x, pane x)))\<rparr>"
proof -
  obtain r c' where call: "call f (create_op (sheet x)) (pane x) = (r, c')"
    by (cases "call f (create_op (sheet x)) (pane x)")
  let ?y = "\<lparr>sheet = request_start (sheet x), outstanding = [AskedCreate r], caller = caller x,
      pane = c'\<rparr>"
  from creation_trans.ask_create [OF assms(2) call, of g] assms(1)
  have "creation_reachable f g x ?y"
    by (cases x) (auto dest: creation_reachable_step)
  moreover have "creation_trans f g ?y
      (?y\<lparr>sheet := fst (create_finish g (r, pane ?y) (sheet ?y, caller ?y)), outstanding := [] @ [],
          caller := fst (snd (create_finish g (r, pane ?y) (sheet ?y, caller ?y))),
          pane := snd (snd (create_finish g (r, pane ?y) (sheet ?y, caller ?y)))\<rparr>)"
    by (rule creation_trans.create_answered) simp
  ultimately show ?thesis
    using assms(2) call
    by (auto dest: creation_reachable.creation_next simp: handleCreate_def buttons_disabled_def)
qed

theorem edits_in_flight_kept_witness:
  "outstanding named_sys = [] \<and> \<not> buttons_disabled (sheet named_sys) \<and>
   list_all (\<lambda>ev. \<not> is_click ev) [TypeName ''Ren''] \<and>
   call creation_server (preview_op named_form) (client0 ()) = (Inr rin, client0 ()) \<and>
   creation_reachable creation_server Suc named_sys renamed \<and>
   (\<exists>v pv. creation_render (sheet renamed) = Inr v \<and> name_input v = ''Ren'' \<and>
           panel v = Some pv \<and> heading pv = JStr ''Rin'')"
  using edits_in_flight_kept [of named_sys "[TypeName ''Ren'']" creation_server "Inr rin" "client0 ()" Suc]
    named_form_preview
  by (simp add: named_sys_def renamed_def buttons_disabled_def preview_finish_def request_start_def
      setName_def)
     (simp add: named_form_def creation_initial_def creation_render_def preview_panel_def rin_def)

theorem creation_serialised_witness:
  "creation_reachable creation_server Suc (creation_sys_initial 0 (client0 ())) named_sys \<and>
   outstanding named_sys = [] \<and> \<not> loading (sheet named_sys)"
proof -
  from creation_trans.edited [of "TypeName ''Rin''" creation_server Suc
      "creation_sys_initial 0 (client0 ())"]
  have r: "creation_reachable creation_server Suc (creation_sys_initial 0 (client0 ())) named_sys"
    by (auto dest!: creation_reachable_step
        simp: creation_sys_initial_def named_sys_def named_form_def setName_def)
  have "outstanding named_sys = []" by (simp add: named_sys_def)
  with creation_serialised [OF r] r show ?thesis
    by simp
qed

end
