(* ===== verification/Spec2Isabelle.thy ===== *)
theory Spec2Isabelle
  imports Site GameRaces CreationRequests
begin

text \<open>
  \<^bold>\<open>A verification development for the life-sim browser client.\<close>

  \<^bold>\<open>The program.\<close> The sources under \<^verbatim>\<open>src/life-sim-frontend/src\<close> are a React single-page
  client of a REST server that is not part of the repository.

    \<^item> \<^verbatim>\<open>api.ts\<close> exports the interfaces of the values exchanged with the server and one
      object \<^verbatim>\<open>api\<close> of class \<^verbatim>\<open>ApiService\<close>. The object caches the bearer token, mirrors
      it in \<^verbatim>\<open>localStorage\<close> under the key \<^verbatim>\<open>token\<close>, and sends every request through
      one private method \<^verbatim>\<open>request\<close>, which adds the headers, calls \<^verbatim>\<open>fetch\<close> and turns a
      response that is not ok into a rejected promise.
    \<^item> \<^verbatim>\<open>App.tsx\<close> holds three flags (\<^verbatim>\<open>isAuthenticated\<close>, \<^verbatim>\<open>hasCharacter\<close>, \<^verbatim>\<open>loading\<close>),
      verifies a stored token once after mounting (\<^verbatim>\<open>checkAuth\<close>) and renders one of four
      screens from the flags. The screens change the flags through three callbacks.
    \<^item> \<^verbatim>\<open>components/AuthPage.tsx\<close> is the login and registration form;
      \<^verbatim>\<open>components/CharacterCreation.tsx\<close> is the form that creates the character, and
      \<^verbatim>\<open>components/GamePage.tsx\<close> the dashboard of the game: it loads the game state when
      it is mounted, and each of its actions calls the server and loads the game state
      again.

  \<^bold>\<open>The theories\<close>, in import order.

    \<^descr>[\<open>LifeSim_Prelude\<close>] The collections of facts (\<open>js_defs\<close>, \<open>api_defs\<close>, \<open>frame\<close>,
      \<open>view_defs\<close>) and the type of a settled promise: an asynchronous function of the
      sources is a function from the state before the call to a pair of an outcome
      \<open>'e + 'a\<close> (\<open>Inl\<close> a rejection or a throw, \<open>Inr\<close> the value) and the state after.
    \<^descr>[\<open>JsValue\<close>] The values the sources handle untyped at run time (\<open>jsval\<close>: JSON and
      \<^verbatim>\<open>undefined\<close>), the errors they raise (\<open>js_error\<close>) and the built-ins their control
      flow depends on: truthiness, \<^verbatim>\<open>||\<close>, string conversion in a template, property
      access (which throws on \<^verbatim>\<open>null\<close> and \<^verbatim>\<open>undefined\<close>) and optional chaining.
    \<^descr>[\<open>ApiService\<close>] \<^verbatim>\<open>api.ts\<close>, lines 1 and 68 to 186. The record \<open>client\<close> is the
      browser state the class reads and writes: the field \<open>token\<close>, \<open>localStorage\<close>, the
      build-time variable \<open>VITE_API_URL\<close>, the console, and the world behind \<^verbatim>\<open>fetch\<close>
      (\<open>net\<close>, of an arbitrary type). \<^verbatim>\<open>fetch\<close> itself is a parameter \<open>f\<close> of every
      operation, so each lemma holds for every server and every network failure. One
      definition per method, under the method's name: \<open>constructor\<close>, \<open>setToken\<close>,
      \<open>clearToken\<close>, \<open>request\<close> (with \<open>request_headers\<close> for lines 86 to 93 and \<open>settle\<close>
      for lines 100 to 105), and the eleven endpoint methods. \<open>api_op\<close> and \<open>call\<close> are
      the interface the views use: a datatype of the endpoint methods and its
      interpretation. The lemmas show: the cache and the store agree after every sequence
      of calls (\<open>token_coherent\<close>); only \<open>register\<close> and \<open>login\<close> write them, and only
      when fulfilled; each method sends exactly one request, with the verb, path and
      body of the endpoint table (\<open>rest_table\<close>, from the specification) and with the
      authorization header present exactly when the cached token is truthy; a response
      that is not ok always rejects, with the message the specification gives when the
      body is as the server contract says, and with what the code does otherwise.
    \<^descr>[\<open>ApiTypes\<close>] \<^verbatim>\<open>api.ts\<close>, lines 3 to 66: each interface as an executable predicate
      on \<open>jsval\<close>, since the interfaces are erased at run time and nothing checks them.
      \<open>returns\<close> is the return type each method declares, and \<open>keeps_interface f\<close> says
      that the server \<open>f\<close> answers every call with a value of that type.
    \<^descr>[\<open>App\<close>] \<^verbatim>\<open>App.tsx\<close>. The record \<open>app_state\<close> is the three \<^verbatim>\<open>useState\<close> cells;
      \<open>checkAuth\<close> (with \<open>checkAuth_try\<close> for the \<^verbatim>\<open>try\<close> block, whose state updates
      before a throw are kept) and the three callbacks are functions on it and on the
      client; \<open>app_render\<close> is the choice of the screen. \<open>app_trans\<close> is the step relation
      of the whole application seen from \<open>App\<close>: mounting, and the events by which a
      screen reaches the API or a callback. The lemmas give the result of start-up on
      each path, the invariants of the reachable states, and that \<open>app_trans\<close> refines
      the screen machine of the specification (\<open>spec_transition\<close>).
    \<^descr>[\<open>AuthPage\<close>] \<^verbatim>\<open>components/AuthPage.tsx\<close>. The record \<open>auth_page\<close> is the six
      \<^verbatim>\<open>useState\<close> cells, \<open>auth_render\<close> what the JSX shows of them, \<open>handleSubmit\<close> the
      handler as one step, and \<open>auth_trans\<close> the same handler in two steps with the
      request in flight between them, so that events arriving while the promise is
      pending are part of the model. The lemmas show both outcomes of a submission, that
      only a submission reaches the network, that at most one request is in flight, and
      that the two granularities agree.
    \<^descr>[\<open>CharacterCreation\<close>] \<^verbatim>\<open>components/CharacterCreation.tsx\<close>. The record
      \<open>creation_page\<close> is the five \<^verbatim>\<open>useState\<close> cells; \<open>handleAttributeChange\<close>,
      \<open>handlePreview\<close> and \<open>handleCreate\<close> are the handlers; \<open>creation_render\<close> is the JSX,
      a partial function because the preview panel reads properties of the server's
      answer; \<open>creation_step\<close> dispatches the events of the screen. \<open>ui_event\<close> and
      \<open>form_valid\<close> state the convention of the rendered controls (sliders from 1 to 10,
      select boxes with fixed items). The lemmas show the outcome of the handlers on each
      branch, that failures are only logged, what is sent, that the convention is kept by
      the controls and not by the code, and when the preview renders.
    \<^descr>[\<open>CreationRequests\<close>] The same screen with \<open>handlePreview\<close> and \<open>handleCreate\<close> split
      at their \<^verbatim>\<open>await\<close>: \<open>creation_trans\<close> has the edits, the clicks on the enabled buttons
      and the arrival of an answer as steps. The lemmas show that one request is in
      flight at most and exactly while \<open>loading\<close> is set, that a click followed by its
      answer is the handler of \<open>CharacterCreation\<close>, and that edits made in between are
      kept, so that the preview can be that of values the form no longer holds.
    \<^descr>[\<open>GamePage\<close>] \<^verbatim>\<open>components/GamePage.tsx\<close>. The record \<open>game_page\<close> is the four
      \<^verbatim>\<open>useState\<close> cells; \<open>loadGameState\<close> and the five action handlers are functions on
      the page and the client, all five of one shape (\<open>game_action\<close>: the call, the
      message read from the result, the reload, the log on a failure). \<open>game_render\<close> is
      the JSX from line 99 on, a partial function to the three views, the dashboard with
      its cards (\<open>player_card\<close>, \<open>current_place_card\<close>, \<open>item_card\<close>, \<open>character_card\<close>,
      \<open>place_card\<close>); \<open>offered\<close> are the controls the rendered view has, and \<open>game_step\<close>
      dispatches a click. The lemmas show the outcome of an action on each branch, what
      it sends, that every \<^verbatim>\<open>GameState\<close> of the interface renders and how, and that the
      screen of a failed first load offers nothing.
    \<^descr>[\<open>GameRequests\<close>] The same screen with its handlers split at their \<^verbatim>\<open>await\<close>s.
      \<open>pending\<close> is a suspended handler, \<open>settles\<close> the steps in which an answer arrives
      (in any order), \<open>game_trans guarded\<close> these with the clicks and the logout; with
      \<open>guarded\<close> false it is the screen as written, with \<open>guarded\<close> true the screen whose
      travel buttons are disabled like the generate buttons. \<open>settle_next\<close> delivers the
      oldest answer and \<open>drain\<close> all of them. The lemmas show that the guarded screen has
      one request in flight at most, that settling is well-founded and \<open>drain\<close> ends at
      rest, and that a click followed by \<open>drain\<close> is the handler of \<open>GamePage\<close>.
    \<^descr>[\<open>GameContract\<close>] The invariant of the screen against a server that keeps the
      interfaces (\<open>typed_sys\<close>): then no render and no handler throws, in any order of
      clicks and answers.
    \<^descr>[\<open>GameRaces\<close>] The order of answers. \<open>fresh\<close> relates the page to the state of the
      server. The lemmas show that the guarded screen at rest shows what the server
      holds, and give the run of the screen as written in which two reloads arrive in
      the other order and the page shows a place the player has left.
    \<^descr>[\<open>Site\<close>] \<^verbatim>\<open>App.tsx\<close>, lines 50 to 66, with the three screens: the whole client.
      \<open>page\<close> is the component \<open>App\<close> returns with its state; \<open>mount\<close> gives a page its
      initial state and runs its effect; \<open>site_step\<close> hands an event to the mounted
      page with the callback \<open>App\<close> passes (\<open>handleAuthSuccess\<close>,
      \<open>handleCharacterCreated\<close>, \<open>handleLogout\<close>) and mounts the page of the new screen
      when the screen has changed. The lemmas show that each handler of a page is one
      or two steps of \<open>app_trans\<close>, that every run of the site is a run of \<open>app_trans\<close>
      from start-up, so that the invariants of \<open>App\<close> hold of the site, and that a
      change of the screen discards the state of the page.
    \<^descr>[\<open>Spec2Isabelle\<close>] This theory: a logout with a request in flight, start-up
      against a server that keeps the interfaces, and whole sessions against fixed
      servers.

  \<^bold>\<open>Choices and bounds.\<close>

    \<^item> Rendering is synchronous in the sources; the models are total functions whose
      result is the view or the error thrown. No definition needs fuel: the recursion
      is structural, on JSON values and on lists of events, or has a termination
      proof: the digits of a number (\<open>show_nat\<close>) and the delivery of the answers in
      flight (\<open>drain\<close>, by the measure \<open>debt\<close>: an action counts two, a load one).
    \<^item> A promise is modelled settled: a handler runs from its call to the end of its
      \<^verbatim>\<open>finally\<close> block as one function. Where the interleaving with other events
      matters (the disabled submit button, the buttons of the creation screen and of
      the game screen), the handler is split at its \<^verbatim>\<open>await\<close>s into steps of an inductive relation. The server
      has answered when the request was sent; the answer arrives in a later step, in any
      order with the other answers. A promise that never settles is a state of that
      relation with a request in flight and no further step for it.
    \<^item> A component that is unmounted keeps its suspended handlers: their state updates
      are lost, their requests and log lines are not. The model keeps the page record
      after the logout; nothing is rendered from it.
    \<^item> \<^verbatim>\<open>!==\<close> on the \<^verbatim>\<open>id\<close>s of places is inequality of values, which is what it is on
      strings and numbers; a \<^verbatim>\<open>length\<close> property that is neither a number nor a boolean
      counts as not greater than 0.
    \<^item> Numbers are integers (\<open>JNum\<close>): the client computes with attribute values from 1
      to 10 only; fractions, \<^verbatim>\<open>NaN\<close> and exponents are not modelled.
    \<^item> \<^verbatim>\<open>JSON.stringify\<close> is modelled up to the text: the body of a request is the
      value the server parses back, with \<^verbatim>\<open>undefined\<close> properties removed.
    \<^item> The message of a \<^verbatim>\<open>TypeError\<close> is the one of V8; no theorem depends on its text.
    \<^item> The browser's own validation of the form (\<^verbatim>\<open>required\<close>, \<^verbatim>\<open>type="email"\<close>) is
      modelled as far as \<^verbatim>\<open>required\<close>: \<open>can_submit\<close> does not check the syntax of the
      address, so the model allows more submissions than a browser does.

  \<^bold>\<open>Not modelled.\<close> The site composes the pages at the granularity of settled promises:
  requests in flight are modelled per screen (\<open>auth_trans\<close>, \<open>creation_trans\<close>,
  \<open>game_trans\<close>), and across a change of the screen for the logout only. The tabs of the
  game screen are presentation: all three lists are rendered and
  the model does not say which is visible. React's reaction to a render that throws
  (unmounting the tree) is not modelled; a throwing render is the value \<open>Inl\<close>. The
  components under \<^verbatim>\<open>components/ui\<close> and the style sheets are presentation only. The server
  is outside the repository: it is the parameter \<open>f\<close>; what the client needs of it is
  stated as predicates on \<open>f\<close> (\<open>keeps_interface\<close>, \<open>reads\<close>, \<open>failures_pure\<close>,
  \<open>issues_string_tokens\<close>), and the closed instances use small fixed servers
  (\<open>static_server\<close>, \<open>login_server\<close>, \<open>error_server\<close>, \<open>demo_server\<close>, \<open>game_server\<close>,
  \<open>travel_server\<close>). The scenarios of the specification that are about the server alone
  (what \<^verbatim>\<open>getGameState\<close> returns after a journey) are therefore hypotheses of the lemmas
  and not lemmas.
\<close>

section \<open>A server for the closed instances\<close>

definition rin_server :: "unit fetch" where
  "rin_server = static_server
     [(''http://localhost:8000/api/user/me'', demo_user),
      (''http://localhost:8000/api/game/state'', rin_state)]"

text \<open>
  \<open>session_server\<close> serves a whole first session; \<open>first_visit\<close>, \<open>signed_in\<close> and \<open>created\<close>
  are the site at the first visit, after the login form was filled in and submitted against
  it, and after the creation form was.
\<close>

definition session_server :: "unit fetch" where
  "session_server = static_server
     [(''http://localhost:8000/api/auth/login'', JObj [(''access_token'', JStr ''t1'')]),
      (''http://localhost:8000/api/user/me'', demo_user),
      (''http://localhost:8000/api/character/create'', rin),
      (''http://localhost:8000/api/game/state'', rin_state)]"

definition first_visit :: "unit site" where
  "first_visit = site_boot session_server (profile Map.empty ())"

definition signed_in :: "unit site" where
  "signed_in = site_run session_server
     [AuthEvent (SetEmail ''a@b.com''), AuthEvent (SetPassword ''pw''), AuthEvent SubmitForm] first_visit"

definition created :: "unit site" where
  "created = site_run session_server
     [CreationEvent (TypeName ''Rin''), CreationEvent (Slide Strength [JNum 7]), CreationEvent ClickCreate]
     signed_in"

text \<open>
  \<open>in_game\<close> is the application showing the game; \<open>leaving\<close> is the game screen of a
  logged-in user with an action in flight, and \<open>left_game\<close> the same screen after the logout
  button was pressed.
\<close>

definition in_game :: app_state where
  "in_game = \<lparr>isAuthenticated = True, hasCharacter = True, app_state.loading = False\<rparr>"

definition leaving :: "(app_state, unit \<times> (string \<times> request_init) list) game_sys" where
  "leaving = \<lparr>board = playing\<lparr>actionLoading := True\<rparr>,
     waiting = [AwaitAction ''Failed to generate character:'' (announce ''You encountered '') (Inr rin)],
     mounted = True, owner = in_game, window = setToken (JStr ''t1'') (client0 ((), []))\<rparr>"

definition left_game :: "(app_state, unit \<times> (string \<times> request_init) list) game_sys" where
  "left_game = leaving\<lparr>mounted := False, owner := fst (handleLogout (in_game, window leaving)),
     window := snd (handleLogout (in_game, window leaving))\<rparr>"

section \<open>Sessions against fixed servers\<close>

text \<open>
  A session against a server that knows the user and their character. A first
  visit shows the auth screen. Filling in the login form and submitting it stores the
  issued token and shows the character creation screen, although the server holds a
  character for this user: \<open>handleAuthSuccess\<close> sets \<open>isAuthenticated\<close> only, and
  \<open>hasCharacter\<close> was computed at start-up. Reloading the page with the stored token shows
  the game.
\<close>

theorem login_then_reload:
  "app_render (fst (boot demo_server (profile Map.empty ()))) = AuthScreen \<and>
   app_render (fst (snd (auth_run demo_server handleAuthSuccess
       [SetEmail ''a@b.com'', SetPassword ''pw'', SubmitForm]
       (auth_initial, boot demo_server (profile Map.empty ()))))) = CharacterCreationScreen \<and>
   localStorage (snd (snd (auth_run demo_server handleAuthSuccess
       [SetEmail ''a@b.com'', SetPassword ''pw'', SubmitForm]
       (auth_initial, boot demo_server (profile Map.empty ()))))) = [''token'' \<mapsto> ''t1''] \<and>
   app_render (fst (boot demo_server (profile [''token'' \<mapsto> ''t1''] ()))) = GameScreen"
  by (simp add: demo_defs run_defs app_initial_def auth_initial_def can_submit_def auth_render_def
      handleSubmit_def submit_start_def submit_op_def submit_finish_def handleAuthSuccess_def
      store_access_token_def setToken_def setItem_def)

section \<open>Start-up against a server that keeps the interfaces\<close>

text \<open>
  When the stored token is accepted and the game state the server returns is a
  \<^verbatim>\<open>GameState\<close> of the interface, the screen after start-up is decided by the presence of
  \<^verbatim>\<open>player_character\<close> alone: the game when it is present, character creation when it is
  absent. (The code tests truthiness; for values of the interface the two agree.)
\<close>

theorem typed_state_decides_screen:
  assumes "truthy (getItem (localStorage c) ''token'')"
    and "getCurrentUser f (constructor c) = (Inr user, c1)"
    and "getGameState f c1 = (Inr game, c2)"
    and "is_GameState game"
  shows "app_render (fst (boot f c)) =
           (if opt_chain game ''player_character'' = JUndefined
            then CharacterCreationScreen else GameScreen)"
proof -
  from assms(4) have "\<not> nullish game"
    by (intro is_object_not_nullish is_GameState_object)
  then obtain pc where pc: "get_prop game ''player_character'' = Inr pc"
    using get_prop_not_nullish by blast
  then have "opt_chain game ''player_character'' = pc"
    by (simp add: opt_chain_eq)
  with is_GameState_player_character [OF assms(4)] boot_fulfilled [OF assms(1-3) pc]
  show ?thesis by simp
qed

theorem typed_state_decides_screen_witness:
  "truthy (getItem (localStorage demo_profile) ''token'') \<and>
   getCurrentUser rin_server (constructor demo_profile) = (Inr demo_user, constructor demo_profile) \<and>
   getGameState rin_server (constructor demo_profile) = (Inr rin_state, constructor demo_profile) \<and>
   is_GameState rin_state \<and>
   app_render (fst (boot rin_server demo_profile)) = GameScreen"
proof -
  have t: "truthy (getItem (localStorage demo_profile) ''token'')"
    by (simp add: demo_defs getItem_def)
  have u: "getCurrentUser rin_server (constructor demo_profile) =
      (Inr demo_user, constructor demo_profile)"
    by (simp add: rin_server_def demo_defs run_defs)
  have g: "getGameState rin_server (constructor demo_profile) =
      (Inr rin_state, constructor demo_profile)"
    by (simp add: rin_server_def demo_defs run_defs)
  have p: "opt_chain rin_state ''player_character'' \<noteq> JUndefined"
    by (simp add: rin_state_def rin_def)
  from typed_state_decides_screen [OF t u g is_GameState_rin_state] t u g p
    is_GameState_rin_state
  show ?thesis by simp
qed

section \<open>Leaving the game\<close>

text \<open>
  The logout button of the game screen, with the application's \<open>handleLogout\<close> as the
  callback: the click is a \<open>LoggedOut\<close> step of the application, after which the auth screen
  is shown and the token is gone from the cache and from \<^verbatim>\<open>localStorage\<close>.
\<close>

theorem game_logout_is_app_step:
  assumes "app_render a = GameScreen" and "offered s LogoutClicked"
  shows "game_step f handleLogout LogoutClicked (s, a, c) = (s, handleLogout (a, c)) \<and>
         app_trans f (a, c) LoggedOut (handleLogout (a, c)) \<and>
         app_render (fst (handleLogout (a, c))) = AuthScreen \<and>
         token (snd (handleLogout (a, c))) = JNull \<and>
         localStorage (snd (handleLogout (a, c))) ''token'' = None"
  using assms app_trans.logged_out [of a f c]
  by (simp add: game_step_def handleLogout_def removeItem_def)

theorem game_logout_is_app_step_witness:
  "app_render in_game = GameScreen \<and> offered playing LogoutClicked \<and>
   game_step game_server handleLogout LogoutClicked (playing, in_game, setToken (JStr ''t1'') (client0 ())) =
     (playing, in_game\<lparr>isAuthenticated := False, hasCharacter := False\<rparr>, client0 ())"
  using game_logout_is_app_step [of in_game playing game_server "setToken (JStr ''t1'') (client0 ())"]
    logout_offered [of playing] is_GameState_world_state
  by (simp add: in_game_def handleLogout_def clearToken_def setToken_def client0_def
      constructor_def profile_def removeItem_def setItem_def getItem_def)

text \<open>
  C29 (logout_with_action_in_flight). Logging out while an action is in flight. The handler of the action
  goes on after the logout: when its answer arrives it sends the reload of the game state.
  The application shows the auth screen by then and the token is gone, so that request
  carries no \<^verbatim>\<open>Authorization\<close> header.
\<close>

theorem logout_with_action_in_flight:
  assumes "game_trans guarded (spy f) handleLogout x y" and "mounted x" and "\<not> mounted y"
    and "app_render (owner x) = GameScreen"
    and "waiting x = [AwaitAction label describe (Inr result)]" and "describe result = Inr msg"
    and "settles (spy f) y z"
  shows "app_render (owner z) = AuthScreen \<and> token (window z) = JNull \<and>
         (\<exists>r. waiting z = [AwaitReload r]) \<and>
         (\<exists>rq. sent (window z) = sent (window x) @ [rq] \<and>
               fst rq = API_URL (window x) @ ''/api/game/state'' \<and> authorization rq = None)"
proof -
  from assms(1,2,3) have y: "y = x\<lparr>mounted := False, owner := fst (handleLogout (owner x, window x)),
      window := snd (handleLogout (owner x, window x))\<rparr>"
    by (cases rule: game_trans.cases) (auto elim: settles.cases)
  from assms(7) show ?thesis
  proof (cases rule: settles.cases)
    case (action_fulfilled ps label' describe' result' qs msg' r c')
    from action_fulfilled(4) sent_reload [of f "window y"] have
      "sent c' = sent (window y) @ [(API_URL (window y) @ ''/api/game/state'',
         no_options\<lparr>headers := request_headers (token (window y)) no_options\<rparr>)]"
      and "token c' = token (window y)"
      using getGameState_same_store [of "window y" "spy f"] by (simp_all add: same_store_def)
    moreover from action_fulfilled(2) assms(5) have "ps = []" "qs = []"
      unfolding y by (simp_all add: singleton_split)
    ultimately show ?thesis using assms(4) unfolding action_fulfilled(1) y
      by (simp add: handleLogout_def authorization_def request_headers_Authorization
          no_options_def API_URL_def)
  qed (use assms(5,6) y in \<open>simp_all add: singleton_split\<close>)
qed

theorem logout_with_action_in_flight_witness:
  "game_trans False (spy game_server) handleLogout leaving left_game \<and>
   mounted leaving \<and> \<not> mounted left_game \<and> app_render (owner leaving) = GameScreen \<and>
   waiting leaving =
     [AwaitAction ''Failed to generate character:'' (announce ''You encountered '') (Inr rin)] \<and>
   announce ''You encountered '' rin = Inr (JStr ''You encountered Rin!'') \<and>
   settles (spy game_server) left_game (settle_next (spy game_server) left_game) \<and>
   map (\<lambda>rq. (fst rq, authorization rq)) (sent (window (settle_next (spy game_server) left_game))) =
     [(''http://localhost:8000/api/game/state'', None)]"
proof -
  have o: "offered (board leaving) LogoutClicked"
    using logout_offered [of "board leaving"] is_GameState_world_state by (simp add: leaving_def)
  have t: "game_trans False (spy game_server) handleLogout leaving left_game"
    using game_trans.logout [of leaving False "spy game_server" handleLogout] o
    by (simp add: left_game_def leaving_def)
  have s: "settles (spy game_server) left_game (settle_next (spy game_server) left_game)"
    by (rule settle_next_settles) (simp add: left_game_def leaving_def)
  from logout_with_action_in_flight [where describe = "announce ''You encountered ''" and result = rin
      and label = "''Failed to generate character:''", OF t _ _ _ _ announce_rin s]
    t s announce_rin
  show ?thesis
    by (simp add: left_game_def leaving_def in_game_def)
       (auto simp: sent_def client0_def constructor_def profile_def handleLogout_def clearToken_def
          setToken_def API_URL_def)
qed

section \<open>A first session\<close>

lemma first_visit_eq:
  "first_visit = (app_initial\<lparr>app_state.loading := False\<rparr>, Auth auth_initial, client0 ())"
  by (simp add: first_visit_def site_boot_def mount_def boot_def checkAuth_unfold constructor_def
      getItem_def profile_def client0_def app_initial_def app_render_def)

lemma signed_in_eq:
  "signed_in = (\<lparr>isAuthenticated = True, hasCharacter = False, app_state.loading = False\<rparr>,
     Creation creation_initial, setToken (JStr ''t1'') (client0 ()))"
  by (simp add: signed_in_def first_visit_eq rerender_def mount_def app_render_def
      session_server_def static_server_def eval_defs app_initial_def auth_initial_def can_submit_def
      auth_render_def handleSubmit_def submit_start_def submit_op_def submit_finish_def
      handleAuthSuccess_def store_access_token_def setToken_def setItem_def client0_def
      constructor_def profile_def getItem_def)

lemma created_eq:
  "created = (in_game, Game (game_initial\<lparr>gameState := rin_state, loading := False\<rparr>),
     setToken (JStr ''t1'') (client0 ()))"
  by (simp add: created_def signed_in_eq rerender_def mount_def app_render_def in_game_def
      session_server_def static_server_def eval_defs creation_initial_def
      handleAttributeChange_def setName_def buttons_disabled_def handleCreate_def create_finish_def
      request_start_def create_op_def createCharacter_def handleCharacterCreated_def
      game_mount_def loadGameState_def load_finish_def getGameState_def
      setToken_def setItem_def client0_def constructor_def profile_def getItem_def)


end
